theory Spec2Isabelle
  imports Complex_Main "HOL-Library.Word" "HOL-Library.Multiset"
begin


section \<open>JavaScript numbers\<close>

text \<open>
  The blur-scoring engine computes on JavaScript numbers. They are modelled as exact reals
  extended with the three special values of IEEE arithmetic and with \<open>undefined\<close> (the value
  of an array read out of range or of a missing object field, which every arithmetic
  operator coerces to \<open>NaN\<close>). Overflow and the sign of zero are not modelled, and every zero
  divisor is taken as \<open>+0\<close>. The scores are exact reals: rounding is modelled only where it
  decides a count (the number of patches a subject-focus variant retains), with the
  function \<open>double\<close> below.
\<close>

datatype jsval = Fin real | PInf | NInf | NaN | Undefined

fun jneg :: "jsval \<Rightarrow> jsval" where
  "jneg (Fin a) = Fin (- a)"
| "jneg PInf = NInf"
| "jneg NInf = PInf"
| "jneg _ = NaN"

fun jadd :: "jsval \<Rightarrow> jsval \<Rightarrow> jsval" where
  "jadd (Fin a) (Fin b) = Fin (a + b)"
| "jadd (Fin a) PInf = PInf"
| "jadd (Fin a) NInf = NInf"
| "jadd PInf (Fin b) = PInf"
| "jadd PInf PInf = PInf"
| "jadd NInf (Fin b) = NInf"
| "jadd NInf NInf = NInf"
| "jadd _ _ = NaN"

definition jsub :: "jsval \<Rightarrow> jsval \<Rightarrow> jsval" where
  "jsub a b = jadd a (jneg b)"

fun jmul :: "jsval \<Rightarrow> jsval \<Rightarrow> jsval" where
  "jmul (Fin a) (Fin b) = Fin (a * b)"
| "jmul (Fin a) PInf = (if 0 < a then PInf else if a < 0 then NInf else NaN)"
| "jmul (Fin a) NInf = (if 0 < a then NInf else if a < 0 then PInf else NaN)"
| "jmul PInf (Fin b) = (if 0 < b then PInf else if b < 0 then NInf else NaN)"
| "jmul NInf (Fin b) = (if 0 < b then NInf else if b < 0 then PInf else NaN)"
| "jmul PInf PInf = PInf"
| "jmul PInf NInf = NInf"
| "jmul NInf PInf = NInf"
| "jmul NInf NInf = PInf"
| "jmul _ _ = NaN"

fun jdiv :: "jsval \<Rightarrow> jsval \<Rightarrow> jsval" where
  "jdiv (Fin a) (Fin b) =
     (if b \<noteq> 0 then Fin (a / b) else if 0 < a then PInf else if a < 0 then NInf else NaN)"
| "jdiv (Fin a) PInf = Fin 0"
| "jdiv (Fin a) NInf = Fin 0"
| "jdiv PInf (Fin b) = (if 0 \<le> b then PInf else NInf)"
| "jdiv NInf (Fin b) = (if 0 \<le> b then NInf else PInf)"
| "jdiv _ _ = NaN"

text \<open>
  Rounding to the nearest double-precision number, ties to even. A double is an integer
  of at most 53 bits times a power of two, its unit, which is at least \<open>2\<^sup>-\<^sup>1\<^sup>0\<^sup>7\<^sup>4\<close>.
  \<open>ulp_of\<close> searches the unit for a positive \<open>x\<close> from 1, doubling or halving it at most
  1074 times: the halving stops at the least unit, and the doubling reaches every number
  in the range of the doubles.
\<close>

definition round_half_even :: "real \<Rightarrow> int" where
  "round_half_even x =
     (let f = \<lfloor>x\<rfloor>; d = x - of_int f
      in if d < 1 / 2 then f else if 1 / 2 < d then f + 1 else if even f then f else f + 1)"

fun ulp_of :: "nat \<Rightarrow> real \<Rightarrow> real \<Rightarrow> real" where
  "ulp_of 0 u x = u"
| "ulp_of (Suc k) u x =
     (if 2 ^ 53 * u \<le> x then ulp_of k (2 * u) x
      else if x < 2 ^ 52 * u then ulp_of k (u / 2) x
      else u)"

definition double :: "real \<Rightarrow> real" where
  "double x =
     (if x = 0 then 0
      else let u = ulp_of 1074 1 \<bar>x\<bar>
           in sgn x * (real_of_int (round_half_even (\<bar>x\<bar> / u)) * u))"

text \<open>The comparison operators: false as soon as one side is \<open>NaN\<close> or \<open>undefined\<close>.\<close>

fun jlt :: "jsval \<Rightarrow> jsval \<Rightarrow> bool" where
  "jlt (Fin a) (Fin b) = (a < b)"
| "jlt (Fin a) PInf = True"
| "jlt NInf (Fin b) = True"
| "jlt NInf PInf = True"
| "jlt _ _ = False"

definition jgt :: "jsval \<Rightarrow> jsval \<Rightarrow> bool" where
  "jgt a b = jlt b a"

fun jle :: "jsval \<Rightarrow> jsval \<Rightarrow> bool" where
  "jle (Fin a) (Fin b) = (a \<le> b)"
| "jle (Fin a) PInf = True"
| "jle NInf (Fin b) = True"
| "jle NInf PInf = True"
| "jle PInf PInf = True"
| "jle NInf NInf = True"
| "jle _ _ = False"

definition jge :: "jsval \<Rightarrow> jsval \<Rightarrow> bool" where
  "jge a b = jle b a"

fun Math_min :: "jsval \<Rightarrow> jsval \<Rightarrow> jsval" where
  "Math_min (Fin a) (Fin b) = Fin (min a b)"
| "Math_min (Fin a) PInf = Fin a"
| "Math_min (Fin a) NInf = NInf"
| "Math_min PInf (Fin b) = Fin b"
| "Math_min PInf PInf = PInf"
| "Math_min PInf NInf = NInf"
| "Math_min NInf (Fin b) = NInf"
| "Math_min NInf PInf = NInf"
| "Math_min NInf NInf = NInf"
| "Math_min _ _ = NaN"

fun Math_max :: "jsval \<Rightarrow> jsval \<Rightarrow> jsval" where
  "Math_max (Fin a) (Fin b) = Fin (max a b)"
| "Math_max (Fin a) PInf = PInf"
| "Math_max (Fin a) NInf = Fin a"
| "Math_max PInf (Fin b) = PInf"
| "Math_max PInf PInf = PInf"
| "Math_max PInf NInf = PInf"
| "Math_max NInf (Fin b) = Fin b"
| "Math_max NInf PInf = PInf"
| "Math_max NInf NInf = NInf"
| "Math_max _ _ = NaN"

fun Math_sqrt :: "jsval \<Rightarrow> jsval" where
  "Math_sqrt (Fin a) = (if 0 \<le> a then Fin (sqrt a) else NaN)"
| "Math_sqrt PInf = PInf"
| "Math_sqrt _ = NaN"

fun Math_exp :: "jsval \<Rightarrow> jsval" where
  "Math_exp (Fin a) = Fin (exp a)"
| "Math_exp PInf = PInf"
| "Math_exp NInf = Fin 0"
| "Math_exp _ = NaN"

fun Math_log10 :: "jsval \<Rightarrow> jsval" where
  "Math_log10 (Fin a) = (if 0 < a then Fin (log 10 a) else if a = 0 then NInf else NaN)"
| "Math_log10 PInf = PInf"
| "Math_log10 _ = NaN"

fun Math_floor :: "jsval \<Rightarrow> jsval" where
  "Math_floor (Fin a) = Fin (of_int \<lfloor>a\<rfloor>)"
| "Math_floor PInf = PInf"
| "Math_floor NInf = NInf"
| "Math_floor _ = NaN"

fun Math_ceil :: "jsval \<Rightarrow> jsval" where
  "Math_ceil (Fin a) = Fin (of_int \<lceil>a\<rceil>)"
| "Math_ceil PInf = PInf"
| "Math_ceil NInf = NInf"
| "Math_ceil _ = NaN"

text \<open>\<open>Math.round\<close> rounds half up.\<close>

fun Math_round :: "jsval \<Rightarrow> jsval" where
  "Math_round (Fin a) = Fin (of_int \<lfloor>a + 1 / 2\<rfloor>)"
| "Math_round PInf = PInf"
| "Math_round NInf = NInf"
| "Math_round _ = NaN"

text \<open>\<open>i % n\<close> on two array indices; \<open>i % 0\<close> is \<open>NaN\<close>.\<close>

definition jmod :: "nat \<Rightarrow> nat \<Rightarrow> jsval" where
  "jmod i n = (if n = 0 then NaN else Fin (real (i mod n)))"

text \<open>An array read \<open>xs[i]\<close>: \<open>undefined\<close> out of range.\<close>

definition arr_at :: "jsval list \<Rightarrow> nat \<Rightarrow> jsval" where
  "arr_at xs i = (if i < length xs then xs ! i else Undefined)"

text \<open>
  A store into a typed array (\<open>Float32Array\<close>): the value is converted to a number, and a
  store out of range is ignored.
\<close>

fun ToNumber :: "jsval \<Rightarrow> jsval" where
  "ToNumber Undefined = NaN"
| "ToNumber v = v"

definition f32_set :: "jsval list \<Rightarrow> nat \<Rightarrow> jsval \<Rightarrow> jsval list" where
  "f32_set arr idx v = (if idx < length arr then arr[idx := ToNumber v] else arr)"

section \<open>Decoded images\<close>

text \<open>
  Every kernel starts with \<open>sharp(imageBuffer).grayscale().raw().toBuffer(...)\<close>. The image
  library is an external collaborator: the decoder is a parameter \<open>dec\<close> of the model, which
  either throws (an error message) or yields the raw bytes with the width and the height.
\<close>

record raw_image =
  data :: "8 word list"
  width :: nat
  height :: nat

type_synonym 'b decoder = "'b \<Rightarrow> string + raw_image"

text \<open>A pixel read \<open>pixels[i]\<close> of the byte buffer.\<close>

definition px :: "8 word list \<Rightarrow> nat \<Rightarrow> jsval" where
  "px pixels i = (if i < length pixels then Fin (real (unat (pixels ! i))) else Undefined)"

section \<open>The focus-measure kernels\<close>

subsection \<open>LaplacianDetector\<close>

definition laplacian_at :: "8 word list \<Rightarrow> nat \<Rightarrow> nat \<Rightarrow> nat \<Rightarrow> jsval" where
  "laplacian_at pixels w y x =
     jadd (jadd (jadd (jadd
       (jmul (px pixels ((y - 1) * w + x)) (Fin 1))
       (jmul (px pixels (y * w + (x - 1))) (Fin 1)))
       (jmul (px pixels (y * w + x)) (Fin (- 4))))
       (jmul (px pixels (y * w + (x + 1))) (Fin 1)))
       (jmul (px pixels ((y + 1) * w + x)) (Fin 1))"

definition applyLaplacian :: "8 word list \<Rightarrow> nat \<Rightarrow> nat \<Rightarrow> jsval list" where
  "applyLaplacian pixels w h =
     foldl (\<lambda>result y.
       foldl (\<lambda>result x. f32_set result (y * w + x) (laplacian_at pixels w y x))
         result [1 ..< w - 1])
       (replicate (length pixels) (Fin 0)) [1 ..< h - 1]"

definition calculateVariance :: "jsval list \<Rightarrow> jsval" where
  "calculateVariance xs =
     (let sum = foldl jadd (Fin 0) xs;
          count = Fin (real (length xs));
          mean = jdiv sum count;
          varianceSum = foldl (\<lambda>acc d. let diff = jsub d mean in jadd acc (jmul diff diff))
                          (Fin 0) xs
      in jdiv varianceSum count)"

definition LaplacianDetector_calculateBlurScore :: "'b decoder \<Rightarrow> 'b \<Rightarrow> string + jsval" where
  "LaplacianDetector_calculateBlurScore dec imageBuffer =
     (case dec imageBuffer of
        Inl message \<Rightarrow> Inl (''Failed to calculate blur score: '' @ message)
      | Inr img \<Rightarrow> Inr (calculateVariance (applyLaplacian (data img) (width img) (height img))))"

subsection \<open>VarianceDetector\<close>

definition VarianceDetector_calculateVariance :: "8 word list \<Rightarrow> jsval" where
  "VarianceDetector_calculateVariance pixels =
     (let n = length pixels;
          sum = foldl (\<lambda>sum i. jadd sum (px pixels i)) (Fin 0) [0 ..< n];
          mean = jdiv sum (Fin (real n));
          varianceSum = foldl (\<lambda>acc i. let diff = jsub (px pixels i) mean
                                        in jadd acc (jmul diff diff)) (Fin 0) [0 ..< n]
      in jdiv varianceSum (Fin (real n)))"

definition VarianceDetector_calculateBlurScore :: "'b decoder \<Rightarrow> 'b \<Rightarrow> string + jsval" where
  "VarianceDetector_calculateBlurScore dec imageBuffer =
     (case dec imageBuffer of
        Inl message \<Rightarrow> Inl (''Failed to calculate variance score: '' @ message)
      | Inr img \<Rightarrow> Inr (VarianceDetector_calculateVariance (data img)))"

subsection \<open>GradientDetector and TenengradDetector\<close>

definition sobelX_at :: "8 word list \<Rightarrow> nat \<Rightarrow> nat \<Rightarrow> nat \<Rightarrow> jsval" where
  "sobelX_at pixels w y x =
     jadd (jadd (jadd (jadd (jadd (jadd (Fin 0)
       (jmul (px pixels ((y - 1) * w + (x - 1))) (Fin (- 1))))
       (jmul (px pixels ((y - 1) * w + (x + 1))) (Fin 1)))
       (jmul (px pixels (y * w + (x - 1))) (Fin (- 2))))
       (jmul (px pixels (y * w + (x + 1))) (Fin 2)))
       (jmul (px pixels ((y + 1) * w + (x - 1))) (Fin (- 1))))
       (jmul (px pixels ((y + 1) * w + (x + 1))) (Fin 1))"

definition sobelY_at :: "8 word list \<Rightarrow> nat \<Rightarrow> nat \<Rightarrow> nat \<Rightarrow> jsval" where
  "sobelY_at pixels w y x =
     jadd (jadd (jadd (jadd (jadd (jadd (Fin 0)
       (jmul (px pixels ((y - 1) * w + (x - 1))) (Fin (- 1))))
       (jmul (px pixels ((y - 1) * w + x)) (Fin (- 2))))
       (jmul (px pixels ((y - 1) * w + (x + 1))) (Fin (- 1))))
       (jmul (px pixels ((y + 1) * w + (x - 1))) (Fin 1)))
       (jmul (px pixels ((y + 1) * w + x)) (Fin 2)))
       (jmul (px pixels ((y + 1) * w + (x + 1))) (Fin 1))"

text \<open>
  \<open>calculateGradients\<close> is the same function in both detectors; it fills the two arrays
  \<open>gx\<close> and \<open>gy\<close> in one double loop.
\<close>

definition calculateGradients :: "8 word list \<Rightarrow> nat \<Rightarrow> nat \<Rightarrow> jsval list \<times> jsval list" where
  "calculateGradients pixels w h =
     foldl (\<lambda>g y.
       foldl (\<lambda>(gx, gy) x.
           (f32_set gx (y * w + x) (sobelX_at pixels w y x),
            f32_set gy (y * w + x) (sobelY_at pixels w y x)))
         g [1 ..< w - 1])
       (replicate (length pixels) (Fin 0), replicate (length pixels) (Fin 0))
       [1 ..< h - 1]"

definition calculateMagnitude :: "jsval list \<Rightarrow> jsval list \<Rightarrow> jsval list" where
  "calculateMagnitude gx gy =
     foldl (\<lambda>magnitude i.
         f32_set magnitude i
           (Math_sqrt (jadd (jmul (arr_at gx i) (arr_at gx i)) (jmul (arr_at gy i) (arr_at gy i)))))
       (replicate (length gx) (Fin 0)) [0 ..< length gx]"

definition GradientDetector_calculateBlurScore :: "'b decoder \<Rightarrow> 'b \<Rightarrow> string + jsval" where
  "GradientDetector_calculateBlurScore dec imageBuffer =
     (case dec imageBuffer of
        Inl message \<Rightarrow> Inl (''Failed to calculate gradient score: '' @ message)
      | Inr img \<Rightarrow>
          (let (gx, gy) = calculateGradients (data img) (width img) (height img);
               magnitude = calculateMagnitude gx gy;
               sum = foldl jadd (Fin 0) magnitude
           in Inr (jdiv sum (Fin (real (length magnitude))))))"

definition squaredMagnitude :: "jsval list \<Rightarrow> jsval list \<Rightarrow> jsval list" where
  "squaredMagnitude gx gy =
     foldl (\<lambda>sq i. f32_set sq i (jadd (jmul (arr_at gx i) (arr_at gx i)) (jmul (arr_at gy i) (arr_at gy i))))
       (replicate (length gx) (Fin 0)) [0 ..< length gx]"

definition TenengradDetector_calculateBlurScore :: "'b decoder \<Rightarrow> 'b \<Rightarrow> string + jsval" where
  "TenengradDetector_calculateBlurScore dec imageBuffer =
     (case dec imageBuffer of
        Inl message \<Rightarrow> Inl (''Failed to calculate Tenengrad score: '' @ message)
      | Inr img \<Rightarrow>
          (let (gx, gy) = calculateGradients (data img) (width img) (height img);
               sq = squaredMagnitude gx gy;
               n = Fin (real (length sq));
               mean = jdiv (foldl jadd (Fin 0) sq) n;
               varianceSum = foldl (\<lambda>acc d. let diff = jsub d mean
                                             in jadd acc (jmul diff diff)) (Fin 0) sq
           in Inr (jdiv varianceSum n)))"

section \<open>CompositeDetector\<close>

text \<open>
  The four scores of one image, raw or normalized, and the calibration statistics are
  objects with one field per algorithm.
\<close>

record 'a quad =
  laplacian :: 'a
  gradient :: 'a
  tenengrad :: 'a
  variance :: 'a

record algo_stats =
  p5 :: jsval
  p95 :: jsval
  median :: jsval
  min_s :: jsval
  max_s :: jsval

record calibration_stats = "algo_stats quad" +
  sampleSize :: nat
  patchMode :: bool
  totalSamples :: nat
  version :: string

text \<open>
  The object \<open>calculateBlurScore\<close> returns: the four raw scores, the composite and the
  normalized scores.
\<close>

record composite_score = "jsval quad" +
  composite :: jsval
  normalized :: "jsval quad"

definition CompositeDetector_clip :: "jsval \<Rightarrow> jsval \<Rightarrow> jsval \<Rightarrow> jsval" where
  "CompositeDetector_clip v lo hi = Math_max lo (Math_min hi v)"

definition normalizeHandTuned :: "jsval \<Rightarrow> jsval \<Rightarrow> jsval \<Rightarrow> jsval \<Rightarrow> jsval quad" where
  "normalizeHandTuned laplacianScore gradientScore tenengradScore varianceScore =
     (let normalizedLaplacian = Math_min (Fin 100) (jdiv laplacianScore (Fin 0.5));
          normalizedGradient = Math_min (Fin 100) (jdiv gradientScore (Fin 0.3));
          tenengradLog = (if jgt tenengradScore (Fin 0) then Math_log10 tenengradScore else Fin 0);
          normalizedTenengrad =
            Math_max (Fin 0)
              (Math_min (Fin 100) (jmul (jdiv (jsub tenengradLog (Fin 2)) (Fin 6)) (Fin 100)));
          normalizedVariance = Math_min (Fin 100) (jdiv varianceScore (Fin 10))
      in \<lparr>laplacian = normalizedLaplacian, gradient = normalizedGradient,
          tenengrad = normalizedTenengrad, variance = normalizedVariance\<rparr>)"

definition normalizePercentile ::
  "calibration_stats \<Rightarrow> jsval \<Rightarrow> jsval \<Rightarrow> jsval \<Rightarrow> jsval \<Rightarrow> jsval quad" where
  "normalizePercentile stats laplacianScore gradientScore tenengradScore varianceScore =
     (let normalizedLaplacian = jmul (Fin 100) (CompositeDetector_clip
            (jdiv (jsub laplacianScore (p5 (laplacian stats)))
                  (jsub (p95 (laplacian stats)) (p5 (laplacian stats))))
            (Fin 0) (Fin 1));
          normalizedGradient = jmul (Fin 100) (CompositeDetector_clip
            (jdiv (jsub gradientScore (p5 (gradient stats)))
                  (jsub (p95 (gradient stats)) (p5 (gradient stats))))
            (Fin 0) (Fin 1));
          tenengradLog = (if jgt tenengradScore (Fin 0) then Math_log10 tenengradScore else Fin 0);
          p5Log = (if jgt (p5 (tenengrad stats)) (Fin 0)
                   then Math_log10 (p5 (tenengrad stats)) else Fin 0);
          p95Log = (if jgt (p95 (tenengrad stats)) (Fin 0)
                    then Math_log10 (p95 (tenengrad stats)) else Fin 0);
          normalizedTenengrad = jmul (Fin 100) (CompositeDetector_clip
            (jdiv (jsub tenengradLog p5Log) (jsub p95Log p5Log)) (Fin 0) (Fin 1));
          normalizedVariance = jmul (Fin 100) (CompositeDetector_clip
            (jdiv (jsub varianceScore (p5 (variance stats)))
                  (jsub (p95 (variance stats)) (p5 (variance stats))))
            (Fin 0) (Fin 1))
      in \<lparr>laplacian = normalizedLaplacian, gradient = normalizedGradient,
          tenengrad = normalizedTenengrad, variance = normalizedVariance\<rparr>)"

text \<open>The weighted average of \<open>calculateBlurScore\<close>, with the weights as the source writes them.\<close>

definition compositeScore :: "jsval quad \<Rightarrow> jsval" where
  "compositeScore n =
     jadd (jadd (jadd
       (jmul (laplacian n) (Fin 0.30))
       (jmul (gradient n) (Fin 0.20)))
       (jmul (tenengrad n) (Fin 0.40)))
       (jmul (variance n) (Fin 0.10))"

text \<open>
  \<open>calculateBlurScore\<close> awaits the four kernels with \<open>Promise.all\<close>, which rejects as soon
  as one kernel rejects; all four decode the same buffer, and the model reports the first
  failure in the order of the array. The detector is its calibration statistics, if any
  (\<open>useCalibration = !!calibrationStats\<close>).
\<close>

definition CompositeDetector_calculateBlurScore ::
  "calibration_stats option \<Rightarrow> 'b decoder \<Rightarrow> 'b \<Rightarrow> string + composite_score" where
  "CompositeDetector_calculateBlurScore calibrationStats dec imageBuffer =
     (case LaplacianDetector_calculateBlurScore dec imageBuffer of
        Inl message \<Rightarrow> Inl (''Failed to calculate composite score: '' @ message)
      | Inr laplacianScore \<Rightarrow>
     (case GradientDetector_calculateBlurScore dec imageBuffer of
        Inl message \<Rightarrow> Inl (''Failed to calculate composite score: '' @ message)
      | Inr gradientScore \<Rightarrow>
     (case TenengradDetector_calculateBlurScore dec imageBuffer of
        Inl message \<Rightarrow> Inl (''Failed to calculate composite score: '' @ message)
      | Inr tenengradScore \<Rightarrow>
     (case VarianceDetector_calculateBlurScore dec imageBuffer of
        Inl message \<Rightarrow> Inl (''Failed to calculate composite score: '' @ message)
      | Inr varianceScore \<Rightarrow>
          (let normalized =
                 (case calibrationStats of
                    Some stats \<Rightarrow> normalizePercentile stats
                        laplacianScore gradientScore tenengradScore varianceScore
                  | None \<Rightarrow> normalizeHandTuned
                        laplacianScore gradientScore tenengradScore varianceScore)
           in Inr \<lparr>laplacian = laplacianScore, gradient = gradientScore,
                   tenengrad = tenengradScore, variance = varianceScore,
                   composite = compositeScore normalized, normalized = normalized\<rparr>)))))"

definition CompositeDetector_isBlurry :: "composite_score \<Rightarrow> jsval \<Rightarrow> bool" where
  "CompositeDetector_isBlurry scores threshold = jlt (composite scores) threshold"


section \<open>Sorting and array reads\<close>

text \<open>
  \<open>Array.prototype.sort\<close> with a comparator is a stable sort: \<open>cmp a b > 0\<close> puts \<open>a\<close>
  after \<open>b\<close>, and elements the comparator does not order keep their places. For a
  consistent comparator every stable sort returns the same array; the model is insertion
  sort. With a \<open>NaN\<close> key the comparator is not consistent and ECMAScript leaves the order
  to the implementation: there the model fixes one permutation. \<open>undefined\<close> elements go
  last without the comparator being asked.
\<close>

fun insort_by :: "('a \<Rightarrow> 'a \<Rightarrow> jsval) \<Rightarrow> 'a \<Rightarrow> 'a list \<Rightarrow> 'a list" where
  "insort_by cmp a [] = [a]"
| "insort_by cmp a (b # bs) =
     (if jgt (cmp a b) (Fin 0) then b # insort_by cmp a bs else a # b # bs)"

definition sort_by :: "('a \<Rightarrow> 'a \<Rightarrow> jsval) \<Rightarrow> 'a list \<Rightarrow> 'a list" where
  "sort_by cmp xs = foldr (insort_by cmp) xs []"

definition sort_numbers :: "(jsval \<Rightarrow> jsval \<Rightarrow> jsval) \<Rightarrow> jsval list \<Rightarrow> jsval list" where
  "sort_numbers cmp xs =
     sort_by cmp (filter (\<lambda>v. v \<noteq> Undefined) xs) @ filter (\<lambda>v. v = Undefined) xs"

text \<open>
  An array read \<open>xs[i]\<close> where the index is a number: \<open>undefined\<close> unless the index is an
  integer within the array.
\<close>

fun arr_get :: "jsval list \<Rightarrow> jsval \<Rightarrow> jsval" where
  "arr_get xs (Fin r) = (if 0 \<le> r \<and> of_int \<lfloor>r\<rfloor> = r then arr_at xs (nat \<lfloor>r\<rfloor>) else Undefined)"
| "arr_get xs _ = Undefined"

section \<open>PatchBasedDetector\<close>

subsection \<open>Patches\<close>

text \<open>
  \<open>divideIntoPatches\<close> asks the image library for the size of the image and for each
  sub-region; both calls are parameters of the model (\<open>meta\<close> yields width and height,
  \<open>extract buf left top width height\<close> the buffer of a region), and either may throw.
\<close>

record 'b patch =
  patch_x :: nat
  patch_y :: nat
  patch_left :: nat
  patch_top :: nat
  patch_width :: nat
  patch_height :: nat
  patch_buffer :: 'b

text \<open>A loop whose body may throw: the first failure ends it.\<close>

fun traverse :: "('a \<Rightarrow> string + 'c) \<Rightarrow> 'a list \<Rightarrow> string + 'c list" where
  "traverse f [] = Inr []"
| "traverse f (a # as) =
     (case f a of
        Inl message \<Rightarrow> Inl message
      | Inr v \<Rightarrow> (case traverse f as of Inl message \<Rightarrow> Inl message | Inr vs \<Rightarrow> Inr (v # vs)))"

definition divideIntoPatches ::
  "('b \<Rightarrow> string + nat \<times> nat) \<Rightarrow> ('b \<Rightarrow> nat \<Rightarrow> nat \<Rightarrow> nat \<Rightarrow> nat \<Rightarrow> string + 'b) \<Rightarrow>
   'b \<Rightarrow> nat \<Rightarrow> nat \<Rightarrow> string + 'b patch list" where
  "divideIntoPatches meta extract imageBuffer nx ny =
     (case meta imageBuffer of
        Inl message \<Rightarrow> Inl message
      | Inr (w, h) \<Rightarrow>
          (let patchWidth = w div nx; patchHeight = h div ny
           in traverse (\<lambda>(y, x).
                (let left = x * patchWidth; top = y * patchHeight
                 in case extract imageBuffer left top patchWidth patchHeight of
                      Inl message \<Rightarrow> Inl message
                    | Inr patchBuffer \<Rightarrow>
                        Inr \<lparr>patch_x = x, patch_y = y, patch_left = left, patch_top = top,
                             patch_width = patchWidth, patch_height = patchHeight,
                             patch_buffer = patchBuffer\<rparr>))
              (List.product [0 ..< ny] [0 ..< nx])))"

text \<open>The score object of one patch: the composite score object and the grid position.\<close>

record patch_score = composite_score +
  grid_x :: nat
  grid_y :: nat

subsection \<open>PatchBasedDetector.percentile\<close>

definition PatchBasedDetector_percentile :: "jsval list \<Rightarrow> jsval \<Rightarrow> jsval" where
  "PatchBasedDetector_percentile arr p =
     (if length arr = 0 then Fin 0
      else
        (let sorted = sort_numbers (\<lambda>a b. jsub a b) arr;
             index = jmul (jdiv p (Fin 100)) (jsub (Fin (real (length sorted))) (Fin 1));
             lower = Math_floor index;
             upper = Math_ceil index;
             weight = jsub index lower
         in if jge upper (Fin (real (length sorted))) then arr_at sorted (length sorted - 1)
            else jadd (jmul (arr_get sorted lower) (jsub (Fin 1) weight))
                      (jmul (arr_get sorted upper) weight)))"

subsection \<open>Position weights\<close>

text \<open>
  Both \<open>calculateCenterWeighted\<close> and \<open>calculateSubjectFocusVariant\<close> compute, for the patch
  at index \<open>i\<close> of an \<open>nx\<close> by \<open>ny\<close> grid, the Gaussian weight of its distance from the
  centre of the grid; the former writes \<open>sigma = 0.5\<close> out as a literal.
\<close>

definition positionWeight :: "nat \<Rightarrow> nat \<Rightarrow> real \<Rightarrow> nat \<Rightarrow> jsval" where
  "positionWeight nx ny sigma i =
     (let centerX = jdiv (jsub (Fin (real nx)) (Fin 1)) (Fin 2);
          centerY = jdiv (jsub (Fin (real ny)) (Fin 1)) (Fin 2);
          x = jmod i nx;
          y = Math_floor (jdiv (Fin (real i)) (Fin (real nx)));
          dx = jdiv (jsub x centerX) centerX;
          dy = jdiv (jsub y centerY) centerY;
          distance = Math_sqrt (jadd (jmul dx dx) (jmul dy dy))
      in Math_exp (jdiv (jmul (jneg distance) distance)
                        (jmul (jmul (Fin 2) (Fin sigma)) (Fin sigma))))"

subsection \<open>calculateCenterWeighted\<close>

definition calculateCenterWeighted :: "patch_score list \<Rightarrow> nat \<Rightarrow> nat \<Rightarrow> jsval" where
  "calculateCenterWeighted patches nx ny =
     (let (weightedSum, totalWeight) =
            foldl (\<lambda>(weightedSum, totalWeight) i.
                (let weight = positionWeight nx ny 0.5 i
                 in (jadd weightedSum (jmul (composite (patches ! i)) weight),
                     jadd totalWeight weight)))
              (Fin 0, Fin 0) [0 ..< length patches]
      in jdiv weightedSum totalWeight)"

subsection \<open>calculateSubjectFocusVariant and its six instances\<close>

record scored_patch =
  sp_composite :: jsval
  sp_positionWeight :: jsval
  sp_index :: nat

definition scoredPatches :: "patch_score list \<Rightarrow> nat \<Rightarrow> nat \<Rightarrow> real \<Rightarrow> scored_patch list" where
  "scoredPatches patches nx ny sigma =
     map (\<lambda>i. \<lparr>sp_composite = composite (patches ! i),
               sp_positionWeight = positionWeight nx ny sigma i,
               sp_index = i\<rparr>) [0 ..< length patches]"

text \<open>
  \<open>topN = Math.max(3, Math.ceil(patchScores.length * topPercent))\<close> is an integer, and
  \<open>slice(0, topN)\<close> keeps the first \<open>topN\<close> elements, or all of them when there are fewer.
  The product is a product of doubles: \<open>topPercent\<close> is a decimal literal of the source,
  which denotes the nearest double, and the product is rounded to the nearest double
  before \<open>Math.ceil\<close> reads it. So \<open>25 * 0.28\<close> is \<open>7.000000000000001\<close>, and its ceiling is 8.
\<close>

definition topN :: "nat \<Rightarrow> real \<Rightarrow> int" where
  "topN n topPercent = max 3 \<lceil>double (real n * double topPercent)\<rceil>"

definition topPatches :: "patch_score list \<Rightarrow> nat \<Rightarrow> nat \<Rightarrow> real \<Rightarrow> real \<Rightarrow> scored_patch list" where
  "topPatches patches nx ny topPercent sigma =
     take (nat (topN (length patches) topPercent))
       (sort_by (\<lambda>a b. jsub (sp_composite b) (sp_composite a))
          (scoredPatches patches nx ny sigma))"

definition calculateSubjectFocusVariant ::
  "patch_score list \<Rightarrow> nat \<Rightarrow> nat \<Rightarrow> real \<Rightarrow> real \<Rightarrow> jsval" where
  "calculateSubjectFocusVariant patches nx ny topPercent sigma =
     (let (weightedSum, totalWeight) =
            foldl (\<lambda>(weightedSum, totalWeight) patch.
                (jadd weightedSum (jmul (sp_composite patch) (sp_positionWeight patch)),
                 jadd totalWeight (sp_positionWeight patch)))
              (Fin 0, Fin 0) (topPatches patches nx ny topPercent sigma)
      in jdiv weightedSum totalWeight)"

definition calculateSubjectFocusAggressive :: "patch_score list \<Rightarrow> nat \<Rightarrow> nat \<Rightarrow> jsval" where
  "calculateSubjectFocusAggressive patches nx ny =
     calculateSubjectFocusVariant patches nx ny 0.08 1.5"

definition calculateSubjectFocus :: "patch_score list \<Rightarrow> nat \<Rightarrow> nat \<Rightarrow> jsval" where
  "calculateSubjectFocus patches nx ny = calculateSubjectFocusVariant patches nx ny 0.12 1.0"

definition calculateSubjectFocusConservative :: "patch_score list \<Rightarrow> nat \<Rightarrow> nat \<Rightarrow> jsval" where
  "calculateSubjectFocusConservative patches nx ny =
     calculateSubjectFocusVariant patches nx ny 0.18 0.7"

definition calculateSubjectFocusRelaxed :: "patch_score list \<Rightarrow> nat \<Rightarrow> nat \<Rightarrow> jsval" where
  "calculateSubjectFocusRelaxed patches nx ny =
     calculateSubjectFocusVariant patches nx ny 0.28 0.5"

definition calculateSubjectFocusStrict :: "patch_score list \<Rightarrow> nat \<Rightarrow> nat \<Rightarrow> jsval" where
  "calculateSubjectFocusStrict patches nx ny =
     calculateSubjectFocusVariant patches nx ny 0.38 0.4"

definition calculateSubjectFocusVeryStrict :: "patch_score list \<Rightarrow> nat \<Rightarrow> nat \<Rightarrow> jsval" where
  "calculateSubjectFocusVeryStrict patches nx ny =
     calculateSubjectFocusVariant patches nx ny 0.40 0.35"

subsection \<open>calculatePeakFocus\<close>

definition PatchBasedDetector_clip :: "jsval \<Rightarrow> jsval \<Rightarrow> jsval \<Rightarrow> jsval" where
  "PatchBasedDetector_clip v lo hi = Math_min (Math_max v lo) hi"

definition peakPatches :: "patch_score list \<Rightarrow> patch_score list" where
  "peakPatches patches = take 3 (sort_by (\<lambda>a b. jsub (composite b) (composite a)) patches)"

definition calculatePeakFocus :: "calibration_stats option \<Rightarrow> patch_score list \<Rightarrow> jsval" where
  "calculatePeakFocus calibrationStats patches =
     (let top = peakPatches patches;
          avgTenengrad = jdiv (foldl (\<lambda>sum p. jadd sum (tenengrad p)) (Fin 0) top)
                              (Fin (real (length top)));
          tenengradLog = (if jgt avgTenengrad (Fin 0) then Math_log10 avgTenengrad else Fin 0)
      in case calibrationStats of
           Some stats \<Rightarrow>
             (let p5Log = (if jgt (p5 (tenengrad stats)) (Fin 0)
                           then Math_log10 (p5 (tenengrad stats)) else Fin 0);
                  p95Log = (if jgt (p95 (tenengrad stats)) (Fin 0)
                            then Math_log10 (p95 (tenengrad stats)) else Fin 0)
              in jmul (Fin 100)
                   (PatchBasedDetector_clip (jdiv (jsub tenengradLog p5Log) (jsub p95Log p5Log))
                      (Fin 0) (Fin 1)))
         | None \<Rightarrow>
             jmul (Fin 100)
               (PatchBasedDetector_clip (jdiv (jsub tenengradLog (Fin 3.0)) (jsub (Fin 9.0) (Fin 3.0)))
                  (Fin 0) (Fin 1)))"


subsection \<open>calculateBlurScore: the blur map and the aggregation strategies\<close>

record histogram =
  very_blurry :: nat
  blurry :: nat
  borderline :: nat
  sharp :: nat
  very_sharp :: nat

text \<open>
  The fields that both the object returned by \<open>calculateBlurScore\<close> and the \<open>scores\<close> object
  of an analysis result have.
\<close>

record patch_summary =
  maxFocus :: jsval
  minFocus :: jsval
  avgFocus :: jsval
  centerWeighted :: jsval
  subjectFocusAggressive :: jsval
  subjectFocus :: jsval
  subjectFocusConservative :: jsval
  subjectFocusRelaxed :: jsval
  subjectFocusStrict :: jsval
  subjectFocusVeryStrict :: jsval
  peakFocus :: jsval
  top10Percentile :: jsval
  top25Percentile :: jsval
  medianFocus :: jsval
  sharpPatchCount :: nat
  sharpPatchRatio :: jsval
  histogram :: histogram
  blurMap :: "jsval list list"
  patchScores :: "patch_score list"
  patchesX :: nat
  patchesY :: nat

text \<open>
  \<open>calculateBlurScore\<close> returns these and two more fields; its field \<open>composite\<close> (the
  default score, \<open>maxFocus\<close>) is \<open>defaultComposite\<close> here.
\<close>

record patch_result = patch_summary +
  defaultComposite :: jsval
  patchCount :: nat

text \<open>
  The blur map reads \<open>patchScores[y * patchesX + x].composite\<close>, which throws a
  \<open>TypeError\<close> when the index is outside the array.
\<close>

definition blurMapOf :: "patch_score list \<Rightarrow> nat \<Rightarrow> nat \<Rightarrow> string + jsval list list" where
  "blurMapOf patches nx ny =
     traverse (\<lambda>y.
       traverse (\<lambda>x.
         (let idx = y * nx + x
          in if idx < length patches then Inr (composite (patches ! idx))
             else Inl ''Cannot read properties of undefined'')) [0 ..< nx]) [0 ..< ny]"

text \<open>
  The aggregation of the patch scores (from \<open>// Aggregation strategies\<close> to the returned
  object). \<open>Math.max\<close> and \<open>Math.min\<close> of no argument are \<open>-Infinity\<close> and \<open>Infinity\<close>.
\<close>

definition aggregate ::
  "calibration_stats option \<Rightarrow> patch_score list \<Rightarrow> nat \<Rightarrow> nat \<Rightarrow> jsval list list \<Rightarrow> patch_result"
  where
  "aggregate calibrationStats patches nx ny bm =
     (let compositeScores = map composite patches;
          n = Fin (real (length compositeScores));
          max_focus = foldl Math_max NInf (map ToNumber compositeScores);
          count = length (filter (\<lambda>s. jgt s (Fin 30)) compositeScores)
      in \<lparr>maxFocus = max_focus,
          minFocus = foldl Math_min PInf (map ToNumber compositeScores),
          avgFocus = jdiv (foldl jadd (Fin 0) compositeScores) n,
          centerWeighted = calculateCenterWeighted patches nx ny,
          subjectFocusAggressive = calculateSubjectFocusAggressive patches nx ny,
          subjectFocus = calculateSubjectFocus patches nx ny,
          subjectFocusConservative = calculateSubjectFocusConservative patches nx ny,
          subjectFocusRelaxed = calculateSubjectFocusRelaxed patches nx ny,
          subjectFocusStrict = calculateSubjectFocusStrict patches nx ny,
          subjectFocusVeryStrict = calculateSubjectFocusVeryStrict patches nx ny,
          peakFocus = calculatePeakFocus calibrationStats patches,
          top10Percentile = PatchBasedDetector_percentile compositeScores (Fin 90),
          top25Percentile = PatchBasedDetector_percentile compositeScores (Fin 75),
          medianFocus = PatchBasedDetector_percentile compositeScores (Fin 50),
          sharpPatchCount = count,
          sharpPatchRatio = jdiv (Fin (real count)) n,
          histogram =
            \<lparr>very_blurry = length (filter (\<lambda>s. jlt s (Fin 10)) compositeScores),
             blurry = length (filter (\<lambda>s. jge s (Fin 10) \<and> jlt s (Fin 25)) compositeScores),
             borderline = length (filter (\<lambda>s. jge s (Fin 25) \<and> jlt s (Fin 40)) compositeScores),
             sharp = length (filter (\<lambda>s. jge s (Fin 40) \<and> jlt s (Fin 60)) compositeScores),
             very_sharp = length (filter (\<lambda>s. jge s (Fin 60)) compositeScores)\<rparr>,
          blurMap = bm,
          patchScores = patches,
          patchesX = nx,
          patchesY = ny,
          defaultComposite = max_focus,
          patchCount = length patches\<rparr>)"

text \<open>
  The detector is its calibration statistics and its grid size; the same statistics
  configure its composite detector. Every failure inside \<open>calculateBlurScore\<close> is rethrown
  with a prefix.
\<close>

definition PatchBasedDetector_calculateBlurScore ::
  "calibration_stats option \<Rightarrow> nat \<Rightarrow>
   ('b \<Rightarrow> string + nat \<times> nat) \<Rightarrow> ('b \<Rightarrow> nat \<Rightarrow> nat \<Rightarrow> nat \<Rightarrow> nat \<Rightarrow> string + 'b) \<Rightarrow> 'b decoder \<Rightarrow>
   'b \<Rightarrow> string + patch_result" where
  "PatchBasedDetector_calculateBlurScore calibrationStats patchSize meta extract dec imageBuffer =
     (let nx = patchSize; ny = patchSize;
          r = (case divideIntoPatches meta extract imageBuffer nx ny of
                 Inl message \<Rightarrow> Inl message
               | Inr patches \<Rightarrow>
              (case traverse (\<lambda>patch.
                      case CompositeDetector_calculateBlurScore calibrationStats dec
                             (patch_buffer patch) of
                        Inl message \<Rightarrow> Inl message
                      | Inr score \<Rightarrow>
                          Inr \<lparr>laplacian = laplacian score, gradient = gradient score,
                               tenengrad = tenengrad score, variance = variance score,
                               composite = composite score, normalized = normalized score,
                               grid_x = patch_x patch, grid_y = patch_y patch\<rparr>) patches of
                 Inl message \<Rightarrow> Inl message
               | Inr scores \<Rightarrow>
              (case blurMapOf scores nx ny of
                 Inl message \<Rightarrow> Inl message
               | Inr bm \<Rightarrow> Inr (aggregate calibrationStats scores nx ny bm))))
      in case r of
           Inl message \<Rightarrow> Inl (''Failed to calculate patch-based score: '' @ message)
         | Inr result \<Rightarrow> Inr result)"

definition PatchBasedDetector_isBlurry :: "patch_result \<Rightarrow> jsval \<Rightarrow> string \<Rightarrow> bool" where
  "PatchBasedDetector_isBlurry scores threshold strategy =
     (let score =
        (if strategy = ''max-focus'' then maxFocus scores
         else if strategy = ''subject-focus-aggressive'' then subjectFocusAggressive scores
         else if strategy = ''subject-focus'' then subjectFocus scores
         else if strategy = ''subject-focus-conservative'' then subjectFocusConservative scores
         else if strategy = ''subject-focus-relaxed'' then subjectFocusRelaxed scores
         else if strategy = ''subject-focus-strict'' then subjectFocusStrict scores
         else if strategy = ''subject-focus-very-strict'' then subjectFocusVeryStrict scores
         else if strategy = ''peak-focus'' then peakFocus scores
         else if strategy = ''center-weighted'' then centerWeighted scores
         else if strategy = ''top-25-percentile'' then top25Percentile scores
         else if strategy = ''average'' then avgFocus scores
         else if strategy = ''median'' then medianFocus scores
         else maxFocus scores)
      in jlt score threshold)"


section \<open>BlurDetector\<close>

text \<open>
  What the detector needs from its collaborators: the file scanner, the preview extractor
  (with the conversion of the preview to a buffer), the three calls of the image library,
  and \<open>path.basename\<close>. Each call that can throw returns an error message instead.
\<close>

record 'b platform =
  scan_files :: "string \<Rightarrow> string + string list"
  extract_preview :: "string \<Rightarrow> string + 'b"
  sharp_metadata :: "'b \<Rightarrow> string + nat \<times> nat"
  sharp_extract :: "'b \<Rightarrow> nat \<Rightarrow> nat \<Rightarrow> nat \<Rightarrow> nat \<Rightarrow> string + 'b"
  sharp_raw :: "'b decoder"
  path_basename :: "string \<Rightarrow> string"

text \<open>
  The constructor's options; \<open>None\<close> is a field that is not given. The grid size is a
  natural number (the command line parses it with \<open>parseInt\<close>).
\<close>

record options =
  opt_threshold :: "jsval option"
  opt_algorithm :: "string option"
  opt_calibrationStats :: "calibration_stats option"
  opt_strategy :: "string option"
  opt_patchSize :: "nat option"

record blur_detector =
  this_threshold :: jsval
  this_algorithm :: string
  this_calibrationStats :: "calibration_stats option"
  this_strategy :: string
  this_patchSize :: nat

text \<open>The truth value of a number: \<open>0\<close>, \<open>NaN\<close> and \<open>undefined\<close> are false.\<close>

fun truthy :: "jsval \<Rightarrow> bool" where
  "truthy (Fin r) = (r \<noteq> 0)"
| "truthy PInf = True"
| "truthy NInf = True"
| "truthy _ = False"

definition given :: "jsval option \<Rightarrow> bool" where
  "given v = (v \<noteq> None \<and> v \<noteq> Some Undefined)"

datatype detector =
    LaplacianDet
  | GradientDet
  | TenengradDet
  | VarianceDet
  | PatchBasedDet "calibration_stats option" nat
  | CompositeDet "calibration_stats option"

text \<open>
  The constructor. It sets \<open>this.detector\<close> by a switch on \<open>this.algorithm\<close> whose default
  branch is the composite detector, and nothing assigns either field afterwards: the model
  computes the detector from the algorithm name (\<open>detector_of\<close>) where it is used.
\<close>

definition detector_of :: "blur_detector \<Rightarrow> detector" where
  "detector_of d =
     (if this_algorithm d = ''laplacian'' then LaplacianDet
      else if this_algorithm d = ''gradient'' then GradientDet
      else if this_algorithm d = ''tenengrad'' then TenengradDet
      else if this_algorithm d = ''variance'' then VarianceDet
      else if this_algorithm d = ''patch-based''
        then PatchBasedDet (this_calibrationStats d)
               (if this_patchSize d = 0 then 8 else this_patchSize d)
      else CompositeDet (this_calibrationStats d))"

definition BlurDetector_new :: "options \<Rightarrow> blur_detector" where
  "BlurDetector_new opts =
     (let threshold0 = (case opt_threshold opts of
                          Some v \<Rightarrow> if truthy v then v else Fin 10
                        | None \<Rightarrow> Fin 10);
          alg = (case opt_algorithm opts of
                   Some a \<Rightarrow> if a = [] then ''composite'' else a
                 | None \<Rightarrow> ''composite'');
          calibration = opt_calibrationStats opts;
          strat = (case opt_strategy opts of
                     Some s \<Rightarrow> if s = [] then ''average'' else s
                   | None \<Rightarrow> ''average'');
          size0 = (case opt_patchSize opts of
                     Some n \<Rightarrow> if n = 0 then 8 else n
                   | None \<Rightarrow> 8);
          threshold1 =
            (if alg = ''laplacian'' \<or> alg = ''gradient'' \<or> alg = ''tenengrad'' \<or> alg = ''variance''
               then threshold0
             else if alg = ''patch-based''
               then (if given (opt_threshold opts) then the (opt_threshold opts)
                     else if strat = ''peak-focus''
                       then (if calibration \<noteq> None then Fin 70 else Fin 75)
                     else (if calibration \<noteq> None then Fin 25 else Fin 30))
             else (if given (opt_threshold opts) then the (opt_threshold opts)
                   else (if calibration \<noteq> None then Fin 25 else Fin 30)))
      in \<lparr>this_threshold = threshold1, this_algorithm = alg, this_calibrationStats = calibration,
          this_strategy = strat, this_patchSize = size0\<rparr>)"

subsection \<open>analyze\<close>

text \<open>
  The result of \<open>analyze\<close>: an object with the fields of a scored file, or with the field
  \<open>error\<close> only. The field \<open>file\<close> is \<open>file_path\<close> here, and \<open>processingTime\<close> (wall-clock time) is left out.
\<close>

datatype score_report = CompositeScores composite_score | PatchScores patch_summary

record analysis_result =
  file_path :: string
  fileName :: string
  blurScore :: "jsval option"
  isBlurry :: "bool option"
  threshold :: "jsval option"
  algorithm :: "string option"
  scores :: "score_report option"
  error :: "string option"

definition round2 :: "jsval \<Rightarrow> jsval" where
  "round2 v = jdiv (Math_round (jmul v (Fin 100))) (Fin 100)"

definition failed :: "'b platform \<Rightarrow> string \<Rightarrow> string \<Rightarrow> analysis_result" where
  "failed env filePath message =
     \<lparr>file_path = filePath, fileName = path_basename env filePath, blurScore = None,
      isBlurry = None, threshold = None, algorithm = None, scores = None,
      error = Some message\<rparr>"

definition scored ::
  "'b platform \<Rightarrow> blur_detector \<Rightarrow> string \<Rightarrow> jsval \<Rightarrow> bool \<Rightarrow> score_report option \<Rightarrow> analysis_result"
  where
  "scored env d filePath score verdict report =
     \<lparr>file_path = filePath, fileName = path_basename env filePath, blurScore = Some score,
      isBlurry = Some verdict, threshold = Some (this_threshold d),
      algorithm = Some (this_algorithm d), scores = report, error = None\<rparr>"

text \<open>The main blur score of a patch-based analysis: the switch on the strategy.\<close>

definition strategyScore :: "patch_result \<Rightarrow> string \<Rightarrow> jsval" where
  "strategyScore rawScore strategy =
     (if strategy = ''max-focus'' then round2 (maxFocus rawScore)
      else if strategy = ''subject-focus-aggressive'' then round2 (subjectFocusAggressive rawScore)
      else if strategy = ''subject-focus'' then round2 (subjectFocus rawScore)
      else if strategy = ''subject-focus-conservative''
        then round2 (subjectFocusConservative rawScore)
      else if strategy = ''subject-focus-relaxed'' then round2 (subjectFocusRelaxed rawScore)
      else if strategy = ''subject-focus-strict'' then round2 (subjectFocusStrict rawScore)
      else if strategy = ''subject-focus-very-strict''
        then round2 (subjectFocusVeryStrict rawScore)
      else if strategy = ''peak-focus'' then round2 (peakFocus rawScore)
      else if strategy = ''center-weighted'' then round2 (centerWeighted rawScore)
      else if strategy = ''top-25-percentile'' then round2 (top25Percentile rawScore)
      else if strategy = ''median'' then round2 (medianFocus rawScore)
      else round2 (avgFocus rawScore))"

definition patchReport :: "patch_result \<Rightarrow> patch_summary" where
  "patchReport rawScore =
     \<lparr>maxFocus = round2 (maxFocus rawScore),
      minFocus = round2 (minFocus rawScore),
      avgFocus = round2 (avgFocus rawScore),
      centerWeighted = round2 (centerWeighted rawScore),
      subjectFocusAggressive = round2 (subjectFocusAggressive rawScore),
      subjectFocus = round2 (subjectFocus rawScore),
      subjectFocusConservative = round2 (subjectFocusConservative rawScore),
      subjectFocusRelaxed = round2 (subjectFocusRelaxed rawScore),
      subjectFocusStrict = round2 (subjectFocusStrict rawScore),
      subjectFocusVeryStrict = round2 (subjectFocusVeryStrict rawScore),
      peakFocus = round2 (peakFocus rawScore),
      top10Percentile = round2 (top10Percentile rawScore),
      top25Percentile = round2 (top25Percentile rawScore),
      medianFocus = round2 (medianFocus rawScore),
      sharpPatchCount = sharpPatchCount rawScore,
      sharpPatchRatio = jdiv (Math_round (jmul (sharpPatchRatio rawScore) (Fin 1000))) (Fin 10),
      histogram = histogram rawScore,
      blurMap = blurMap rawScore,
      patchScores = patchScores rawScore,
      patchesX = patchesX rawScore,
      patchesY = patchesY rawScore\<rparr>"

definition compositeReport :: "composite_score \<Rightarrow> composite_score" where
  "compositeReport rawScore =
     \<lparr>laplacian = round2 (laplacian rawScore), gradient = round2 (gradient rawScore),
      tenengrad = round2 (tenengrad rawScore), variance = round2 (variance rawScore),
      composite = round2 (composite rawScore),
      normalized =
        \<lparr>laplacian = round2 (laplacian (normalized rawScore)),
         gradient = round2 (gradient (normalized rawScore)),
         tenengrad = round2 (tenengrad (normalized rawScore)),
         variance = round2 (variance (normalized rawScore))\<rparr>\<rparr>"

text \<open>
  A single-algorithm analysis: the kernel's score, rounded, and \<open>score < threshold\<close> (the
  \<open>isBlurry\<close> of the four kernel classes).
\<close>

definition analyzeSingle ::
  "'b platform \<Rightarrow> blur_detector \<Rightarrow> string \<Rightarrow> string + jsval \<Rightarrow> analysis_result" where
  "analyzeSingle env d filePath r =
     (case r of
        Inl message \<Rightarrow> failed env filePath message
      | Inr rawScore \<Rightarrow>
          scored env d filePath (round2 rawScore) (jlt rawScore (this_threshold d)) None)"

text \<open>
  \<open>analyze\<close>: everything from the extraction of the preview to the assembly of the result
  is inside one \<open>try\<close>, whose \<open>catch\<close> returns the error object. With an algorithm name
  that is none of the six, the detector is the composite one and the last branch of
  \<open>analyze\<close> treats its score object as a number: the blur score is \<open>NaN\<close>.
\<close>

definition BlurDetector_analyze :: "'b platform \<Rightarrow> blur_detector \<Rightarrow> string \<Rightarrow> analysis_result"
  where
  "BlurDetector_analyze env d filePath =
     (case extract_preview env filePath of
        Inl message \<Rightarrow> failed env filePath message
      | Inr buffer \<Rightarrow>
     (case detector_of d of
        PatchBasedDet calibration grid \<Rightarrow>
          (case PatchBasedDetector_calculateBlurScore calibration grid
                  (sharp_metadata env) (sharp_extract env) (sharp_raw env) buffer of
             Inl message \<Rightarrow> failed env filePath message
           | Inr rawScore \<Rightarrow>
               scored env d filePath (strategyScore rawScore (this_strategy d))
                 (PatchBasedDetector_isBlurry rawScore (this_threshold d) (this_strategy d))
                 (Some (PatchScores (patchReport rawScore))))
      | CompositeDet calibration \<Rightarrow>
          (case CompositeDetector_calculateBlurScore calibration (sharp_raw env) buffer of
             Inl message \<Rightarrow> failed env filePath message
           | Inr rawScore \<Rightarrow>
               (if this_algorithm d = ''composite''
                then scored env d filePath (round2 (composite rawScore))
                       (CompositeDetector_isBlurry rawScore (this_threshold d))
                       (Some (CompositeScores (compositeReport rawScore)))
                else scored env d filePath (round2 NaN)
                       (CompositeDetector_isBlurry rawScore (this_threshold d)) None))
      | LaplacianDet \<Rightarrow>
          analyzeSingle env d filePath (LaplacianDetector_calculateBlurScore (sharp_raw env) buffer)
      | GradientDet \<Rightarrow>
          analyzeSingle env d filePath (GradientDetector_calculateBlurScore (sharp_raw env) buffer)
      | TenengradDet \<Rightarrow>
          analyzeSingle env d filePath (TenengradDetector_calculateBlurScore (sharp_raw env) buffer)
      | VarianceDet \<Rightarrow>
          analyzeSingle env d filePath (VarianceDetector_calculateBlurScore (sharp_raw env) buffer)))"



section \<open>Calibration\<close>

text \<open>\<open>Calibration.percentile\<close> expects its array sorted and does not sort it.\<close>

definition Calibration_percentile :: "jsval list \<Rightarrow> jsval \<Rightarrow> jsval" where
  "Calibration_percentile sortedArray p =
     (if length sortedArray = 0 then Fin 0
      else
        (let index = jmul (jdiv p (Fin 100)) (jsub (Fin (real (length sortedArray))) (Fin 1));
             lower = Math_floor index;
             upper = Math_ceil index;
             weight = jsub index lower
         in if jge upper (Fin (real (length sortedArray)))
            then arr_at sortedArray (length sortedArray - 1)
            else jadd (jmul (arr_get sortedArray lower) (jsub (Fin 1) weight))
                      (jmul (arr_get sortedArray upper) weight)))"

text \<open>
  \<open>results.filter(r => !r.error && r.scores)\<close>: an error message that is a non-empty string
  is true, and so is every \<open>scores\<close> object.
\<close>

definition validResults :: "analysis_result list \<Rightarrow> analysis_result list" where
  "validResults results =
     filter (\<lambda>r. \<not> (case error r of Some message \<Rightarrow> message \<noteq> [] | None \<Rightarrow> False) \<and>
                 scores r \<noteq> None) results"

text \<open>The patch scores a valid result carries: none when its \<open>scores\<close> have no \<open>patchScores\<close>.\<close>

definition patchScoresOf :: "analysis_result \<Rightarrow> patch_score list" where
  "patchScoresOf r = (case scores r of Some (PatchScores s) \<Rightarrow> patchScores s | _ \<Rightarrow> [])"

text \<open>
  A full-image score \<open>r.scores.laplacian\<close> (and likewise for the other three):
  \<open>undefined\<close> when the \<open>scores\<close> object is that of a patch-based analysis.
\<close>

definition fullScoreOf :: "(composite_score \<Rightarrow> jsval) \<Rightarrow> analysis_result \<Rightarrow> jsval" where
  "fullScoreOf field r = (case scores r of Some (CompositeScores c) \<Rightarrow> field c | _ \<Rightarrow> Undefined)"

text \<open>The four sorted score arrays of \<open>computeStats\<close>, for the valid results.\<close>

definition scoreArrays :: "analysis_result list \<Rightarrow> bool \<Rightarrow> jsval list quad" where
  "scoreArrays valid patch_mode =
     (if patch_mode then
        (let patches = concat (map patchScoresOf valid)
         in \<lparr>laplacian = sort_numbers (\<lambda>a b. jsub a b) (map laplacian patches),
             gradient = sort_numbers (\<lambda>a b. jsub a b) (map gradient patches),
             tenengrad = sort_numbers (\<lambda>a b. jsub a b) (map tenengrad patches),
             variance = sort_numbers (\<lambda>a b. jsub a b) (map variance patches)\<rparr>)
      else
        \<lparr>laplacian = sort_numbers (\<lambda>a b. jsub a b) (map (fullScoreOf laplacian) valid),
         gradient = sort_numbers (\<lambda>a b. jsub a b) (map (fullScoreOf gradient) valid),
         tenengrad = sort_numbers (\<lambda>a b. jsub a b) (map (fullScoreOf tenengrad) valid),
         variance = sort_numbers (\<lambda>a b. jsub a b) (map (fullScoreOf variance) valid)\<rparr>)"

definition algoStats :: "jsval list \<Rightarrow> algo_stats" where
  "algoStats arr =
     \<lparr>p5 = Calibration_percentile arr (Fin 5),
      p95 = Calibration_percentile arr (Fin 95),
      median = Calibration_percentile arr (Fin 50),
      min_s = arr_at arr 0,
      max_s = arr_at arr (length arr - 1)\<rparr>"

text \<open>
  \<open>computeStats\<close> throws when no valid result is left, and otherwise returns the
  statistics (which it also keeps in \<open>this.stats\<close>).
\<close>

definition computeStats :: "analysis_result list \<Rightarrow> bool \<Rightarrow> string + calibration_stats" where
  "computeStats results patch_mode =
     (let valid = validResults results
      in if length valid = 0 then Inl ''No valid results to compute statistics from''
         else
           (let arrays = scoreArrays valid patch_mode
            in Inr \<lparr>laplacian = algoStats (laplacian arrays),
                    gradient = algoStats (gradient arrays),
                    tenengrad = algoStats (tenengrad arrays),
                    variance = algoStats (variance arrays),
                    sampleSize = length valid,
                    patchMode = patch_mode,
                    totalSamples = length (laplacian arrays),
                    version = ''1.0.0''\<rparr>))"


section \<open>Auxiliary notions for the proofs\<close>

fun is_fin :: "jsval \<Rightarrow> bool" where
  "is_fin (Fin _) = True"
| "is_fin _ = False"

fun fin_val :: "jsval \<Rightarrow> real" where
  "fin_val (Fin r) = r"
| "fin_val _ = 0"

fun is_nonneg :: "jsval \<Rightarrow> bool" where
  "is_nonneg (Fin r) = (0 \<le> r)"
| "is_nonneg _ = False"

definition flat_gray :: raw_image where
  "flat_gray = \<lparr>data = replicate 9 7, width = 3, height = 3\<rparr>"


text \<open>Clipping to the unit interval and the guarded logarithm, on reals.\<close>

definition clip01 :: "real \<Rightarrow> real" where
  "clip01 x = max 0 (min 1 x)"

definition log10_guarded :: "real \<Rightarrow> real" where
  "log10_guarded x = (if 0 < x then log 10 x else 0)"

text \<open>The score object of the flat 3 by 3 image under hand-tuned normalization.\<close>

definition flat_gray_score :: composite_score where
  "flat_gray_score =
     \<lparr>laplacian = Fin 0, gradient = Fin 0, tenengrad = Fin 0, variance = Fin 0,
      composite = Fin 0,
      normalized = \<lparr>laplacian = Fin 0, gradient = Fin 0, tenengrad = Fin 0, variance = Fin 0\<rparr>\<rparr>"

text \<open>
  A 3 by 3 image with one interior pixel, whose Laplacian response is \<open>- 9\<close> and whose
  Sobel responses are 6 and 8; its score object under hand-tuned normalization; calibration
  statistics; and its score object under these statistics.
\<close>

definition edge_gray :: raw_image where
  "edge_gray = \<lparr>data = [0, 0, 0, 0, 4, 3, 0, 4, 0], width = 3, height = 3\<rparr>"

definition edge_gray_score :: composite_score where
  "edge_gray_score =
     \<lparr>laplacian = Fin 8, gradient = Fin (10 / 9), tenengrad = Fin (80000 / 81),
      variance = Fin (248 / 81),
      composite = Fin (0.30 * 16 + 0.20 * (100 / 27) +
                       0.40 * ((log 10 (80000 / 81) - 2) / 6 * 100) + 0.10 * (124 / 405)),
      normalized = \<lparr>laplacian = Fin 16, gradient = Fin (100 / 27),
                     tenengrad = Fin ((log 10 (80000 / 81) - 2) / 6 * 100),
                     variance = Fin (124 / 405)\<rparr>\<rparr>"

definition edge_stats :: calibration_stats where
  "edge_stats =
     \<lparr>laplacian = \<lparr>p5 = Fin 0, p95 = Fin 16, median = Fin 8, min_s = Fin 0, max_s = Fin 20\<rparr>,
      gradient = \<lparr>p5 = Fin 0, p95 = Fin (40 / 9), median = Fin 2, min_s = Fin 0, max_s = Fin 5\<rparr>,
      tenengrad = \<lparr>p5 = Fin (8000 / 81), p95 = Fin (800000 / 81), median = Fin 1000,
                   min_s = Fin 0, max_s = Fin 10000\<rparr>,
      variance = \<lparr>p5 = Fin 0, p95 = Fin (2480 / 81), median = Fin 10, min_s = Fin 0,
                  max_s = Fin 40\<rparr>,
      sampleSize = 100, patchMode = False, totalSamples = 100, version = ''1.0.0''\<rparr>"

definition edge_gray_calibrated_score :: composite_score where
  "edge_gray_calibrated_score =
     \<lparr>laplacian = Fin 8, gradient = Fin (10 / 9), tenengrad = Fin (80000 / 81),
      variance = Fin (248 / 81),
      composite = Fin 41,
      normalized = \<lparr>laplacian = Fin 50, gradient = Fin 25, tenengrad = Fin 50,
                     variance = Fin 10\<rparr>\<rparr>"

text \<open>
  A corpus of one image, analysed by the composite algorithm, whose four raw scores are 4;
  and the statistics a calibration run over this corpus yields: every percentile of a
  one-element array is that element.
\<close>

definition single_image_corpus :: "analysis_result list" where
  "single_image_corpus =
     [\<lparr>file_path = ''a.nef'', fileName = ''a.nef'', blurScore = Some (Fin 8),
       isBlurry = Some True, threshold = Some (Fin 30), algorithm = Some ''composite'',
       scores = Some (CompositeScores
         \<lparr>laplacian = Fin 4, gradient = Fin 4, tenengrad = Fin 4, variance = Fin 4,
          composite = Fin 8,
          normalized = \<lparr>laplacian = Fin 8, gradient = Fin (40 / 3), tenengrad = Fin 0,
                         variance = Fin (2 / 5)\<rparr>\<rparr>),
       error = None\<rparr>]"

definition one_sample :: algo_stats where
  "one_sample = \<lparr>p5 = Fin 4, p95 = Fin 4, median = Fin 4, min_s = Fin 4, max_s = Fin 4\<rparr>"

definition single_image_stats :: calibration_stats where
  "single_image_stats =
     \<lparr>laplacian = one_sample, gradient = one_sample, tenengrad = one_sample,
      variance = one_sample, sampleSize = 1, patchMode = False, totalSamples = 1,
      version = ''1.0.0''\<rparr>"


text \<open>
  The percentile as the specification words it: sort ascending, then interpolate linearly
  between the order statistics around the fractional rank \<open>p / 100 * (n - 1)\<close>; 0 on the
  empty array.
\<close>

definition interpolate_at :: "real list \<Rightarrow> real \<Rightarrow> real" where
  "interpolate_at s r =
     (let k = nat \<lfloor>r\<rfloor>
      in if k + 1 < length s then s ! k + (r - real k) * (s ! (k + 1) - s ! k)
         else s ! (length s - 1))"

definition spec_percentile :: "real list \<Rightarrow> real \<Rightarrow> real" where
  "spec_percentile xs p =
     (if xs = [] then 0 else interpolate_at (sort xs) (p / 100 * real (length xs - 1)))"

text \<open>The part the two percentile functions of the source share, after the sort.\<close>

definition percentile_body :: "jsval list \<Rightarrow> jsval \<Rightarrow> jsval" where
  "percentile_body arr p =
        (let index = jmul (jdiv p (Fin 100)) (jsub (Fin (real (length arr))) (Fin 1));
             lower = Math_floor index;
             upper = Math_ceil index;
             weight = jsub index lower
         in if jge upper (Fin (real (length arr))) then arr_at arr (length arr - 1)
            else jadd (jmul (arr_get arr lower) (jsub (Fin 1) weight))
                      (jmul (arr_get arr upper) weight))"


text \<open>
  The composite score and the Tenengrad score of a patch as reals (0 when the score is not
  finite), and the least and greatest composite score of a list of patches.
\<close>

definition cval :: "patch_score \<Rightarrow> real" where
  "cval p = fin_val (composite p)"

definition tval :: "patch_score \<Rightarrow> real" where
  "tval p = fin_val (tenengrad p)"

definition lo_c :: "patch_score list \<Rightarrow> real" where
  "lo_c ps = Min (set (map cval ps))"

definition hi_c :: "patch_score list \<Rightarrow> real" where
  "hi_c ps = Max (set (map cval ps))"

text \<open>
  The position weight as the specification words it: the Gaussian
  \<open>exp (- d\<^sup>2 / (2 * sigma\<^sup>2))\<close> of the distance \<open>d\<close> of the patch from the centre of the
  grid, each axis scaled so that the farthest patch is at distance 1.
\<close>

definition gaussWeight :: "nat \<Rightarrow> nat \<Rightarrow> real \<Rightarrow> nat \<Rightarrow> real" where
  "gaussWeight nx ny sigma i =
     (let cx = (real nx - 1) / 2; cy = (real ny - 1) / 2;
          dx = (real (i mod nx) - cx) / cx; dy = (real (i div nx) - cy) / cy;
          d = sqrt (dx * dx + dy * dy)
      in exp (- (d * d) / (2 * sigma * sigma)))"


definition retained :: "real list \<Rightarrow> nat \<Rightarrow> nat list" where
  "retained cs k = take k (sort_key (\<lambda>i. - (cs ! i)) [0 ..< length cs])"

definition spec_subject_focus :: "real list \<Rightarrow> nat \<Rightarrow> nat \<Rightarrow> nat \<Rightarrow> real \<Rightarrow> real" where
  "spec_subject_focus cs nx ny k sigma =
     (\<Sum>i\<leftarrow>retained cs k. cs ! i * gaussWeight nx ny sigma i) /
     (\<Sum>i\<leftarrow>retained cs k. gaussWeight nx ny sigma i)"

text \<open>
  The peak-focus score as the specification words it: the mean raw Tenengrad score of the
  three patches of greatest composite score, mapped from a range of \<open>log10\<close> values onto
  \<open>[0, 100]\<close>.
\<close>

definition spec_peak_avg :: "patch_score list \<Rightarrow> real" where
  "spec_peak_avg ps =
     (let top = take 3 (sort_key (\<lambda>p. - cval p) ps)
      in sum_list (map tval top) / real (length top))"

definition log_range_norm :: "real \<Rightarrow> real \<Rightarrow> real \<Rightarrow> real" where
  "log_range_norm lo hi v = 100 * clip01 ((log10_guarded v - lo) / (hi - lo))"

text \<open>
  Example data: a patch with a given composite and Tenengrad score, and the score object
  of a patch that is the flat 3 by 3 image.
\<close>

definition mk_patch :: "real \<Rightarrow> real \<Rightarrow> patch_score" where
  "mk_patch c t =
     \<lparr>laplacian = Fin 0, gradient = Fin 0, tenengrad = Fin t, variance = Fin 0,
      composite = Fin c,
      normalized = \<lparr>laplacian = Fin c, gradient = Fin c, tenengrad = Fin c, variance = Fin c\<rparr>,
      grid_x = 0, grid_y = 0\<rparr>"

definition flat_patch :: patch_score where
  "flat_patch =
     \<lparr>laplacian = Fin 0, gradient = Fin 0, tenengrad = Fin 0, variance = Fin 0,
      composite = Fin 0,
      normalized = \<lparr>laplacian = Fin 0, gradient = Fin 0, tenengrad = Fin 0, variance = Fin 0\<rparr>,
      grid_x = 0, grid_y = 0\<rparr>"

text \<open>
  Two patch arrays with the same three sharpest patches (composite 90, 80 and 70, each with
  Tenengrad score \<open>10\<^sup>6\<close>) and different remaining patches; statistics with the
  Tenengrad percentiles \<open>10\<^sup>3\<close> and \<open>10\<^sup>9\<close>; a full 8 by 8 grid of equal patches; a 3 by 3
  grid whose sharpest patches are a corner, an edge and the centre; and a 5 by 5 grid of
  patches with 25 different composite scores.
\<close>

definition peak_a :: "patch_score list" where
  "peak_a = [mk_patch 10 1, mk_patch 90 1000000, mk_patch 80 1000000, mk_patch 20 5,
             mk_patch 70 1000000]"

definition peak_b :: "patch_score list" where
  "peak_b = [mk_patch 30 7, mk_patch 90 1000000, mk_patch 5 2, mk_patch 80 1000000,
             mk_patch 70 1000000, mk_patch 60 9]"

definition peak_stats :: calibration_stats where
  "peak_stats =
     \<lparr>laplacian = one_sample, gradient = one_sample,
      tenengrad = \<lparr>p5 = Fin 1000, p95 = Fin 1000000000, median = Fin 1000000,
                   min_s = Fin 10, max_s = Fin 10000000000\<rparr>,
      variance = one_sample, sampleSize = 100, patchMode = True, totalSamples = 6400,
      version = ''1.0.0''\<rparr>"

definition grid64 :: "patch_score list" where
  "grid64 = replicate 64 (mk_patch 50 1000)"



text \<open>
  The patch scores of all valid results of a corpus, image after image: the data points
  of a patch-mode calibration.
\<close>

definition flattened :: "analysis_result list \<Rightarrow> patch_score list" where
  "flattened results = concat (map patchScoresOf (validResults results))"

text \<open>
  Example data: the result of a patch-based analysis that carries given patch scores, a
  failed analysis, and a corpus of two scored images (with two patches and one patch) and
  one failed image.
\<close>

definition patch_analysis :: "string \<Rightarrow> patch_score list \<Rightarrow> analysis_result" where
  "patch_analysis name ps =
     \<lparr>file_path = name, fileName = name, blurScore = Some (Fin 50), isBlurry = Some False,
      threshold = Some (Fin 30), algorithm = Some ''patch-based'',
      scores = Some (PatchScores (patchReport (aggregate None ps 2 2 []))), error = None\<rparr>"

definition failed_analysis :: "string \<Rightarrow> analysis_result" where
  "failed_analysis name =
     \<lparr>file_path = name, fileName = name, blurScore = None, isBlurry = None,
      threshold = None, algorithm = None, scores = None, error = Some ''No preview image''\<rparr>"

definition corpus :: "analysis_result list" where
  "corpus = [patch_analysis ''a.nef'' [mk_patch 10 100, mk_patch 20 300],
             failed_analysis ''b.nef'',
             patch_analysis ''c.nef'' [mk_patch 30 200]]"

text \<open>The names the two switches of the source know.\<close>

definition supported_algorithms :: "string set" where
  "supported_algorithms =
     {''laplacian'', ''gradient'', ''tenengrad'', ''variance'', ''patch-based'', ''composite''}"

definition supported_strategies :: "string set" where
  "supported_strategies =
     {''max-focus'', ''subject-focus-aggressive'', ''subject-focus'',
      ''subject-focus-conservative'', ''subject-focus-relaxed'', ''subject-focus-strict'',
      ''subject-focus-very-strict'', ''peak-focus'', ''center-weighted'',
      ''top-25-percentile'', ''average'', ''median''}"

text \<open>
  Example data: options with an algorithm name the source does not know, options for a
  patch-based detector on a 2 by 2 grid with a strategy name the source does not know, the
  default options, and options for a patch-based detector on a 2 by 2 grid; a platform on which
  every file decodes to the flat 3 by 3 image; and a platform, whose buffers are the file
  names, with one file without preview, one file that does not decode and one flat image.
\<close>

definition fft_options :: options where
  "fft_options =
     \<lparr>opt_threshold = None, opt_algorithm = Some ''fft'', opt_calibrationStats = None,
      opt_strategy = None, opt_patchSize = None\<rparr>"

definition sharpest_options :: options where
  "sharpest_options =
     \<lparr>opt_threshold = None, opt_algorithm = Some ''patch-based'', opt_calibrationStats = None,
      opt_strategy = Some ''sharpest'', opt_patchSize = Some 2\<rparr>"



definition flat_env :: "unit platform" where
  "flat_env =
     \<lparr>scan_files = (\<lambda>dir. Inr [''a.nef'']),
      extract_preview = (\<lambda>f. Inr ()),
      sharp_metadata = (\<lambda>b. Inr (3, 3)),
      sharp_extract = (\<lambda>b l t w h. Inr ()),
      sharp_raw = (\<lambda>b. Inr flat_gray),
      path_basename = (\<lambda>f. f)\<rparr>"


text \<open>The four patch scores of a 2 by 2 grid of flat patches.\<close>

definition flat_patches :: "patch_score list" where
  "flat_patches =
     [flat_patch\<lparr>grid_x := 0, grid_y := 0\<rparr>, flat_patch\<lparr>grid_x := 1, grid_y := 0\<rparr>,
      flat_patch\<lparr>grid_x := 0, grid_y := 1\<rparr>, flat_patch\<lparr>grid_x := 1, grid_y := 1\<rparr>]"

section \<open>The kernels never return a negative score\<close>

lemma is_fin_conv: "is_fin v \<longleftrightarrow> (\<exists>r. v = Fin r)"
  by (cases v) auto

lemma all_fin_map: "list_all is_fin xs \<Longrightarrow> xs = map Fin (map fin_val xs)"
  by (induction xs) (auto simp: is_fin_conv)

lemma foldl_jadd_Fin: "foldl jadd (Fin a) (map Fin rs) = Fin (a + sum_list rs)"
  by (induction rs arbitrary: a) (auto simp: add.assoc)

lemma foldl_sq_Fin:
  "foldl (\<lambda>acc d. jadd acc (jmul (jsub d (Fin m)) (jsub d (Fin m)))) (Fin a) (map Fin rs)
     = Fin (a + (\<Sum>r\<leftarrow>rs. (r - m) * (r - m)))"
  by (induction rs arbitrary: a) (auto simp: jsub_def add.assoc)

lemma calculateVariance_Fin:
  assumes "rs \<noteq> []"
  shows "calculateVariance (map Fin rs) =
     Fin ((\<Sum>r\<leftarrow>rs. (r - sum_list rs / real (length rs)) * (r - sum_list rs / real (length rs)))
            / real (length rs))"
  using assms by (simp add: calculateVariance_def Let_def foldl_jadd_Fin foldl_sq_Fin)

lemma variance_real_nonneg: "0 \<le> (\<Sum>r\<leftarrow>rs. (r - m) * (r - (m::real))) / real (length rs)"
  by (intro divide_nonneg_nonneg sum_list_nonneg) auto

lemma calculateVariance_nonneg:
  assumes "xs \<noteq> []" "list_all is_fin xs"
  shows "\<exists>v. calculateVariance xs = Fin v \<and> 0 \<le> v"
proof -
  define rs where "rs = map fin_val xs"
  from assms(2) have xs: "xs = map Fin rs" unfolding rs_def by (rule all_fin_map)
  from assms(1) have ne: "rs \<noteq> []" by (simp add: rs_def)
  show ?thesis
    unfolding xs calculateVariance_Fin [OF ne] using variance_real_nonneg by blast
qed

lemma foldl_inv:
  "P a \<Longrightarrow> (\<And>a x. x \<in> set xs \<Longrightarrow> P a \<Longrightarrow> P (f a x)) \<Longrightarrow> P (foldl f a xs)"
  by (induction xs arbitrary: a) auto

lemma px_in_range: "i < length pixels \<Longrightarrow> px pixels i = Fin (real (unat (pixels ! i)))"
  by (simp add: px_def)


lemma idx_bound:
  assumes "a < h" "b < (w::nat)"
  shows "a * w + b < w * h"
proof -
  have "a * w + b < a * w + w" using assms by simp
  also have "\<dots> = (a + 1) * w" by simp
  also have "\<dots> \<le> h * w" using assms by (intro mult_le_mono1) simp
  finally show ?thesis by (simp add: mult.commute)
qed

lemma px_fin:
  assumes "w * h \<le> length pixels" "a < h" "b < w"
  shows "px pixels (a * w + b) = Fin (real (unat (pixels ! (a * w + b))))"
  using idx_bound [OF assms(2,3)] assms(1) by (simp add: px_def)

lemma length_f32_set [simp]: "length (f32_set arr i v) = length arr"
  by (simp add: f32_set_def)

lemma f32_set_all:
  assumes "list_all P arr" "P (ToNumber v)"
  shows "list_all P (f32_set arr i v)"
  using assms by (auto simp: f32_set_def list_all_iff dest: set_update_subset_insert [THEN subsetD])

lemma f32_set_replicate: "f32_set (replicate n (Fin 0)) i (Fin 0) = replicate n (Fin 0)"
  by (auto simp: f32_set_def intro: nth_equalityI simp: nth_list_update)

lemma laplacian_at_fin:
  assumes "w * h \<le> length pixels" "1 \<le> y" "y + 1 < h" "1 \<le> x" "x + 1 < w"
  shows "is_fin (laplacian_at pixels w y x)"
proof -
  have b: "y - 1 < h" "y < h" "y + 1 < h" "x - 1 < w" "x < w" "x + 1 < w" using assms by auto
  note p = px_fin [OF assms(1)]
  show ?thesis
    unfolding laplacian_at_def p [OF b(1) b(5)] p [OF b(2) b(4)] p [OF b(2) b(5)]
      p [OF b(2) b(6)] p [OF b(3) b(5)]
    by simp
qed

lemma applyLaplacian_fin:
  assumes "w * h \<le> length pixels"
  shows "list_all is_fin (applyLaplacian pixels w h) \<and>
         length (applyLaplacian pixels w h) = length pixels"
  unfolding applyLaplacian_def
proof (rule foldl_inv [where P = "\<lambda>r. list_all is_fin r \<and> length r = length pixels"], goal_cases)
  case 1
  show ?case by (simp add: list_all_iff)
next
  case (2 res y)
  then have y: "1 \<le> y" "y + 1 < h" by auto
  show ?case
  proof (rule foldl_inv [where P = "\<lambda>r. list_all is_fin r \<and> length r = length pixels"], goal_cases)
    case 1
    show ?case using 2 by simp
  next
    case (2 r x)
    then have x: "1 \<le> x" "x + 1 < w" by auto
    have "is_fin (laplacian_at pixels w y x)" by (rule laplacian_at_fin [OF assms y x])
    then have "is_fin (ToNumber (laplacian_at pixels w y x))"
      by (cases "laplacian_at pixels w y x") auto
    with 2 show ?case by (simp add: f32_set_all)
  qed
qed


lemma is_fin_ToNumber: "is_fin v \<Longrightarrow> is_fin (ToNumber v)"
  by (cases v) auto

lemma px_replicate: "i < n \<Longrightarrow> px (replicate n c) i = Fin (real (unat c))"
  by (simp add: px_def)

lemma px_const:
  assumes "w * h \<le> n" "a < h" "b < w"
  shows "px (replicate n c) (a * w + b) = Fin (real (unat c))"
  using idx_bound [OF assms(2,3)] assms(1) by (simp add: px_replicate)

lemma laplacian_at_const:
  assumes "w * h \<le> n" "1 \<le> y" "y + 1 < h" "1 \<le> x" "x + 1 < w"
  shows "laplacian_at (replicate n c) w y x = Fin 0"
proof -
  have b: "y - 1 < h" "y < h" "y + 1 < h" "x - 1 < w" "x < w" "x + 1 < w" using assms by auto
  note p = px_const [OF assms(1)]
  show ?thesis
    unfolding laplacian_at_def p [OF b(1) b(5)] p [OF b(2) b(4)] p [OF b(2) b(5)]
      p [OF b(2) b(6)] p [OF b(3) b(5)]
    by simp
qed

lemma applyLaplacian_const:
  assumes "w * h \<le> n"
  shows "applyLaplacian (replicate n c) w h = replicate n (Fin 0)"
  unfolding applyLaplacian_def
proof (rule foldl_inv [where P = "\<lambda>r. r = replicate n (Fin 0)"], goal_cases)
  case 1
  show ?case by simp
next
  case (2 res y)
  then have y: "1 \<le> y" "y + 1 < h" by auto
  show ?case
  proof (rule foldl_inv [where P = "\<lambda>r. r = replicate n (Fin 0)"], goal_cases)
    case 1
    show ?case using 2 by simp
  next
    case (2 r x)
    then have x: "1 \<le> x" "x + 1 < w" by auto
    show ?case
      unfolding laplacian_at_const [OF assms y x] using 2 by (simp add: f32_set_replicate)
  qed
qed

lemma sobel_at_fin:
  assumes "w * h \<le> length pixels" "1 \<le> y" "y + 1 < h" "1 \<le> x" "x + 1 < w"
  shows "is_fin (sobelX_at pixels w y x)" "is_fin (sobelY_at pixels w y x)"
proof -
  have b: "y - 1 < h" "y < h" "y + 1 < h" "x - 1 < w" "x < w" "x + 1 < w" using assms by auto
  note p = px_fin [OF assms(1)]
  show "is_fin (sobelX_at pixels w y x)"
    unfolding sobelX_at_def p [OF b(1) b(4)] p [OF b(1) b(6)] p [OF b(2) b(4)]
      p [OF b(2) b(6)] p [OF b(3) b(4)] p [OF b(3) b(6)]
    by simp
  show "is_fin (sobelY_at pixels w y x)"
    unfolding sobelY_at_def p [OF b(1) b(4)] p [OF b(1) b(5)] p [OF b(1) b(6)]
      p [OF b(3) b(4)] p [OF b(3) b(5)] p [OF b(3) b(6)]
    by simp
qed

lemma sobel_at_const:
  assumes "w * h \<le> n" "1 \<le> y" "y + 1 < h" "1 \<le> x" "x + 1 < w"
  shows "sobelX_at (replicate n c) w y x = Fin 0" "sobelY_at (replicate n c) w y x = Fin 0"
proof -
  have b: "y - 1 < h" "y < h" "y + 1 < h" "x - 1 < w" "x < w" "x + 1 < w" using assms by auto
  note p = px_const [OF assms(1)]
  show "sobelX_at (replicate n c) w y x = Fin 0"
    unfolding sobelX_at_def p [OF b(1) b(4)] p [OF b(1) b(6)] p [OF b(2) b(4)]
      p [OF b(2) b(6)] p [OF b(3) b(4)] p [OF b(3) b(6)]
    by simp
  show "sobelY_at (replicate n c) w y x = Fin 0"
    unfolding sobelY_at_def p [OF b(1) b(4)] p [OF b(1) b(5)] p [OF b(1) b(6)]
      p [OF b(3) b(4)] p [OF b(3) b(5)] p [OF b(3) b(6)]
    by simp
qed

lemma calculateGradients_fin:
  assumes "w * h \<le> length pixels"
  shows "list_all is_fin (fst (calculateGradients pixels w h)) \<and>
         list_all is_fin (snd (calculateGradients pixels w h)) \<and>
         length (fst (calculateGradients pixels w h)) = length pixels \<and>
         length (snd (calculateGradients pixels w h)) = length pixels"
  unfolding calculateGradients_def
proof (rule foldl_inv [where P = "\<lambda>g. list_all is_fin (fst g) \<and> list_all is_fin (snd g) \<and>
          length (fst g) = length pixels \<and> length (snd g) = length pixels"], goal_cases)
  case 1
  show ?case by (simp add: list_all_iff)
next
  case (2 g0 y)
  then have y: "1 \<le> y" "y + 1 < h" by auto
  show ?case
  proof (rule foldl_inv [where P = "\<lambda>g. list_all is_fin (fst g) \<and> list_all is_fin (snd g) \<and>
          length (fst g) = length pixels \<and> length (snd g) = length pixels"], goal_cases)
    case 1
    show ?case using 2 by simp
  next
    case (2 g x)
    then have x: "1 \<le> x" "x + 1 < w" by auto
    note s = sobel_at_fin [OF assms y x, THEN is_fin_ToNumber]
    with 2 show ?case by (cases g) (simp add: f32_set_all)
  qed
qed

lemma calculateGradients_const:
  assumes "w * h \<le> n"
  shows "calculateGradients (replicate n c) w h = (replicate n (Fin 0), replicate n (Fin 0))"
  unfolding calculateGradients_def
proof (rule foldl_inv [where P = "\<lambda>g. g = (replicate n (Fin 0), replicate n (Fin 0))"], goal_cases)
  case 1
  show ?case by simp
next
  case (2 g0 y)
  then have y: "1 \<le> y" "y + 1 < h" by auto
  show ?case
  proof (rule foldl_inv [where P = "\<lambda>g. g = (replicate n (Fin 0), replicate n (Fin 0))"], goal_cases)
    case 1
    show ?case using 2 by simp
  next
    case (2 g x)
    then have x: "1 \<le> x" "x + 1 < w" by auto
    show ?case
      using 2 by (simp add: sobel_at_const [OF assms y x] f32_set_replicate)
  qed
qed


lemma arr_at_fin: "list_all is_fin xs \<Longrightarrow> i < length xs \<Longrightarrow> \<exists>r. arr_at xs i = Fin r"
  by (auto simp: arr_at_def list_all_length is_fin_conv)

lemma calculateMagnitude_nonneg:
  assumes "list_all is_fin gx" "list_all is_fin gy" "length gy = length gx"
  shows "list_all is_nonneg (calculateMagnitude gx gy) \<and>
         length (calculateMagnitude gx gy) = length gx"
  unfolding calculateMagnitude_def
proof (rule foldl_inv [where P = "\<lambda>m. list_all is_nonneg m \<and> length m = length gx"], goal_cases)
  case 1
  show ?case by (simp add: list_all_iff)
next
  case (2 m i)
  then have i: "i < length gx" "i < length gy" using assms(3) by auto
  obtain a b where ab: "arr_at gx i = Fin a" "arr_at gy i = Fin b"
    using arr_at_fin [OF assms(1) i(1)] arr_at_fin [OF assms(2) i(2)] by blast
  have "0 \<le> a * a + b * b" by simp
  then show ?case using 2 unfolding ab by (simp add: f32_set_all)
qed

lemma squaredMagnitude_fin:
  assumes "list_all is_fin gx" "list_all is_fin gy" "length gy = length gx"
  shows "list_all is_fin (squaredMagnitude gx gy) \<and>
         length (squaredMagnitude gx gy) = length gx"
  unfolding squaredMagnitude_def
proof (rule foldl_inv [where P = "\<lambda>m. list_all is_fin m \<and> length m = length gx"], goal_cases)
  case 1
  show ?case by (simp add: list_all_iff)
next
  case (2 m i)
  then have i: "i < length gx" "i < length gy" using assms(3) by auto
  obtain a b where ab: "arr_at gx i = Fin a" "arr_at gy i = Fin b"
    using arr_at_fin [OF assms(1) i(1)] arr_at_fin [OF assms(2) i(2)] by blast
  show ?case using 2 unfolding ab by (simp add: f32_set_all)
qed

lemma arr_at_replicate: "i < n \<Longrightarrow> arr_at (replicate n v) i = v"
  by (simp add: arr_at_def)

lemma calculateMagnitude_const:
  "calculateMagnitude (replicate n (Fin 0)) (replicate n (Fin 0)) = replicate n (Fin 0)"
  unfolding calculateMagnitude_def
  by (rule foldl_inv [where P = "\<lambda>m. m = replicate n (Fin 0)"])
     (simp_all add: arr_at_replicate f32_set_replicate)

lemma squaredMagnitude_const:
  "squaredMagnitude (replicate n (Fin 0)) (replicate n (Fin 0)) = replicate n (Fin 0)"
  unfolding squaredMagnitude_def
  by (rule foldl_inv [where P = "\<lambda>m. m = replicate n (Fin 0)"])
     (simp_all add: arr_at_replicate f32_set_replicate)

lemma nonneg_map: "list_all is_nonneg xs \<Longrightarrow> xs = map Fin (map fin_val xs) \<and> (\<forall>r \<in> set (map fin_val xs). 0 \<le> r)"
proof (induction xs)
  case Nil
  show ?case by simp
next
  case (Cons x xs)
  then show ?case by (cases x) auto
qed

lemma mean_nonneg:
  assumes "xs \<noteq> []" "list_all is_nonneg xs"
  shows "\<exists>v. jdiv (foldl jadd (Fin 0) xs) (Fin (real (length xs))) = Fin v \<and> 0 \<le> v"
proof -
  define rs where "rs = map fin_val xs"
  from nonneg_map [OF assms(2)] have xs: "xs = map Fin rs" and nn: "\<forall>r \<in> set rs. 0 \<le> r"
    unfolding rs_def by auto
  from assms(1) have ne: "rs \<noteq> []" by (simp add: rs_def)
  have "0 \<le> sum_list rs / real (length rs)"
    using nn by (intro divide_nonneg_nonneg sum_list_nonneg) auto
  then show ?thesis unfolding xs foldl_jadd_Fin using ne by simp
qed

lemma mean_zero: "0 < n \<Longrightarrow> jdiv (foldl jadd (Fin 0) (replicate n (Fin 0))) (Fin (real n)) = Fin 0"
  using foldl_jadd_Fin [of 0 "replicate n 0"] by (simp add: sum_list_replicate)

lemma calculateVariance_zero: "0 < n \<Longrightarrow> calculateVariance (replicate n (Fin 0)) = Fin 0"
  using calculateVariance_Fin [of "replicate n 0"] by (simp add: comp_def sum_list_replicate)

lemma foldl_px:
  "foldl (\<lambda>a i. g a (px pixels i)) a [0 ..< length pixels]
     = foldl g a (map (\<lambda>b. Fin (real (unat b))) pixels)"
proof -
  have m: "map (px pixels) [0 ..< length pixels] = map (\<lambda>b. Fin (real (unat b))) pixels"
    by (rule nth_equalityI) (simp_all add: px_def)
  have "foldl (\<lambda>a i. g a (px pixels i)) a [0 ..< length pixels]
      = foldl g a (map (px pixels) [0 ..< length pixels])"
    by (simp add: foldl_map)
  then show ?thesis by (simp only: m)
qed

lemma VarianceDetector_calculateVariance_eq:
  "VarianceDetector_calculateVariance pixels = calculateVariance (map (\<lambda>b. Fin (real (unat b))) pixels)"
proof -
  let ?xs = "map (\<lambda>b. Fin (real (unat b))) pixels"
  have s: "foldl (\<lambda>sum i. jadd sum (px pixels i)) (Fin 0) [0 ..< length pixels]
      = foldl jadd (Fin 0) ?xs"
    by (rule foldl_px)
  have v: "foldl (\<lambda>acc i. jadd acc (jmul (jsub (px pixels i) M) (jsub (px pixels i) M))) (Fin 0)
        [0 ..< length pixels]
      = foldl (\<lambda>acc d. jadd acc (jmul (jsub d M) (jsub d M))) (Fin 0) ?xs" for M
    by (rule foldl_px [where g = "\<lambda>acc d. jadd acc (jmul (jsub d M) (jsub d M))"])
  show ?thesis
    unfolding VarianceDetector_calculateVariance_def calculateVariance_def Let_def s v
    by simp
qed


lemma kernels_finite_nonneg:
  assumes dec: "dec imageBuffer = Inr img"
    and ne: "data img \<noteq> []"
    and wf: "width img * height img \<le> length (data img)"
  shows "\<exists>l g t v.
     LaplacianDetector_calculateBlurScore dec imageBuffer = Inr (Fin l) \<and> 0 \<le> l \<and>
     GradientDetector_calculateBlurScore dec imageBuffer = Inr (Fin g) \<and> 0 \<le> g \<and>
     TenengradDetector_calculateBlurScore dec imageBuffer = Inr (Fin t) \<and> 0 \<le> t \<and>
     VarianceDetector_calculateBlurScore dec imageBuffer = Inr (Fin v) \<and> 0 \<le> v"
proof -
  let ?p = "data img" and ?w = "width img" and ?h = "height img"
  let ?n = "length ?p"
  have n: "0 < ?n" using ne by simp
  obtain gx gy where g: "calculateGradients ?p ?w ?h = (gx, gy)"
    by (cases "calculateGradients ?p ?w ?h")
  from calculateGradients_fin [OF wf] g
  have gfin: "list_all is_fin gx" "list_all is_fin gy" "length gx = ?n" "length gy = ?n" by auto
  have lap: "list_all is_fin (applyLaplacian ?p ?w ?h)" "applyLaplacian ?p ?w ?h \<noteq> []"
    using applyLaplacian_fin [OF wf] n by auto
  from calculateVariance_nonneg [OF lap(2,1)]
  obtain l where l: "calculateVariance (applyLaplacian ?p ?w ?h) = Fin l" "0 \<le> l" by blast
  have mag: "list_all is_nonneg (calculateMagnitude gx gy)" "length (calculateMagnitude gx gy) = ?n"
    using calculateMagnitude_nonneg [OF gfin(1,2)] gfin(3,4) by auto
  then have "calculateMagnitude gx gy \<noteq> []" using n by auto
  from mean_nonneg [OF this mag(1)]
  obtain gr where gr: "jdiv (foldl jadd (Fin 0) (calculateMagnitude gx gy))
      (Fin (real (length (calculateMagnitude gx gy)))) = Fin gr" "0 \<le> gr" by blast
  have sq: "list_all is_fin (squaredMagnitude gx gy)" "length (squaredMagnitude gx gy) = ?n"
    using squaredMagnitude_fin [OF gfin(1,2)] gfin(3,4) by auto
  then have "squaredMagnitude gx gy \<noteq> []" using n by auto
  from calculateVariance_nonneg [OF this sq(1)]
  obtain t where t: "calculateVariance (squaredMagnitude gx gy) = Fin t" "0 \<le> t" by blast
  have "list_all is_fin (map (\<lambda>b. Fin (real (unat b))) ?p)" by (simp add: list_all_iff)
  from calculateVariance_nonneg [OF _ this]
  obtain v where v: "VarianceDetector_calculateVariance ?p = Fin v" "0 \<le> v"
    unfolding VarianceDetector_calculateVariance_eq using ne by auto
  have L: "LaplacianDetector_calculateBlurScore dec imageBuffer = Inr (Fin l)"
    by (simp add: LaplacianDetector_calculateBlurScore_def dec l)
  have G: "GradientDetector_calculateBlurScore dec imageBuffer = Inr (Fin gr)"
    by (simp add: GradientDetector_calculateBlurScore_def dec g gr Let_def)
  have T: "TenengradDetector_calculateBlurScore dec imageBuffer = Inr (Fin t)"
    using t(1)
    by (simp add: TenengradDetector_calculateBlurScore_def dec g Let_def calculateVariance_def)
  have V: "VarianceDetector_calculateBlurScore dec imageBuffer = Inr (Fin v)"
    by (simp add: VarianceDetector_calculateBlurScore_def dec v)
  show ?thesis using L G T V l(2) gr(2) t(2) v(2) by blast
qed

lemma kernels_constant:
  assumes dec: "dec imageBuffer = Inr img"
    and ne: "data img \<noteq> []"
    and wf: "width img * height img \<le> length (data img)"
    and c: "data img = replicate (length (data img)) c"
  shows "LaplacianDetector_calculateBlurScore dec imageBuffer = Inr (Fin 0)"
    and "GradientDetector_calculateBlurScore dec imageBuffer = Inr (Fin 0)"
    and "TenengradDetector_calculateBlurScore dec imageBuffer = Inr (Fin 0)"
    and "VarianceDetector_calculateBlurScore dec imageBuffer = Inr (Fin 0)"
proof -
  let ?w = "width img" and ?h = "height img"
  define n where "n = length (data img)"
  have n: "0 < n" using ne by (simp add: n_def)
  have p: "data img = replicate n c" using c by (simp add: n_def)
  have wf': "?w * ?h \<le> n" using wf by (simp add: n_def)
  have lap: "applyLaplacian (replicate n c) ?w ?h = replicate n (Fin 0)"
    by (rule applyLaplacian_const [OF wf'])
  have g: "calculateGradients (replicate n c) ?w ?h = (replicate n (Fin 0), replicate n (Fin 0))"
    by (rule calculateGradients_const [OF wf'])
  show "LaplacianDetector_calculateBlurScore dec imageBuffer = Inr (Fin 0)"
    using n by (simp add: LaplacianDetector_calculateBlurScore_def dec p lap calculateVariance_zero)
  show "GradientDetector_calculateBlurScore dec imageBuffer = Inr (Fin 0)"
    using n
    by (simp add: GradientDetector_calculateBlurScore_def dec p g calculateMagnitude_const mean_zero)
  have "calculateVariance (replicate n (Fin 0)) = Fin 0" using n by (rule calculateVariance_zero)
  then show "TenengradDetector_calculateBlurScore dec imageBuffer = Inr (Fin 0)"
    by (simp add: TenengradDetector_calculateBlurScore_def dec p g squaredMagnitude_const
          calculateVariance_def Let_def)
  have "map (\<lambda>b. Fin (real (unat b))) (replicate n c) = map Fin (replicate n (real (unat c)))"
    by simp
  then have "VarianceDetector_calculateVariance (replicate n c) = Fin 0"
    unfolding VarianceDetector_calculateVariance_eq
    using calculateVariance_Fin [of "replicate n (real (unat c))"] n
    by (simp add: comp_def sum_list_replicate)
  then show "VarianceDetector_calculateBlurScore dec imageBuffer = Inr (Fin 0)"
    by (simp add: VarianceDetector_calculateBlurScore_def dec p)
qed

lemma flat_gray_wf:
  "data flat_gray \<noteq> []" "width flat_gray * height flat_gray \<le> length (data flat_gray)"
  "data flat_gray = replicate (length (data flat_gray)) 7"
  by (simp_all add: flat_gray_def)

text \<open>
  Claim C9. For every decoded pixel buffer (at least one byte, and at least
  \<open>width * height\<close> bytes, as the decoder delivers it), each of the four kernels
  (Laplacian variance, Sobel gradient mean, Tenengrad, graylevel variance) returns a
  finite score that is at least 0; and on a buffer of constant intensity all four kernels
  return exactly 0.
\<close>

theorem kernels_nonneg_zero_on_constant:
  assumes dec: "dec imageBuffer = Inr img"
    and ne: "data img \<noteq> []"
    and wf: "width img * height img \<le> length (data img)"
  shows "\<exists>l g t v.
     LaplacianDetector_calculateBlurScore dec imageBuffer = Inr (Fin l) \<and> 0 \<le> l \<and>
     GradientDetector_calculateBlurScore dec imageBuffer = Inr (Fin g) \<and> 0 \<le> g \<and>
     TenengradDetector_calculateBlurScore dec imageBuffer = Inr (Fin t) \<and> 0 \<le> t \<and>
     VarianceDetector_calculateBlurScore dec imageBuffer = Inr (Fin v) \<and> 0 \<le> v \<and>
     ((\<exists>c. data img = replicate (length (data img)) c) \<longrightarrow> l = 0 \<and> g = 0 \<and> t = 0 \<and> v = 0)"
proof -
  from kernels_finite_nonneg [of dec imageBuffer img, OF dec ne wf] obtain l g t v where
    s: "LaplacianDetector_calculateBlurScore dec imageBuffer = Inr (Fin l)" "0 \<le> l"
       "GradientDetector_calculateBlurScore dec imageBuffer = Inr (Fin g)" "0 \<le> g"
       "TenengradDetector_calculateBlurScore dec imageBuffer = Inr (Fin t)" "0 \<le> t"
       "VarianceDetector_calculateBlurScore dec imageBuffer = Inr (Fin v)" "0 \<le> v"
    by blast
  have "l = 0 \<and> g = 0 \<and> t = 0 \<and> v = 0" if "data img = replicate (length (data img)) c" for c
    using kernels_constant [of dec imageBuffer img, OF dec ne wf that] s by simp
  with s show ?thesis by blast
qed

text \<open>The theorem at a flat 3 by 3 image of intensity 7: all four scores are 0.\<close>

theorem kernels_nonneg_zero_on_constant_witness:
  "LaplacianDetector_calculateBlurScore (\<lambda>u::unit. Inr flat_gray) () = Inr (Fin 0) \<and>
   GradientDetector_calculateBlurScore (\<lambda>u::unit. Inr flat_gray) () = Inr (Fin 0) \<and>
   TenengradDetector_calculateBlurScore (\<lambda>u::unit. Inr flat_gray) () = Inr (Fin 0) \<and>
   VarianceDetector_calculateBlurScore (\<lambda>u::unit. Inr flat_gray) () = Inr (Fin 0)"
proof -
  have c: "\<exists>c. data flat_gray = replicate (length (data flat_gray)) c"
    using flat_gray_wf(3) by blast
  from kernels_nonneg_zero_on_constant
         [of "\<lambda>u::unit. Inr flat_gray" "()" flat_gray, OF _ flat_gray_wf(1,2)] c
  show ?thesis by auto
qed

section \<open>The composite score and the two normalizations\<close>

lemma compositeScore_finite:
  "compositeScore \<lparr>laplacian = Fin L, gradient = Fin G, tenengrad = Fin T, variance = Fin V\<rparr>
     = Fin (0.30 * L + 0.20 * G + 0.40 * T + 0.10 * V)"
  by (simp add: compositeScore_def algebra_simps)

lemma normalizeHandTuned_finite:
  "normalizeHandTuned (Fin l) (Fin g) (Fin t) (Fin v) =
     \<lparr>laplacian = Fin (min 100 (l / 0.5)), gradient = Fin (min 100 (g / 0.3)),
      tenengrad = Fin (max 0 (min 100 (((log10_guarded t - 2) / 6) * 100))),
      variance = Fin (min 100 (v / 10))\<rparr>"
  by (simp add: normalizeHandTuned_def Let_def jgt_def jsub_def log10_guarded_def)

lemma flat_gray_composite_gen:
  assumes "dec buffer = Inr flat_gray"
  shows "CompositeDetector_calculateBlurScore None dec buffer = Inr flat_gray_score"
proof -
  note k = kernels_constant [of dec buffer flat_gray, OF assms flat_gray_wf]
  have "normalizeHandTuned (Fin 0) (Fin 0) (Fin 0) (Fin 0)
      = \<lparr>laplacian = Fin 0, gradient = Fin 0, tenengrad = Fin 0, variance = Fin 0\<rparr>"
    by (simp add: normalizeHandTuned_finite log10_guarded_def)
  then show ?thesis
    by (simp add: CompositeDetector_calculateBlurScore_def k compositeScore_finite
          flat_gray_score_def)
qed

lemma upt_12: "[Suc 0 ..< 2] = [Suc 0]" by (simp add: upt_rec)

lemma edge_lap:
  "applyLaplacian [0, 0, 0, 0, 4, 3, 0, 4, 0] 3 3 =
     [Fin 0, Fin 0, Fin 0, Fin 0, Fin (- 9), Fin 0, Fin 0, Fin 0, Fin 0]"
  by (simp add: applyLaplacian_def upt_12 laplacian_at_def px_def f32_set_def)

lemma edge_grad:
  "calculateGradients [0, 0, 0, 0, 4, 3, 0, 4, 0] 3 3 =
     ([Fin 0, Fin 0, Fin 0, Fin 0, Fin 6, Fin 0, Fin 0, Fin 0, Fin 0],
      [Fin 0, Fin 0, Fin 0, Fin 0, Fin 8, Fin 0, Fin 0, Fin 0, Fin 0])"
  by (simp add: calculateGradients_def upt_12 sobelX_at_def sobelY_at_def px_def f32_set_def)

lemma sqrt_100: "sqrt 100 = 10"
  by (rule real_sqrt_unique) simp_all

lemma upt_9: "[0 ..< 9] = [0, 1, 2, 3, 4, 5, 6, 7, 8]"
  by (simp add: upt_rec)

lemma edge_mag:
  "calculateMagnitude [Fin 0, Fin 0, Fin 0, Fin 0, Fin 6, Fin 0, Fin 0, Fin 0, Fin 0]
      [Fin 0, Fin 0, Fin 0, Fin 0, Fin 8, Fin 0, Fin 0, Fin 0, Fin 0] =
     [Fin 0, Fin 0, Fin 0, Fin 0, Fin 10, Fin 0, Fin 0, Fin 0, Fin 0]"
  by (simp add: calculateMagnitude_def upt_9 arr_at_def f32_set_def sqrt_100)

lemma edge_sq:
  "squaredMagnitude [Fin 0, Fin 0, Fin 0, Fin 0, Fin 6, Fin 0, Fin 0, Fin 0, Fin 0]
      [Fin 0, Fin 0, Fin 0, Fin 0, Fin 8, Fin 0, Fin 0, Fin 0, Fin 0] =
     [Fin 0, Fin 0, Fin 0, Fin 0, Fin 100, Fin 0, Fin 0, Fin 0, Fin 0]"
  by (simp add: squaredMagnitude_def upt_9 arr_at_def f32_set_def)

lemma edge_gray_kernels:
  assumes "dec buffer = Inr edge_gray"
  shows "LaplacianDetector_calculateBlurScore dec buffer = Inr (Fin 8)"
    and "GradientDetector_calculateBlurScore dec buffer = Inr (Fin (10 / 9))"
    and "TenengradDetector_calculateBlurScore dec buffer = Inr (Fin (80000 / 81))"
    and "VarianceDetector_calculateBlurScore dec buffer = Inr (Fin (248 / 81))"
proof -
  show "LaplacianDetector_calculateBlurScore dec buffer = Inr (Fin 8)"
    by (simp add: LaplacianDetector_calculateBlurScore_def assms edge_gray_def edge_lap
          calculateVariance_def Let_def jsub_def)
  show "GradientDetector_calculateBlurScore dec buffer = Inr (Fin (10 / 9))"
    by (simp add: GradientDetector_calculateBlurScore_def assms edge_gray_def edge_grad
          edge_mag Let_def)
  show "TenengradDetector_calculateBlurScore dec buffer = Inr (Fin (80000 / 81))"
    by (simp add: TenengradDetector_calculateBlurScore_def assms edge_gray_def edge_grad
          edge_sq Let_def jsub_def)
  show "VarianceDetector_calculateBlurScore dec buffer = Inr (Fin (248 / 81))"
    by (simp add: VarianceDetector_calculateBlurScore_def assms edge_gray_def
          VarianceDetector_calculateVariance_def upt_9 px_def Let_def jsub_def)
qed

lemma log10_edge:
  "log 10 (800000 / 81) = log 10 (80000 / 81) + 1"
  "log 10 (8000 / 81) = log 10 (80000 / 81) - 1"
  "2 < log 10 (80000 / 81)" "log 10 (80000 / 81) < 8"
proof -
  have a: "log 10 (10 * (80000 / 81)) = log 10 10 + log 10 (80000 / 81)"
    using log_mult [where a = 10 and x = 10 and y = "80000 / 81"] by simp
  then show "log 10 (800000 / 81) = log 10 (80000 / 81) + 1" by simp
  have b: "log 10 ((80000 / 81) / 10) = log 10 (80000 / 81) - log 10 10"
    using log_divide [where a = 10 and x = "80000 / 81" and y = 10] by simp
  then show "log 10 (8000 / 81) = log 10 (80000 / 81) - 1" by simp
  show "2 < log 10 (80000 / 81)" by (simp add: less_log_iff)
  show "log 10 (80000 / 81) < 8" by (simp add: log_less_iff)
qed

lemma edge_gray_composite:
  assumes "dec buffer = Inr edge_gray"
  shows "CompositeDetector_calculateBlurScore None dec buffer = Inr edge_gray_score"
    and "CompositeDetector_calculateBlurScore (Some edge_stats) dec buffer =
           Inr edge_gray_calibrated_score"
proof -
  note k = edge_gray_kernels [of dec buffer, OF assms]
  have n: "normalizeHandTuned (Fin 8) (Fin (10 / 9)) (Fin (80000 / 81)) (Fin (248 / 81)) =
      \<lparr>laplacian = Fin 16, gradient = Fin (100 / 27),
       tenengrad = Fin ((log 10 (80000 / 81) - 2) / 6 * 100), variance = Fin (124 / 405)\<rparr>"
    using log10_edge(3,4) by (simp add: normalizeHandTuned_finite log10_guarded_def)
  show "CompositeDetector_calculateBlurScore None dec buffer = Inr edge_gray_score"
    by (simp add: CompositeDetector_calculateBlurScore_def k n compositeScore_finite
          edge_gray_score_def)
  have m: "normalizePercentile edge_stats (Fin 8) (Fin (10 / 9)) (Fin (80000 / 81))
        (Fin (248 / 81)) =
      \<lparr>laplacian = Fin 50, gradient = Fin 25, tenengrad = Fin 50, variance = Fin 10\<rparr>"
    by (simp add: normalizePercentile_def edge_stats_def Let_def jgt_def jsub_def
          CompositeDetector_clip_def log10_edge(1,2))
  show "CompositeDetector_calculateBlurScore (Some edge_stats) dec buffer =
      Inr edge_gray_calibrated_score"
    by (simp add: CompositeDetector_calculateBlurScore_def k m compositeScore_finite
          edge_gray_calibrated_score_def)
qed

text \<open>
  Claim C1. For every image the composite scorer scores successfully, the four raw scores
  of the result are the scores of the four kernels on that image, the normalized scores are
  their normalization (hand-tuned, or by percentiles when the detector has calibration
  statistics), and the composite score is the weighted sum
  \<open>0.30 * L + 0.20 * G + 0.40 * T + 0.10 * V\<close> of these normalized scores: in JavaScript
  arithmetic for all values, and as the exact real weighted sum when the four normalized
  scores are finite. The four weights sum to 1 (equal normalized scores \<open>c\<close> give the
  composite \<open>c\<close>), and the normalized scores \<open>L = 100, G = 0, T = 50, V = 0\<close> give the
  composite 50. Without calibration, every decoded image whose buffer is not empty and
  holds its \<open>width * height\<close> pixels is scored, and the composite is the weighted sum of the
  four hand-tuned maps of its finite non-negative raw scores.
\<close>

theorem composite_is_weighted_sum:
  "(CompositeDetector_calculateBlurScore cal dec imageBuffer = Inr r \<longrightarrow>
      LaplacianDetector_calculateBlurScore dec imageBuffer = Inr (laplacian r) \<and>
      GradientDetector_calculateBlurScore dec imageBuffer = Inr (gradient r) \<and>
      TenengradDetector_calculateBlurScore dec imageBuffer = Inr (tenengrad r) \<and>
      VarianceDetector_calculateBlurScore dec imageBuffer = Inr (variance r) \<and>
      normalized r =
        (case cal of
           Some stats \<Rightarrow>
             normalizePercentile stats (laplacian r) (gradient r) (tenengrad r) (variance r)
         | None \<Rightarrow> normalizeHandTuned (laplacian r) (gradient r) (tenengrad r) (variance r)) \<and>
      composite r =
        jadd (jadd (jadd
          (jmul (laplacian (normalized r)) (Fin 0.30))
          (jmul (gradient (normalized r)) (Fin 0.20)))
          (jmul (tenengrad (normalized r)) (Fin 0.40)))
          (jmul (variance (normalized r)) (Fin 0.10)) \<and>
      (\<forall>L G T V. normalized r =
            \<lparr>laplacian = Fin L, gradient = Fin G, tenengrad = Fin T, variance = Fin V\<rparr>
         \<longrightarrow> composite r = Fin (0.30 * L + 0.20 * G + 0.40 * T + 0.10 * V)) \<and>
      (\<forall>c. normalized r =
            \<lparr>laplacian = Fin c, gradient = Fin c, tenengrad = Fin c, variance = Fin c\<rparr>
         \<longrightarrow> composite r = Fin c) \<and>
      (normalized r =
            \<lparr>laplacian = Fin 100, gradient = Fin 0, tenengrad = Fin 50, variance = Fin 0\<rparr>
         \<longrightarrow> composite r = Fin 50)) \<and>
   (dec imageBuffer = Inr img \<and> data img \<noteq> [] \<and> width img * height img \<le> length (data img)
      \<longrightarrow> (\<exists>l g t v. 0 \<le> l \<and> 0 \<le> g \<and> 0 \<le> t \<and> 0 \<le> v \<and>
             CompositeDetector_calculateBlurScore None dec imageBuffer =
               Inr \<lparr>laplacian = Fin l, gradient = Fin g, tenengrad = Fin t, variance = Fin v,
                    composite = Fin (0.30 * min 100 (l / 0.5) + 0.20 * min 100 (g / 0.3) +
                      0.40 * max 0 (min 100 (((log10_guarded t - 2) / 6) * 100)) +
                      0.10 * min 100 (v / 10)),
                    normalized =
                      \<lparr>laplacian = Fin (min 100 (l / 0.5)), gradient = Fin (min 100 (g / 0.3)),
                       tenengrad = Fin (max 0 (min 100 (((log10_guarded t - 2) / 6) * 100))),
                       variance = Fin (min 100 (v / 10))\<rparr>\<rparr>)) \<and>
   compositeScore \<lparr>laplacian = Fin 100, gradient = Fin 0, tenengrad = Fin 50, variance = Fin 0\<rparr>
     = Fin 50"
proof -
  have 1: "LaplacianDetector_calculateBlurScore dec imageBuffer = Inr (laplacian r) \<and>
      GradientDetector_calculateBlurScore dec imageBuffer = Inr (gradient r) \<and>
      TenengradDetector_calculateBlurScore dec imageBuffer = Inr (tenengrad r) \<and>
      VarianceDetector_calculateBlurScore dec imageBuffer = Inr (variance r) \<and>
      normalized r =
        (case cal of
           Some stats \<Rightarrow>
             normalizePercentile stats (laplacian r) (gradient r) (tenengrad r) (variance r)
         | None \<Rightarrow> normalizeHandTuned (laplacian r) (gradient r) (tenengrad r) (variance r)) \<and>
      composite r = compositeScore (normalized r)"
    if "CompositeDetector_calculateBlurScore cal dec imageBuffer = Inr r"
    using that
    by (cases cal) (auto simp: CompositeDetector_calculateBlurScore_def Let_def split: sum.splits)
  have 2: "\<exists>l g t v. 0 \<le> l \<and> 0 \<le> g \<and> 0 \<le> t \<and> 0 \<le> v \<and>
             CompositeDetector_calculateBlurScore None dec imageBuffer =
               Inr \<lparr>laplacian = Fin l, gradient = Fin g, tenengrad = Fin t, variance = Fin v,
                    composite = Fin (0.30 * min 100 (l / 0.5) + 0.20 * min 100 (g / 0.3) +
                      0.40 * max 0 (min 100 (((log10_guarded t - 2) / 6) * 100)) +
                      0.10 * min 100 (v / 10)),
                    normalized =
                      \<lparr>laplacian = Fin (min 100 (l / 0.5)), gradient = Fin (min 100 (g / 0.3)),
                       tenengrad = Fin (max 0 (min 100 (((log10_guarded t - 2) / 6) * 100))),
                       variance = Fin (min 100 (v / 10))\<rparr>\<rparr>"
    if "dec imageBuffer = Inr img" "data img \<noteq> []" "width img * height img \<le> length (data img)"
  proof -
    from kernels_finite_nonneg [of dec imageBuffer img, OF that]
    obtain l g t v where k:
      "LaplacianDetector_calculateBlurScore dec imageBuffer = Inr (Fin l)" "0 \<le> l"
      "GradientDetector_calculateBlurScore dec imageBuffer = Inr (Fin g)" "0 \<le> g"
      "TenengradDetector_calculateBlurScore dec imageBuffer = Inr (Fin t)" "0 \<le> t"
      "VarianceDetector_calculateBlurScore dec imageBuffer = Inr (Fin v)" "0 \<le> v"
      by blast
    have "CompositeDetector_calculateBlurScore None dec imageBuffer =
               Inr \<lparr>laplacian = Fin l, gradient = Fin g, tenengrad = Fin t, variance = Fin v,
                    composite = Fin (0.30 * min 100 (l / 0.5) + 0.20 * min 100 (g / 0.3) +
                      0.40 * max 0 (min 100 (((log10_guarded t - 2) / 6) * 100)) +
                      0.10 * min 100 (v / 10)),
                    normalized =
                      \<lparr>laplacian = Fin (min 100 (l / 0.5)), gradient = Fin (min 100 (g / 0.3)),
                       tenengrad = Fin (max 0 (min 100 (((log10_guarded t - 2) / 6) * 100))),
                       variance = Fin (min 100 (v / 10))\<rparr>\<rparr>"
      unfolding CompositeDetector_calculateBlurScore_def k(1,3,5,7)
      by (simp add: normalizeHandTuned_finite compositeScore_finite)
    with k(2,4,6,8) show ?thesis by blast
  qed
  have 3: "compositeScore
      \<lparr>laplacian = Fin 100, gradient = Fin 0, tenengrad = Fin 50, variance = Fin 0\<rparr> = Fin 50"
    by (simp add: compositeScore_finite)
  have 4: "composite r =
        jadd (jadd (jadd
          (jmul (laplacian (normalized r)) (Fin 0.30))
          (jmul (gradient (normalized r)) (Fin 0.20)))
          (jmul (tenengrad (normalized r)) (Fin 0.40)))
          (jmul (variance (normalized r)) (Fin 0.10))"
    if "CompositeDetector_calculateBlurScore cal dec imageBuffer = Inr r"
    using 1 [OF that] unfolding compositeScore_def by blast
  have 5: "composite r = Fin (0.30 * L + 0.20 * G + 0.40 * T + 0.10 * V)"
    if "CompositeDetector_calculateBlurScore cal dec imageBuffer = Inr r"
      "normalized r =
         \<lparr>laplacian = Fin L, gradient = Fin G, tenengrad = Fin T, variance = Fin V\<rparr>"
    for L G T V
    using 1 [OF that(1)] by (simp add: that(2) compositeScore_finite)
  have 6: "composite r = Fin c"
    if "CompositeDetector_calculateBlurScore cal dec imageBuffer = Inr r"
      "normalized r =
         \<lparr>laplacian = Fin c, gradient = Fin c, tenengrad = Fin c, variance = Fin c\<rparr>"
    for c
    using 5 [OF that] by simp
  have 7: "composite r = Fin 50"
    if "CompositeDetector_calculateBlurScore cal dec imageBuffer = Inr r"
      "normalized r =
         \<lparr>laplacian = Fin 100, gradient = Fin 0, tenengrad = Fin 50, variance = Fin 0\<rparr>"
    using 5 [OF that] by simp
  show ?thesis
    using 1 2 3 4 5 6 7 by blast
qed

text \<open>
  The theorem at the image \<open>edge_gray\<close>. Its kernel scores are \<open>8\<close>, \<open>10/9\<close>, \<open>80000/81\<close> and
  \<open>248/81\<close>. Without calibration the normalized scores are \<open>16\<close>, \<open>100/27\<close>,
  \<open>(log10 (80000/81) - 2) / 6 * 100\<close> and \<open>124/405\<close>, and the composite is their weighted
  sum; with the statistics \<open>edge_stats\<close> they are 50, 25, 50 and 10, and the composite is
  \<open>15 + 5 + 20 + 1 = 41\<close>.
\<close>

theorem composite_is_weighted_sum_witness:
  "CompositeDetector_calculateBlurScore None (\<lambda>u::unit. Inr edge_gray) () = Inr edge_gray_score \<and>
   LaplacianDetector_calculateBlurScore (\<lambda>u::unit. Inr edge_gray) () = Inr (Fin 8) \<and>
   GradientDetector_calculateBlurScore (\<lambda>u::unit. Inr edge_gray) () = Inr (Fin (10 / 9)) \<and>
   TenengradDetector_calculateBlurScore (\<lambda>u::unit. Inr edge_gray) () = Inr (Fin (80000 / 81)) \<and>
   VarianceDetector_calculateBlurScore (\<lambda>u::unit. Inr edge_gray) () = Inr (Fin (248 / 81)) \<and>
   normalized edge_gray_score =
     normalizeHandTuned (Fin 8) (Fin (10 / 9)) (Fin (80000 / 81)) (Fin (248 / 81)) \<and>
   normalized edge_gray_score =
     \<lparr>laplacian = Fin 16, gradient = Fin (100 / 27),
      tenengrad = Fin ((log 10 (80000 / 81) - 2) / 6 * 100), variance = Fin (124 / 405)\<rparr> \<and>
   composite edge_gray_score =
     Fin (0.30 * 16 + 0.20 * (100 / 27) + 0.40 * ((log 10 (80000 / 81) - 2) / 6 * 100) +
          0.10 * (124 / 405)) \<and>
   CompositeDetector_calculateBlurScore (Some edge_stats) (\<lambda>u::unit. Inr edge_gray) () =
     Inr edge_gray_calibrated_score \<and>
   normalized edge_gray_calibrated_score =
     normalizePercentile edge_stats (Fin 8) (Fin (10 / 9)) (Fin (80000 / 81)) (Fin (248 / 81)) \<and>
   normalized edge_gray_calibrated_score =
     \<lparr>laplacian = Fin 50, gradient = Fin 25, tenengrad = Fin 50, variance = Fin 10\<rparr> \<and>
   composite edge_gray_calibrated_score = Fin (0.30 * 50 + 0.20 * 25 + 0.40 * 50 + 0.10 * 10) \<and>
   composite edge_gray_calibrated_score = Fin 41 \<and>
   data edge_gray \<noteq> [] \<and> width edge_gray * height edge_gray \<le> length (data edge_gray) \<and>
   (\<exists>l g t v. 0 \<le> l \<and> 0 \<le> g \<and> 0 \<le> t \<and> 0 \<le> v \<and>
      CompositeDetector_calculateBlurScore None (\<lambda>u::unit. Inr edge_gray) () =
        Inr \<lparr>laplacian = Fin l, gradient = Fin g, tenengrad = Fin t, variance = Fin v,
             composite = Fin (0.30 * min 100 (l / 0.5) + 0.20 * min 100 (g / 0.3) +
               0.40 * max 0 (min 100 (((log10_guarded t - 2) / 6) * 100)) +
               0.10 * min 100 (v / 10)),
             normalized =
               \<lparr>laplacian = Fin (min 100 (l / 0.5)), gradient = Fin (min 100 (g / 0.3)),
                tenengrad = Fin (max 0 (min 100 (((log10_guarded t - 2) / 6) * 100))),
                variance = Fin (min 100 (v / 10))\<rparr>\<rparr>)"
proof -
  have d: "(\<lambda>u::unit. Inr edge_gray) () = Inr edge_gray" by simp
  note e = edge_gray_composite [of "\<lambda>u::unit. Inr edge_gray" "()", OF d]
  have r: "laplacian edge_gray_score = Fin 8" "gradient edge_gray_score = Fin (10 / 9)"
    "tenengrad edge_gray_score = Fin (80000 / 81)" "variance edge_gray_score = Fin (248 / 81)"
    "laplacian edge_gray_calibrated_score = Fin 8"
    "gradient edge_gray_calibrated_score = Fin (10 / 9)"
    "tenengrad edge_gray_calibrated_score = Fin (80000 / 81)"
    "variance edge_gray_calibrated_score = Fin (248 / 81)"
    by (simp_all add: edge_gray_score_def edge_gray_calibrated_score_def)
  have n: "normalized edge_gray_score =
     \<lparr>laplacian = Fin 16, gradient = Fin (100 / 27),
      tenengrad = Fin ((log 10 (80000 / 81) - 2) / 6 * 100), variance = Fin (124 / 405)\<rparr>"
    "normalized edge_gray_calibrated_score =
     \<lparr>laplacian = Fin 50, gradient = Fin 25, tenengrad = Fin 50, variance = Fin 10\<rparr>"
    by (simp_all add: edge_gray_score_def edge_gray_calibrated_score_def)
  note H = composite_is_weighted_sum
             [of None "\<lambda>u::unit. Inr edge_gray" "()" edge_gray_score edge_gray]
  have wf: "data edge_gray \<noteq> []" "width edge_gray * height edge_gray \<le> length (data edge_gray)"
    by (simp_all add: edge_gray_def)
  from H d wf have ex: "\<exists>l g t v. 0 \<le> l \<and> 0 \<le> g \<and> 0 \<le> t \<and> 0 \<le> v \<and>
      CompositeDetector_calculateBlurScore None (\<lambda>u::unit. Inr edge_gray) () =
        Inr \<lparr>laplacian = Fin l, gradient = Fin g, tenengrad = Fin t, variance = Fin v,
             composite = Fin (0.30 * min 100 (l / 0.5) + 0.20 * min 100 (g / 0.3) +
               0.40 * max 0 (min 100 (((log10_guarded t - 2) / 6) * 100)) +
               0.10 * min 100 (v / 10)),
             normalized =
               \<lparr>laplacian = Fin (min 100 (l / 0.5)), gradient = Fin (min 100 (g / 0.3)),
                tenengrad = Fin (max 0 (min 100 (((log10_guarded t - 2) / 6) * 100))),
                variance = Fin (min 100 (v / 10))\<rparr>\<rparr>"
    by blast
  note C = composite_is_weighted_sum
             [of "Some edge_stats" "\<lambda>u::unit. Inr edge_gray" "()" edge_gray_calibrated_score]
  from H e(1) have h:
    "LaplacianDetector_calculateBlurScore (\<lambda>u::unit. Inr edge_gray) () =
       Inr (laplacian edge_gray_score)"
    "GradientDetector_calculateBlurScore (\<lambda>u::unit. Inr edge_gray) () =
       Inr (gradient edge_gray_score)"
    "TenengradDetector_calculateBlurScore (\<lambda>u::unit. Inr edge_gray) () =
       Inr (tenengrad edge_gray_score)"
    "VarianceDetector_calculateBlurScore (\<lambda>u::unit. Inr edge_gray) () =
       Inr (variance edge_gray_score)"
    "normalized edge_gray_score =
       (case None :: calibration_stats option of
          Some stats \<Rightarrow> normalizePercentile stats (laplacian edge_gray_score)
             (gradient edge_gray_score) (tenengrad edge_gray_score) (variance edge_gray_score)
        | None \<Rightarrow> normalizeHandTuned (laplacian edge_gray_score)
             (gradient edge_gray_score) (tenengrad edge_gray_score) (variance edge_gray_score))"
    "\<forall>L G T V. normalized edge_gray_score =
            \<lparr>laplacian = Fin L, gradient = Fin G, tenengrad = Fin T, variance = Fin V\<rparr>
         \<longrightarrow> composite edge_gray_score = Fin (0.30 * L + 0.20 * G + 0.40 * T + 0.10 * V)"
    by blast+
  from C e(2) have c:
    "normalized edge_gray_calibrated_score =
       (case Some edge_stats of
          Some stats \<Rightarrow> normalizePercentile stats (laplacian edge_gray_calibrated_score)
             (gradient edge_gray_calibrated_score) (tenengrad edge_gray_calibrated_score)
             (variance edge_gray_calibrated_score)
        | None \<Rightarrow> normalizeHandTuned (laplacian edge_gray_calibrated_score)
             (gradient edge_gray_calibrated_score) (tenengrad edge_gray_calibrated_score)
             (variance edge_gray_calibrated_score))"
    "\<forall>L G T V. normalized edge_gray_calibrated_score =
            \<lparr>laplacian = Fin L, gradient = Fin G, tenengrad = Fin T, variance = Fin V\<rparr>
         \<longrightarrow> composite edge_gray_calibrated_score =
               Fin (0.30 * L + 0.20 * G + 0.40 * T + 0.10 * V)"
    by blast+
  from h(6) n(1) have hc: "composite edge_gray_score =
     Fin (0.30 * 16 + 0.20 * (100 / 27) + 0.40 * ((log 10 (80000 / 81) - 2) / 6 * 100) +
          0.10 * (124 / 405))"
    by blast
  from c(2) n(2) have cc: "composite edge_gray_calibrated_score =
     Fin (0.30 * 50 + 0.20 * 25 + 0.40 * 50 + 0.10 * 10)"
    by blast
  have cc41: "composite edge_gray_calibrated_score = Fin 41" using cc by simp
  have hn: "normalized edge_gray_score =
     normalizeHandTuned (Fin 8) (Fin (10 / 9)) (Fin (80000 / 81)) (Fin (248 / 81))"
    using h(5) unfolding r by simp
  have cn: "normalized edge_gray_calibrated_score =
     normalizePercentile edge_stats (Fin 8) (Fin (10 / 9)) (Fin (80000 / 81)) (Fin (248 / 81))"
    using c(1) unfolding r by simp
  show ?thesis
    using e h(1-4) [unfolded r] hn n hc cn cc cc41 wf ex by blast
qed

lemma clip01_range: "0 \<le> 100 * clip01 x" "100 * clip01 x \<le> 100"
  by (simp_all add: clip01_def)

lemma clip_percentile:
  assumes "a \<noteq> b"
  shows "jmul (Fin 100) (CompositeDetector_clip (jdiv (jsub (Fin r) (Fin a)) (jsub (Fin b) (Fin a)))
            (Fin 0) (Fin 1)) = Fin (100 * clip01 ((r - a) / (b - a)))"
  using assms by (simp add: CompositeDetector_clip_def jsub_def clip01_def)

text \<open>
  Hand-tuned mode: on finite non-negative raw scores the four maps are the ones the
  specification gives, and each normalized score lies in \<open>[0, 100]\<close>.
\<close>

lemma normalizeHandTuned_in_range:
  assumes "0 \<le> l" "0 \<le> g" "0 \<le> t" "0 \<le> v"
  shows "\<exists>L G T V.
     normalizeHandTuned (Fin l) (Fin g) (Fin t) (Fin v) =
       \<lparr>laplacian = Fin L, gradient = Fin G, tenengrad = Fin T, variance = Fin V\<rparr> \<and>
     L = min 100 (l / 0.5) \<and> G = min 100 (g / 0.3) \<and>
     T = max 0 (min 100 (((log10_guarded t - 2) / 6) * 100)) \<and> V = min 100 (v / 10) \<and>
     0 \<le> L \<and> L \<le> 100 \<and> 0 \<le> G \<and> G \<le> 100 \<and> 0 \<le> T \<and> T \<le> 100 \<and> 0 \<le> V \<and> V \<le> 100"
  using assms by (simp add: normalizeHandTuned_finite)

text \<open>
  Calibration mode: when, for each algorithm, the two percentiles are finite and differ
  (for Tenengrad: their guarded logarithms differ), each map is
  \<open>100 * clip((raw - p5) / (p95 - p5), 0, 1)\<close>, Tenengrad in \<open>log10\<close> space, and each
  normalized score lies in \<open>[0, 100]\<close>.
\<close>

lemma normalizePercentile_in_range:
  assumes "p5 (laplacian stats) = Fin a1" "p95 (laplacian stats) = Fin b1" "a1 \<noteq> b1"
    and "p5 (gradient stats) = Fin a2" "p95 (gradient stats) = Fin b2" "a2 \<noteq> b2"
    and "p5 (tenengrad stats) = Fin a3" "p95 (tenengrad stats) = Fin b3"
        "log10_guarded a3 \<noteq> log10_guarded b3"
    and "p5 (variance stats) = Fin a4" "p95 (variance stats) = Fin b4" "a4 \<noteq> b4"
  shows "\<exists>L G T V.
     normalizePercentile stats (Fin l) (Fin g) (Fin t) (Fin v) =
       \<lparr>laplacian = Fin L, gradient = Fin G, tenengrad = Fin T, variance = Fin V\<rparr> \<and>
     L = 100 * clip01 ((l - a1) / (b1 - a1)) \<and> G = 100 * clip01 ((g - a2) / (b2 - a2)) \<and>
     T = 100 * clip01 ((log10_guarded t - log10_guarded a3) /
                       (log10_guarded b3 - log10_guarded a3)) \<and>
     V = 100 * clip01 ((v - a4) / (b4 - a4)) \<and>
     0 \<le> L \<and> L \<le> 100 \<and> 0 \<le> G \<and> G \<le> 100 \<and> 0 \<le> T \<and> T \<le> 100 \<and> 0 \<le> V \<and> V \<le> 100"
proof -
  have lg: "(if jgt (Fin x) (Fin 0) then Math_log10 (Fin x) else Fin 0) = Fin (log10_guarded x)"
    for x by (simp add: jgt_def log10_guarded_def)
  show ?thesis
    unfolding normalizePercentile_def Let_def assms(1,2,4,5,7,8,10,11) lg
    using assms(3,6,9,12) by (simp add: clip_percentile clip01_range)
qed

lemma Calibration_percentile_single:
  "0 \<le> q \<Longrightarrow> Calibration_percentile [Fin a] (Fin q) = Fin a"
  by (simp add: Calibration_percentile_def Let_def jsub_def jge_def arr_at_def)

text \<open>
  Claim C2, at an input where the code leaves the range. Calibration over a single image
  gives \<open>p5 = p95\<close> for every algorithm; scoring an image whose raw scores equal these
  percentiles (the same image, for one) divides zero by zero, and the clip keeps the
  \<open>NaN\<close>: no normalized score lies in \<open>[0, 100]\<close>.
\<close>

theorem normalizePercentile_single_image_NaN:
  "computeStats single_image_corpus False = Inr single_image_stats \<and>
   normalizePercentile single_image_stats (Fin 4) (Fin 4) (Fin 4) (Fin 4) =
     \<lparr>laplacian = NaN, gradient = NaN, tenengrad = NaN, variance = NaN\<rparr>"
proof -
  have "computeStats single_image_corpus False = Inr single_image_stats"
    by (simp add: computeStats_def validResults_def single_image_corpus_def Let_def
          scoreArrays_def fullScoreOf_def sort_numbers_def sort_by_def algoStats_def
          Calibration_percentile_single arr_at_def single_image_stats_def one_sample_def)
  moreover have "normalizePercentile single_image_stats (Fin 4) (Fin 4) (Fin 4) (Fin 4) =
      \<lparr>laplacian = NaN, gradient = NaN, tenengrad = NaN, variance = NaN\<rparr>"
    by (simp add: normalizePercentile_def single_image_stats_def one_sample_def Let_def
          CompositeDetector_clip_def jsub_def jgt_def)
  ultimately show ?thesis by simp
qed

section \<open>The percentile functions\<close>

lemma PatchBasedDetector_percentile_body:
  "PatchBasedDetector_percentile arr p =
     (if length arr = 0 then Fin 0 else percentile_body (sort_numbers (\<lambda>a b. jsub a b) arr) p)"
  by (simp only: PatchBasedDetector_percentile_def percentile_body_def Let_def)

lemma Calibration_percentile_body:
  "Calibration_percentile arr p = (if length arr = 0 then Fin 0 else percentile_body arr p)"
  by (simp only: Calibration_percentile_def percentile_body_def Let_def)

lemma insort_by_sub:
  "insort_by (\<lambda>a b. jsub a b) (Fin x) (map Fin ys) = map Fin (insort x ys)"
  by (induction ys) (auto simp: jgt_def jsub_def)

lemma sort_by_sub: "sort_by (\<lambda>a b. jsub a b) (map Fin xs) = map Fin (sort xs)"
  by (induction xs) (auto simp: sort_by_def insort_by_sub)

lemma sort_numbers_sub: "sort_numbers (\<lambda>a b. jsub a b) (map Fin xs) = map Fin (sort xs)"
proof -
  have "filter (\<lambda>v. v \<noteq> Undefined) (map Fin xs) = map Fin xs"
    by (induction xs) auto
  moreover have "filter (\<lambda>v. v = Undefined) (map Fin xs) = []"
    by (induction xs) auto
  ultimately show ?thesis by (simp add: sort_numbers_def sort_by_sub)
qed

lemma arr_get_nat: "k < length xs \<Longrightarrow> arr_get (map Fin xs) (Fin (real k)) = Fin (xs ! k)"
  by (simp add: arr_at_def)

lemma arr_get_int: "0 \<le> k \<Longrightarrow> nat k < length xs \<Longrightarrow> arr_get (map Fin xs) (Fin (of_int k)) = Fin (xs ! nat k)"
  by (simp add: arr_at_def)

lemma interpolate_eq:
  fixes s :: "real list"
  assumes n: "s \<noteq> []" and p: "0 \<le> p" "p \<le> 100"
  defines "r \<equiv> p / 100 * real (length s - 1)"
  shows "percentile_body (map Fin s) (Fin p) = Fin (interpolate_at s r)"
proof -
  let ?n = "length s"
  have n1: "1 \<le> ?n" using n by (cases s) auto
  have idx: "jmul (jdiv (Fin p) (Fin 100)) (jsub (Fin (real (length (map Fin s)))) (Fin 1)) = Fin r"
    using n1 by (simp add: jsub_def r_def of_nat_diff)
  have r0: "0 \<le> r" using p by (simp add: r_def)
  have rn: "r \<le> real (?n - 1)"
  proof -
    have "p / 100 \<le> 1" using p by simp
    then have "p / 100 * real (?n - 1) \<le> 1 * real (?n - 1)"
      by (intro mult_right_mono) simp_all
    then show ?thesis by (simp add: r_def)
  qed
  have fl0: "0 \<le> \<lfloor>r\<rfloor>" using r0 by simp
  have fln: "\<lfloor>r\<rfloor> \<le> int (?n - 1)" using rn by (simp add: floor_le_iff) 
  have cl0: "0 \<le> \<lceil>r\<rceil>" using r0 by (simp add: ceiling_le_iff le_ceiling_iff)
  have cln: "\<lceil>r\<rceil> \<le> int (?n - 1)" using rn by (simp add: ceiling_le_iff)
  have notge: "\<not> jge (Fin (of_int \<lceil>r\<rceil>)) (Fin (real ?n))"
  proof -
    have "real_of_int \<lceil>r\<rceil> \<le> real (?n - 1)" using cln by (metis of_int_le_iff of_int_of_nat_eq)
    also have "\<dots> < real ?n" using n1 by simp
    finally show ?thesis by (simp add: jge_def)
  qed
  have lo: "arr_get (map Fin s) (Fin (of_int \<lfloor>r\<rfloor>)) = Fin (s ! nat \<lfloor>r\<rfloor>)"
    using fl0 fln n1 by (intro arr_get_int) auto
  have up: "arr_get (map Fin s) (Fin (of_int \<lceil>r\<rceil>)) = Fin (s ! nat \<lceil>r\<rceil>)"
    using cl0 cln n1 by (intro arr_get_int) auto
  have code: "percentile_body (map Fin s) (Fin p)
       = Fin (s ! nat \<lfloor>r\<rfloor> * (1 - (r - of_int \<lfloor>r\<rfloor>)) + s ! nat \<lceil>r\<rceil> * (r - of_int \<lfloor>r\<rfloor>))"
    unfolding percentile_body_def Let_def idx using notge lo up by (simp add: jsub_def)
  define k where "k = nat \<lfloor>r\<rfloor>"
  have kr: "real k = of_int \<lfloor>r\<rfloor>" using fl0 by (simp add: k_def)
  have "s ! nat \<lfloor>r\<rfloor> * (1 - (r - of_int \<lfloor>r\<rfloor>)) + s ! nat \<lceil>r\<rceil> * (r - of_int \<lfloor>r\<rfloor>)
      = (if k + 1 < ?n then s ! k + (r - real k) * (s ! (k + 1) - s ! k) else s ! (?n - 1))"
  proof (cases "of_int \<lfloor>r\<rfloor> = r")
    case True
    then have c: "\<lceil>r\<rceil> = \<lfloor>r\<rfloor>" by (metis ceiling_of_int)
    have "k \<le> ?n - 1" using fln by (simp add: k_def)
    then have "\<not> k + 1 < ?n \<Longrightarrow> k = ?n - 1" by simp
    then show ?thesis using True c kr by (auto simp: k_def)
  next
    case False
    then have c: "\<lceil>r\<rceil> = \<lfloor>r\<rfloor> + 1" by (simp add: ceiling_altdef)
    then have "nat \<lceil>r\<rceil> = k + 1" using fl0 by (simp add: k_def nat_add_distrib)
    moreover have "k + 1 < ?n"
    proof -
      have "int k = \<lfloor>r\<rfloor>" using fl0 by (simp add: k_def)
      then have "int k + 1 \<le> int (?n - 1)" using cln c by simp
      then show ?thesis using n1 by linarith
    qed
    ultimately show ?thesis using kr by (simp add: k_def algebra_simps)
  qed
  then show ?thesis unfolding code by (simp add: k_def Let_def interpolate_at_def)
qed


lemma PatchBasedDetector_percentile_spec:
  assumes "0 \<le> p" "p \<le> 100"
  shows "PatchBasedDetector_percentile (map Fin xs) (Fin p) = Fin (spec_percentile xs p)"
proof (cases "xs = []")
  case True
  then show ?thesis by (simp add: PatchBasedDetector_percentile_body spec_percentile_def)
next
  case False
  then have s: "sort xs \<noteq> []" by (metis length_0_conv length_sort)
  show ?thesis
    using False interpolate_eq [OF s assms]
    by (simp add: PatchBasedDetector_percentile_body spec_percentile_def sort_numbers_sub)
qed

lemma Calibration_percentile_spec:
  assumes "0 \<le> p" "p \<le> 100" "sorted xs"
  shows "Calibration_percentile (map Fin xs) (Fin p) = Fin (spec_percentile xs p)"
proof (cases "xs = []")
  case True
  then show ?thesis by (simp add: Calibration_percentile_body spec_percentile_def)
next
  case False
  have s: "sort xs = xs" using assms(3) by (simp add: sorted_sort_id)
  show ?thesis
    using False interpolate_eq [OF False assms(1,2)]
    by (simp add: Calibration_percentile_body spec_percentile_def s)
qed

lemma spec_percentile_0: "xs \<noteq> [] \<Longrightarrow> spec_percentile xs 0 = sort xs ! 0"
  by (auto simp: spec_percentile_def interpolate_at_def Let_def)

lemma spec_percentile_100: "xs \<noteq> [] \<Longrightarrow> spec_percentile xs 100 = last (sort xs)"
proof -
  assume ne: "xs \<noteq> []"
  then have s: "sort xs \<noteq> []" by (metis length_0_conv length_sort)
  have "nat \<lfloor>real (length xs - 1)\<rfloor> = length xs - 1" by simp
  then show ?thesis using ne s
    by (simp add: spec_percentile_def interpolate_at_def Let_def last_conv_nth)
qed

text \<open>
  Claim C3. Both percentile functions return 0 on the empty array. For every array of
  numbers and every \<open>p\<close> in \<open>[0, 100]\<close>, \<open>PatchBasedDetector.percentile\<close> sorts ascending
  and interpolates linearly between the order statistics at the fractional rank
  \<open>p / 100 * (n - 1)\<close>, and so does \<open>Calibration.percentile\<close> on the sorted array it is
  given. Hence on a non-empty array the percentile at 0 is the first and the percentile at
  100 the last element of the sorted array.
\<close>

theorem percentile_interpolates:
  "PatchBasedDetector_percentile [] q = Fin 0 \<and> Calibration_percentile [] q = Fin 0 \<and>
   (0 \<le> p \<and> p \<le> 100 \<longrightarrow>
      PatchBasedDetector_percentile (map Fin xs) (Fin p) = Fin (spec_percentile xs p) \<and>
      (sorted xs \<longrightarrow> Calibration_percentile (map Fin xs) (Fin p) = Fin (spec_percentile xs p))) \<and>
   (xs \<noteq> [] \<longrightarrow>
      PatchBasedDetector_percentile (map Fin xs) (Fin 0) = Fin (sort xs ! 0) \<and>
      PatchBasedDetector_percentile (map Fin xs) (Fin 100) = Fin (last (sort xs)) \<and>
      (sorted xs \<longrightarrow>
         Calibration_percentile (map Fin xs) (Fin 0) = Fin (xs ! 0) \<and>
         Calibration_percentile (map Fin xs) (Fin 100) = Fin (last xs)))"
proof -
  have e: "PatchBasedDetector_percentile [] q = Fin 0" "Calibration_percentile [] q = Fin 0"
    by (simp_all add: PatchBasedDetector_percentile_body Calibration_percentile_body)
  have c: "Calibration_percentile (map Fin xs) (Fin 0) = Fin (xs ! 0) \<and>
           Calibration_percentile (map Fin xs) (Fin 100) = Fin (last xs)"
    if "xs \<noteq> []" "sorted xs"
    using that Calibration_percentile_spec [of 0 xs] Calibration_percentile_spec [of 100 xs]
    by (simp add: spec_percentile_0 spec_percentile_100 sorted_sort_id)
  show ?thesis
    using e c PatchBasedDetector_percentile_spec [of p xs] Calibration_percentile_spec [of p xs]
      PatchBasedDetector_percentile_spec [of 0 xs] PatchBasedDetector_percentile_spec [of 100 xs]
    by (simp add: spec_percentile_0 spec_percentile_100)
qed

text \<open>The theorem on the array 3, 1, 2, 5 and on its sorted form, at the median.\<close>

theorem percentile_interpolates_witness:
  "PatchBasedDetector_percentile (map Fin [3, 1, 2, 5]) (Fin 50) = Fin (5 / 2) \<and>
   Calibration_percentile (map Fin [1, 2, 3, 5]) (Fin 50) = Fin (5 / 2) \<and>
   PatchBasedDetector_percentile (map Fin [3, 1, 2, 5]) (Fin 0) = Fin 1 \<and>
   PatchBasedDetector_percentile (map Fin [3, 1, 2, 5]) (Fin 100) = Fin 5 \<and>
   Calibration_percentile (map Fin [1, 2, 3, 5]) (Fin 0) = Fin 1 \<and>
   Calibration_percentile (map Fin [1, 2, 3, 5]) (Fin 100) = Fin 5"
proof -
  have s: "sort [3, 1, 2, 5 :: real] = [1, 2, 3, 5]" by simp
  have f: "\<lfloor>3 / 2 :: real\<rfloor> = 1" by simp
  have v: "spec_percentile [3, 1, 2, 5] 50 = 5 / 2" "spec_percentile [1, 2, 3, 5] 50 = 5 / 2"
    by (simp_all add: spec_percentile_def interpolate_at_def Let_def f)
  from percentile_interpolates [of "Fin 50" 50 "[3, 1, 2, 5]"]
       percentile_interpolates [of "Fin 50" 50 "[1, 2, 3, 5]"] v s
  show ?thesis by simp
qed

section \<open>Sorting by composite score and position-weighted means\<close>

lemma mk_patch_simps:
  "composite (mk_patch c t) = Fin c" "tenengrad (mk_patch c t) = Fin t"
  "cval (mk_patch c t) = c" "tval (mk_patch c t) = t"
  by (simp_all add: mk_patch_def cval_def tval_def)

lemma log10_values:
  "log10_guarded 1000 = 3" "log10_guarded 1000000 = 6" "log10_guarded 1000000000 = 9"
proof -
  have "(1000::real) = 10 ^ 3" "(1000000::real) = 10 ^ 6" "(1000000000::real) = 10 ^ 9"
    by simp_all
  then show "log10_guarded 1000 = 3" "log10_guarded 1000000 = 6" "log10_guarded 1000000000 = 9"
    by (simp_all only: log10_guarded_def log_pow_cancel) simp_all
qed

lemma gaussWeight_pos: "0 < gaussWeight nx ny sigma i"
  by (simp add: gaussWeight_def Let_def)

lemma positionWeight_Fin:
  assumes "2 \<le> nx" "2 \<le> ny" "sigma \<noteq> 0"
  shows "positionWeight nx ny sigma i = Fin (gaussWeight nx ny sigma i)"
proof -
  define cx cy xr yr where "cx = (real nx - 1) / 2" and "cy = (real ny - 1) / 2"
    and "xr = real (i mod nx)" and "yr = real (i div nx)"
  define dx dy where "dx = (xr - cx) / cx" and "dy = (yr - cy) / cy"
  define d where "d = sqrt (dx * dx + dy * dy)"
  have cx: "jdiv (jsub (Fin (real nx)) (Fin 1)) (Fin 2) = Fin cx"
    by (simp add: jsub_def cx_def)
  have cy: "jdiv (jsub (Fin (real ny)) (Fin 1)) (Fin 2) = Fin cy"
    by (simp add: jsub_def cy_def)
  have x: "jmod i nx = Fin xr" using assms by (simp add: jmod_def xr_def)
  have "\<lfloor>real i / real nx\<rfloor> = int (i div nx)" by (rule floor_divide_of_nat_eq)
  then have y: "Math_floor (jdiv (Fin (real i)) (Fin (real nx))) = Fin yr"
    using assms by (simp add: yr_def)
  have nz: "cx \<noteq> 0" "cy \<noteq> 0" using assms by (auto simp: cx_def cy_def)
  have dx: "jdiv (jsub (Fin xr) (Fin cx)) (Fin cx) = Fin dx"
    using nz by (simp add: jsub_def dx_def)
  have dy: "jdiv (jsub (Fin yr) (Fin cy)) (Fin cy) = Fin dy"
    using nz by (simp add: jsub_def dy_def)
  have "0 \<le> dx * dx + dy * dy" by simp
  then have d: "Math_sqrt (jadd (jmul (Fin dx) (Fin dx)) (jmul (Fin dy) (Fin dy))) = Fin d"
    by (simp add: d_def)
  have s: "2 * sigma * sigma \<noteq> 0" using assms by simp
  have w: "Math_exp (jdiv (jmul (jneg (Fin d)) (Fin d)) (jmul (jmul (Fin 2) (Fin sigma)) (Fin sigma)))
      = Fin (exp (- (d * d) / (2 * sigma * sigma)))"
    using s by simp
  have g: "gaussWeight nx ny sigma i = exp (- (d * d) / (2 * sigma * sigma))"
    unfolding gaussWeight_def Let_def d_def dx_def dy_def cx_def cy_def xr_def yr_def ..
  show ?thesis
    unfolding positionWeight_def Let_def cx cy x y dx dy d w g ..
qed

lemma foldl_weighted:
  assumes "\<forall>a \<in> set as. C a = Fin (c a) \<and> W a = Fin (w a)"
  shows "foldl (\<lambda>(weightedSum, totalWeight) a.
            (jadd weightedSum (jmul (C a) (W a)), jadd totalWeight (W a))) (Fin s, Fin t) as
         = (Fin (s + (\<Sum>a\<leftarrow>as. c a * w a)), Fin (t + (\<Sum>a\<leftarrow>as. w a)))"
  using assms by (induction as arbitrary: s t) (auto simp: add.assoc)

lemma weighted_mean_bounds:
  fixes c w :: "'a \<Rightarrow> real"
  assumes "as \<noteq> []" "\<forall>a \<in> set as. 0 < w a" "\<forall>a \<in> set as. lo \<le> c a \<and> c a \<le> hi"
  shows "lo \<le> (\<Sum>a\<leftarrow>as. c a * w a) / (\<Sum>a\<leftarrow>as. w a)"
    and "(\<Sum>a\<leftarrow>as. c a * w a) / (\<Sum>a\<leftarrow>as. w a) \<le> hi"
    and "0 < (\<Sum>a\<leftarrow>as. w a)"
proof -
  obtain a0 as' where as: "as = a0 # as'" using assms(1) by (cases as) auto
  have "0 \<le> (\<Sum>a\<leftarrow>as'. w a)" using assms(2) as by (intro sum_list_nonneg) auto
  then show pos: "0 < (\<Sum>a\<leftarrow>as. w a)" using assms(2) as by (simp add: add_pos_nonneg)
  have "(\<Sum>a\<leftarrow>as. lo * w a) \<le> (\<Sum>a\<leftarrow>as. c a * w a)"
    using assms(2,3) by (intro sum_list_mono mult_right_mono) (auto intro: less_imp_le)
  then have "lo * (\<Sum>a\<leftarrow>as. w a) \<le> (\<Sum>a\<leftarrow>as. c a * w a)"
    by (simp add: sum_list_const_mult)
  then show "lo \<le> (\<Sum>a\<leftarrow>as. c a * w a) / (\<Sum>a\<leftarrow>as. w a)"
    using pos by (simp add: pos_le_divide_eq)
  have "(\<Sum>a\<leftarrow>as. c a * w a) \<le> (\<Sum>a\<leftarrow>as. hi * w a)"
    using assms(2,3) by (intro sum_list_mono mult_right_mono) (auto intro: less_imp_le)
  then have "(\<Sum>a\<leftarrow>as. c a * w a) \<le> hi * (\<Sum>a\<leftarrow>as. w a)"
    by (simp add: sum_list_const_mult)
  then show "(\<Sum>a\<leftarrow>as. c a * w a) / (\<Sum>a\<leftarrow>as. w a) \<le> hi"
    using pos by (simp add: pos_divide_le_eq)
qed

lemma insort_by_desc:
  assumes "is_fin (key a)" "\<forall>b \<in> set bs. is_fin (key b)"
  shows "insort_by (\<lambda>a b. jsub (key b) (key a)) a bs = insort_key (\<lambda>a. - fin_val (key a)) a bs"
  using assms by (induction bs) (auto simp: is_fin_conv jgt_def jsub_def)

lemma sort_by_desc:
  assumes "\<forall>a \<in> set as. is_fin (key a)"
  shows "sort_by (\<lambda>a b. jsub (key b) (key a)) as = sort_key (\<lambda>a. - fin_val (key a)) as"
  using assms
proof (induction as)
  case Nil
  show ?case by (simp add: sort_by_def)
next
  case (Cons a as)
  then have "sort_by (\<lambda>a b. jsub (key b) (key a)) as = sort_key (\<lambda>a. - fin_val (key a)) as"
    by simp
  moreover have "\<forall>b \<in> set (sort_key (\<lambda>a. - fin_val (key a)) as). is_fin (key b)"
    using Cons.prems by simp
  ultimately show ?case
    using Cons.prems insort_by_desc [of key a "sort_key (\<lambda>a. - fin_val (key a)) as"]
    by (simp add: sort_by_def)
qed

lemma cval_bounds: "p \<in> set ps \<Longrightarrow> lo_c ps \<le> cval p \<and> cval p \<le> hi_c ps"
  by (simp add: lo_c_def hi_c_def)

lemma composite_cval: "is_fin (composite p) \<Longrightarrow> composite p = Fin (cval p)"
  by (cases "composite p") (auto simp: cval_def)

lemma composites_finite:
  assumes "\<forall>p \<in> set ps. is_fin (composite p)"
  shows "map composite ps = map Fin (map cval ps)"
  using assms by (induction ps) (auto simp: composite_cval)

lemma insort_key_map:
  "insort_key f (g a) (map g as) = map g (insort_key (\<lambda>a. f (g a)) a as)"
  by (induction as) auto

lemma sort_key_map: "sort_key f (map g as) = map g (sort_key (\<lambda>a. f (g a)) as)"
  by (induction as) (auto simp: insort_key_map)

lemma sort_key_cong_set:
  "(\<And>a. a \<in> set as \<Longrightarrow> f a = g a) \<Longrightarrow> sort_key f as = sort_key g as"
proof (induction as)
  case Nil
  show ?case by simp
next
  case (Cons a as)
  have "insort_key f a bs = insort_key g a bs" if "set bs \<subseteq> set as" for bs
    using that Cons.prems by (induction bs) auto
  with Cons show ?case by simp
qed




lemma topN_ge: "3 \<le> topN n tp" "0 < nat (topN n tp)"
  by (simp_all add: topN_def)

lemma topPatches_finite:
  assumes "\<forall>p \<in> set ps. is_fin (composite p)"
  shows "topPatches ps nx ny tp sg =
     map (\<lambda>i. \<lparr>sp_composite = composite (ps ! i), sp_positionWeight = positionWeight nx ny sg i,
                sp_index = i\<rparr>) (retained (map cval ps) (nat (topN (length ps) tp)))"
proof -
  let ?mk = "\<lambda>i. \<lparr>sp_composite = composite (ps ! i), sp_positionWeight = positionWeight nx ny sg i,
                sp_index = i\<rparr>"
  let ?is = "[0 ..< length ps]"
  have fin: "\<forall>a \<in> set (map ?mk ?is). is_fin (sp_composite a)" using assms by auto
  have "sort_by (\<lambda>a b. jsub (sp_composite b) (sp_composite a)) (map ?mk ?is)
      = sort_key (\<lambda>a. - fin_val (sp_composite a)) (map ?mk ?is)"
    by (rule sort_by_desc [OF fin])
  also have "\<dots> = map ?mk (sort_key (\<lambda>i. - fin_val (sp_composite (?mk i))) ?is)"
    by (rule sort_key_map)
  also have "sort_key (\<lambda>i. - fin_val (sp_composite (?mk i))) ?is
      = sort_key (\<lambda>i. - (map cval ps ! i)) ?is"
    by (rule sort_key_cong_set) (simp add: cval_def)
  finally show ?thesis
    by (simp add: topPatches_def scoredPatches_def retained_def take_map)
qed

lemma retained_props:
  assumes "cs \<noteq> []" "0 < k"
  shows "retained cs k \<noteq> []" "\<forall>i \<in> set (retained cs k). i < length cs"
proof -
  have "sort_key (\<lambda>i. - (cs ! i)) [0 ..< length cs] \<noteq> []"
    using assms(1) by (metis length_0_conv length_sort length_upt diff_zero)
  with assms(2) show "retained cs k \<noteq> []"
    unfolding retained_def by (metis take_eq_Nil less_numeral_extra(3))
  show "\<forall>i \<in> set (retained cs k). i < length cs"
    unfolding retained_def by (auto dest!: in_set_takeD)
qed

lemma calculateSubjectFocusVariant_spec:
  assumes "2 \<le> nx" "2 \<le> ny" "sg \<noteq> 0" "ps \<noteq> []" "\<forall>p \<in> set ps. is_fin (composite p)"
  shows "calculateSubjectFocusVariant ps nx ny tp sg =
           Fin (spec_subject_focus (map cval ps) nx ny (nat (topN (length ps) tp)) sg)"
    and "lo_c ps \<le> spec_subject_focus (map cval ps) nx ny (nat (topN (length ps) tp)) sg"
    and "spec_subject_focus (map cval ps) nx ny (nat (topN (length ps) tp)) sg \<le> hi_c ps"
proof -
  let ?k = "nat (topN (length ps) tp)"
  let ?r = "retained (map cval ps) ?k"
  let ?c = "\<lambda>i. map cval ps ! i" and ?w = "gaussWeight nx ny sg"
  have ne: "?r \<noteq> []" and lt: "\<forall>i \<in> set ?r. i < length ps"
    using retained_props [of "map cval ps" ?k] assms(4) topN_ge(2) [of "length ps" tp] by auto
  have w: "\<forall>i \<in> set ?r. 0 < ?w i" by (simp add: gaussWeight_pos)
  have c: "\<forall>i \<in> set ?r. lo_c ps \<le> ?c i \<and> ?c i \<le> hi_c ps"
    using lt by (auto intro: cval_bounds [THEN conjunct1] cval_bounds [THEN conjunct2])
  note b = weighted_mean_bounds [OF ne w c]
  have el: "\<forall>i \<in> set ?r. composite (ps ! i) = Fin (?c i) \<and> positionWeight nx ny sg i = Fin (?w i)"
    using assms lt by (auto simp: composite_cval positionWeight_Fin)
  have "foldl (\<lambda>(weightedSum, totalWeight) patch.
                (jadd weightedSum (jmul (sp_composite patch) (sp_positionWeight patch)),
                 jadd totalWeight (sp_positionWeight patch)))
              (Fin 0, Fin 0) (topPatches ps nx ny tp sg)
      = foldl (\<lambda>(weightedSum, totalWeight) i.
                (jadd weightedSum (jmul (composite (ps ! i)) (positionWeight nx ny sg i)),
                 jadd totalWeight (positionWeight nx ny sg i)))
              (Fin 0, Fin 0) ?r"
    unfolding topPatches_finite [OF assms(5)] by (simp add: foldl_map case_prod_unfold)
  also have "\<dots> = (Fin (0 + (\<Sum>i\<leftarrow>?r. ?c i * ?w i)), Fin (0 + (\<Sum>i\<leftarrow>?r. ?w i)))"
    by (rule foldl_weighted [OF el])
  finally show "calculateSubjectFocusVariant ps nx ny tp sg
      = Fin (spec_subject_focus (map cval ps) nx ny ?k sg)"
    using b(3) by (simp add: calculateSubjectFocusVariant_def spec_subject_focus_def)
  show "lo_c ps \<le> spec_subject_focus (map cval ps) nx ny ?k sg"
    using b(1) by (simp add: spec_subject_focus_def)
  show "spec_subject_focus (map cval ps) nx ny ?k sg \<le> hi_c ps"
    using b(2) by (simp add: spec_subject_focus_def)
qed

section \<open>Peak-focus\<close>

lemma sort_key_partition:
  fixes f :: "'a \<Rightarrow> real"
  assumes sep: "\<forall>a \<in> set as. \<forall>b \<in> set as. P a \<and> \<not> P b \<longrightarrow> f a < f b"
  shows "sort_key f as = sort_key f (filter P as) @ sort_key f (filter (\<lambda>a. \<not> P a) as)"
proof (rule properties_for_sort_key)
  let ?A = "sort_key f (filter P as)" and ?B = "sort_key f (filter (\<lambda>a. \<not> P a) as)"
  show "mset (?A @ ?B) = mset as" by simp
  show "sorted (map f (?A @ ?B))"
    using sep by (auto simp: sorted_append intro: less_imp_le)
  fix k assume "k \<in> set (?A @ ?B)"
  then have k: "k \<in> set as" by auto
  have st: "filter (\<lambda>x. f k = f x) (sort_key f bs) = filter (\<lambda>x. f k = f x) bs" for bs
    using sort_key_stable [of f "f k" bs] by (simp add: eq_commute)
  show "filter (\<lambda>x. f k = f x) (?A @ ?B) = filter (\<lambda>x. f k = f x) as"
  proof (cases "P k")
    case True
    then have "\<forall>x \<in> set as. f k = f x \<longrightarrow> P x" using sep k by force
    then have "filter (\<lambda>x. f k = f x) (filter P as) = filter (\<lambda>x. f k = f x) as"
      "filter (\<lambda>x. f k = f x) (filter (\<lambda>a. \<not> P a) as) = []"
      by (auto simp: filter_empty_conv intro: filter_cong)
    then show ?thesis by (simp add: st)
  next
    case False
    then have "\<forall>x \<in> set as. f k = f x \<longrightarrow> \<not> P x" using sep k by force
    then have "filter (\<lambda>x. f k = f x) (filter (\<lambda>a. \<not> P a) as) = filter (\<lambda>x. f k = f x) as"
      "filter (\<lambda>x. f k = f x) (filter P as) = []"
      by (auto simp: filter_empty_conv intro: filter_cong)
    then show ?thesis by (simp add: st)
  qed
qed

lemma peakPatches_finite:
  assumes "\<forall>p \<in> set ps. is_fin (composite p)"
  shows "peakPatches ps = take 3 (sort_key (\<lambda>p. - cval p) ps)"
  unfolding peakPatches_def cval_def by (simp add: sort_by_desc [OF assms])

lemma peakPatches_top:
  assumes fin: "\<forall>p \<in> set ps. is_fin (composite p)"
    and three: "length (filter (\<lambda>p. m \<le> cval p) ps) = 3"
  shows "peakPatches ps = sort_key (\<lambda>p. - cval p) (filter (\<lambda>p. m \<le> cval p) ps)"
proof -
  have "sort_key (\<lambda>p. - cval p) ps =
      sort_key (\<lambda>p. - cval p) (filter (\<lambda>p. m \<le> cval p) ps) @
      sort_key (\<lambda>p. - cval p) (filter (\<lambda>p. \<not> m \<le> cval p) ps)"
    by (rule sort_key_partition) auto
  then show ?thesis using three by (simp add: peakPatches_finite [OF fin])
qed

lemma tenengrad_tval: "is_fin (tenengrad p) \<Longrightarrow> tenengrad p = Fin (tval p)"
  by (cases "tenengrad p") (auto simp: tval_def)

lemma foldl_tenengrad:
  assumes "\<forall>p \<in> set ps. is_fin (tenengrad p)"
  shows "foldl (\<lambda>sum p. jadd sum (tenengrad p)) (Fin s) ps = Fin (s + sum_list (map tval ps))"
  using assms by (induction ps arbitrary: s) (auto simp: tenengrad_tval add.assoc)

lemma log_guard: "(if jgt (Fin x) (Fin 0) then Math_log10 (Fin x) else Fin 0) = Fin (log10_guarded x)"
  by (simp add: jgt_def log10_guarded_def)

lemma patch_clip:
  assumes "lo \<noteq> hi"
  shows "jmul (Fin 100) (PatchBasedDetector_clip (jdiv (jsub (Fin x) (Fin lo)) (jsub (Fin hi) (Fin lo)))
            (Fin 0) (Fin 1)) = Fin (100 * clip01 ((x - lo) / (hi - lo)))"
  using assms by (auto simp: PatchBasedDetector_clip_def jsub_def clip01_def)

lemma peak_avg:
  assumes "\<forall>p \<in> set ps. is_fin (composite p) \<and> is_fin (tenengrad p)" "ps \<noteq> []"
  shows "jdiv (foldl (\<lambda>sum p. jadd sum (tenengrad p)) (Fin 0) (peakPatches ps))
              (Fin (real (length (peakPatches ps)))) = Fin (spec_peak_avg ps)"
proof -
  have fin: "\<forall>p \<in> set ps. is_fin (composite p)" using assms(1) by simp
  let ?top = "take 3 (sort_key (\<lambda>p. - cval p) ps)"
  have t: "\<forall>p \<in> set ?top. is_fin (tenengrad p)" using assms(1) by (auto dest!: in_set_takeD)
  have "length ?top = min (length ps) 3" by simp
  then have ne: "real (length ?top) \<noteq> 0" using assms(2) by (cases ps) auto
  show ?thesis
    unfolding peakPatches_finite [OF fin] foldl_tenengrad [OF t]
    using ne by (simp add: spec_peak_avg_def Let_def)
qed

lemma calculatePeakFocus_spec:
  assumes "\<forall>p \<in> set ps. is_fin (composite p) \<and> is_fin (tenengrad p)" "ps \<noteq> []"
  shows "calculatePeakFocus None ps = Fin (log_range_norm 3 9 (spec_peak_avg ps))"
    and "p5 (tenengrad stats) = Fin a \<Longrightarrow> p95 (tenengrad stats) = Fin b \<Longrightarrow>
         log10_guarded a \<noteq> log10_guarded b \<Longrightarrow>
         calculatePeakFocus (Some stats) ps =
           Fin (log_range_norm (log10_guarded a) (log10_guarded b) (spec_peak_avg ps))"
proof -
  have "(3::real) \<noteq> 9" by simp
  from patch_clip [OF this]
  show "calculatePeakFocus None ps = Fin (log_range_norm 3 9 (spec_peak_avg ps))"
    unfolding calculatePeakFocus_def Let_def peak_avg [OF assms] log_guard
    by (simp add: log_range_norm_def)
  assume s: "p5 (tenengrad stats) = Fin a" "p95 (tenengrad stats) = Fin b"
    and ne: "log10_guarded a \<noteq> log10_guarded b"
  show "calculatePeakFocus (Some stats) ps =
           Fin (log_range_norm (log10_guarded a) (log10_guarded b) (spec_peak_avg ps))"
  proof -
    have l5: "(if jgt (p5 (tenengrad stats)) (Fin 0) then Math_log10 (p5 (tenengrad stats))
               else Fin 0) = Fin (log10_guarded a)"
      unfolding s by (rule log_guard)
    have l95: "(if jgt (p95 (tenengrad stats)) (Fin 0) then Math_log10 (p95 (tenengrad stats))
                else Fin 0) = Fin (log10_guarded b)"
      unfolding s by (rule log_guard)
    show ?thesis
      by (simp only: calculatePeakFocus_def Let_def peak_avg [OF assms] option.case l5 l95
            log_guard patch_clip [OF ne] log_range_norm_def)
  qed
qed

lemma calculatePeakFocus_cong:
  assumes "map tenengrad (peakPatches ps) = map tenengrad (peakPatches qs)"
  shows "calculatePeakFocus cal ps = calculatePeakFocus cal qs"
proof -
  have f: "foldl (\<lambda>sum p. jadd sum (tenengrad p)) s xs = foldl jadd s (map tenengrad xs)"
    for s and xs :: "patch_score list"
    by (simp add: foldl_map)
  have l: "length (peakPatches ps) = length (peakPatches qs)"
    using assms by (metis length_map)
  show ?thesis
    unfolding calculatePeakFocus_def Let_def f assms l ..
qed

text \<open>
  Claim C4. Peak-focus sorts the patches descending by composite score, takes the top 3,
  averages their raw Tenengrad scores and maps the guarded \<open>log10\<close> of that one average
  onto \<open>[0, 100]\<close>: from the range \<open>[3, 9]\<close> without calibration, from the range between the
  \<open>log10\<close> of the calibration's Tenengrad \<open>p5\<close> and \<open>p95\<close> with it. Therefore two patch
  arrays whose top-3-by-composite patches have the same Tenengrad scores get the same
  peak-focus score; in particular when exactly three patches have a composite score of at
  least \<open>m\<close> and both arrays hold these same patches in the same order, whatever their
  other patches are.
\<close>

theorem peak_focus_top3_tenengrad:
  "((\<forall>p \<in> set ps. is_fin (composite p) \<and> is_fin (tenengrad p)) \<and> ps \<noteq> [] \<longrightarrow>
      calculatePeakFocus None ps = Fin (log_range_norm 3 9 (spec_peak_avg ps)) \<and>
      (p5 (tenengrad stats) = Fin a \<and> p95 (tenengrad stats) = Fin b \<and>
       log10_guarded a \<noteq> log10_guarded b \<longrightarrow>
         calculatePeakFocus (Some stats) ps =
           Fin (log_range_norm (log10_guarded a) (log10_guarded b) (spec_peak_avg ps)))) \<and>
   (map tenengrad (peakPatches ps) = map tenengrad (peakPatches qs) \<longrightarrow>
      calculatePeakFocus cal ps = calculatePeakFocus cal qs) \<and>
   ((\<forall>p \<in> set ps \<union> set qs. is_fin (composite p)) \<and>
    length (filter (\<lambda>p. m \<le> cval p) ps) = 3 \<and>
    filter (\<lambda>p. m \<le> cval p) qs = filter (\<lambda>p. m \<le> cval p) ps \<longrightarrow>
      peakPatches qs = peakPatches ps \<and> calculatePeakFocus cal qs = calculatePeakFocus cal ps)"
proof -
  have inv: "peakPatches qs = peakPatches ps \<and> calculatePeakFocus cal qs = calculatePeakFocus cal ps"
    if "\<forall>p \<in> set ps \<union> set qs. is_fin (composite p)"
      "length (filter (\<lambda>p. m \<le> cval p) ps) = 3"
      "filter (\<lambda>p. m \<le> cval p) qs = filter (\<lambda>p. m \<le> cval p) ps"
  proof -
    have "peakPatches ps = sort_key (\<lambda>p. - cval p) (filter (\<lambda>p. m \<le> cval p) ps)"
      using that by (intro peakPatches_top) auto
    moreover have "peakPatches qs = sort_key (\<lambda>p. - cval p) (filter (\<lambda>p. m \<le> cval p) qs)"
      using that by (intro peakPatches_top) auto
    ultimately have "peakPatches qs = peakPatches ps" using that(3) by simp
    then show ?thesis using calculatePeakFocus_cong [of qs ps cal] by simp
  qed
  show ?thesis
    using calculatePeakFocus_spec [of ps] calculatePeakFocus_cong [of ps qs cal] inv
    by blast
qed

text \<open>
  The theorem on the two example arrays: both score 50, without calibration and with
  the example statistics.
\<close>

theorem peak_focus_top3_tenengrad_witness:
  "calculatePeakFocus None peak_a = Fin 50 \<and>
   calculatePeakFocus (Some peak_stats) peak_a = Fin 50 \<and>
   map tenengrad (peakPatches peak_b) = map tenengrad (peakPatches peak_a) \<and>
   calculatePeakFocus None peak_b = calculatePeakFocus None peak_a \<and>
   calculatePeakFocus (Some peak_stats) peak_b = calculatePeakFocus (Some peak_stats) peak_a"
proof -
  have fin: "\<forall>p \<in> set peak_a. is_fin (composite p) \<and> is_fin (tenengrad p)" "peak_a \<noteq> []"
    "\<forall>p \<in> set peak_a \<union> set peak_b. is_fin (composite p)"
    by (simp_all add: peak_a_def peak_b_def mk_patch_simps)
  have st: "p5 (tenengrad peak_stats) = Fin 1000" "p95 (tenengrad peak_stats) = Fin 1000000000"
    "log10_guarded 1000 \<noteq> log10_guarded 1000000000"
    by (simp_all add: peak_stats_def log10_values)
  have top: "length (filter (\<lambda>p. 70 \<le> cval p) peak_a) = 3"
    "filter (\<lambda>p. 70 \<le> cval p) peak_b = filter (\<lambda>p. 70 \<le> cval p) peak_a"
    by (simp_all add: peak_a_def peak_b_def mk_patch_simps)
  have avg: "spec_peak_avg peak_a = 1000000"
    by (simp add: spec_peak_avg_def peak_a_def mk_patch_simps)
  have v: "log_range_norm 3 9 1000000 = 50"
    by (simp add: log_range_norm_def log10_values clip01_def)
  note T = peak_focus_top3_tenengrad [of peak_a peak_stats 1000 1000000000 peak_b None 70]
  note U = peak_focus_top3_tenengrad
             [of peak_a peak_stats 1000 1000000000 peak_b "Some peak_stats" 70]
  from T fin(1,2)
  have a1: "calculatePeakFocus None peak_a = Fin (log_range_norm 3 9 (spec_peak_avg peak_a))"
    by blast
  from T fin(1,2) st
  have a2: "calculatePeakFocus (Some peak_stats) peak_a =
      Fin (log_range_norm (log10_guarded 1000) (log10_guarded 1000000000) (spec_peak_avg peak_a))"
    by blast
  from T fin(3) top
  have a3: "peakPatches peak_b = peakPatches peak_a"
    "calculatePeakFocus None peak_b = calculatePeakFocus None peak_a"
    by blast+
  from U fin(3) top
  have a4: "calculatePeakFocus (Some peak_stats) peak_b = calculatePeakFocus (Some peak_stats) peak_a"
    by blast
  show ?thesis
    unfolding a1 a2 a3 a4 avg log10_values v by simp
qed

section \<open>Subject-focus\<close>











section \<open>The aggregation strategies stay between the extreme patches\<close>

lemma calculateCenterWeighted_between:
  assumes "2 \<le> nx" "2 \<le> ny" "ps \<noteq> []" "\<forall>p \<in> set ps. is_fin (composite p)"
  shows "\<exists>v. calculateCenterWeighted ps nx ny = Fin v \<and> lo_c ps \<le> v \<and> v \<le> hi_c ps"
proof -
  let ?is = "[0 ..< length ps]"
  let ?c = "\<lambda>i. cval (ps ! i)" and ?w = "gaussWeight nx ny 0.5"
  have el: "\<forall>i \<in> set ?is. composite (ps ! i) = Fin (?c i) \<and> positionWeight nx ny 0.5 i = Fin (?w i)"
    using assms by (auto simp: composite_cval positionWeight_Fin)
  have ne: "?is \<noteq> []" using assms(3) by simp
  have w: "\<forall>i \<in> set ?is. 0 < ?w i" by (simp add: gaussWeight_pos)
  have c: "\<forall>i \<in> set ?is. lo_c ps \<le> ?c i \<and> ?c i \<le> hi_c ps"
    by (auto intro: cval_bounds [THEN conjunct1] cval_bounds [THEN conjunct2])
  note b = weighted_mean_bounds [OF ne w c]
  have "calculateCenterWeighted ps nx ny =
      Fin ((\<Sum>i\<leftarrow>?is. ?c i * ?w i) / (\<Sum>i\<leftarrow>?is. ?w i))"
    unfolding calculateCenterWeighted_def Let_def
    using foldl_weighted [of ?is "\<lambda>i. composite (ps ! i)" ?c "positionWeight nx ny 0.5" ?w 0 0, OF el]
      b(3)
    by simp
  with b(1,2) show ?thesis by blast
qed

lemma convex_between:
  fixes a b t lo hi :: real
  assumes "lo \<le> a" "a \<le> hi" "lo \<le> b" "b \<le> hi" "0 \<le> t" "t \<le> 1"
  shows "lo \<le> a + t * (b - a)" "a + t * (b - a) \<le> hi"
proof -
  have e: "a + t * (b - a) = (1 - t) * a + t * b" by (simp add: algebra_simps)
  have "(1 - t) * a + t * b \<le> hi"
    using assms by (intro convex_bound_le) auto
  then show "a + t * (b - a) \<le> hi" by (simp only: e)
  have "(1 - t) * (- a) + t * (- b) \<le> - lo"
    using assms by (intro convex_bound_le) auto
  then show "lo \<le> a + t * (b - a)" unfolding e by (simp add: algebra_simps)
qed

lemma interpolate_at_between:
  assumes "s \<noteq> []" "0 \<le> r"
  shows "Min (set s) \<le> interpolate_at s r" "interpolate_at s r \<le> Max (set s)"
proof -
  define k where "k = nat \<lfloor>r\<rfloor>"
  have kr: "real k = of_int \<lfloor>r\<rfloor>" using assms(2) by (simp add: k_def)
  have t: "0 \<le> r - real k" "r - real k \<le> 1" unfolding kr by linarith+
  have "Min (set s) \<le> interpolate_at s r \<and> interpolate_at s r \<le> Max (set s)"
  proof (cases "k + 1 < length s")
    case True
    then have a: "Min (set s) \<le> s ! k" "s ! k \<le> Max (set s)"
      and b: "Min (set s) \<le> s ! (k + 1)" "s ! (k + 1) \<le> Max (set s)"
      by simp_all
    have "interpolate_at s r = s ! k + (r - real k) * (s ! (k + 1) - s ! k)"
      using True by (simp add: interpolate_at_def Let_def k_def)
    then show ?thesis
      using convex_between [OF a b t] by simp
  next
    case False
    have "length s - 1 < length s" using assms(1) by simp
    then have "Min (set s) \<le> s ! (length s - 1)" "s ! (length s - 1) \<le> Max (set s)"
      by simp_all
    moreover have "interpolate_at s r = s ! (length s - 1)"
      using False by (simp add: interpolate_at_def Let_def k_def)
    ultimately show ?thesis by simp
  qed
  then show "Min (set s) \<le> interpolate_at s r" "interpolate_at s r \<le> Max (set s)"
    by simp_all
qed

lemma spec_percentile_between:
  assumes "cs \<noteq> []" "0 \<le> p"
  shows "Min (set cs) \<le> spec_percentile cs p" "spec_percentile cs p \<le> Max (set cs)"
proof -
  have s: "sort cs \<noteq> []" using assms(1) by (metis length_0_conv length_sort)
  have r: "0 \<le> p / 100 * real (length cs - 1)" using assms(2) by simp
  from interpolate_at_between [OF s r] assms(1)
  show "Min (set cs) \<le> spec_percentile cs p" "spec_percentile cs p \<le> Max (set cs)"
    by (simp_all add: spec_percentile_def)
qed

lemma percentile_between:
  assumes "ps \<noteq> []" "\<forall>p \<in> set ps. is_fin (composite p)" "0 \<le> q" "q \<le> 100"
  shows "\<exists>v. PatchBasedDetector_percentile (map composite ps) (Fin q) = Fin v \<and>
             lo_c ps \<le> v \<and> v \<le> hi_c ps"
proof -
  have ne: "map cval ps \<noteq> []" using assms(1) by simp
  show ?thesis
    unfolding composites_finite [OF assms(2)] PatchBasedDetector_percentile_spec [OF assms(3,4)]
    using spec_percentile_between [OF ne assms(3)] by (simp add: lo_c_def hi_c_def)
qed

lemma average_between:
  assumes "ps \<noteq> []" "\<forall>p \<in> set ps. is_fin (composite p)"
  shows "\<exists>v. jdiv (foldl jadd (Fin 0) (map composite ps)) (Fin (real (length (map composite ps))))
               = Fin v \<and> lo_c ps \<le> v \<and> v \<le> hi_c ps"
proof -
  have w: "\<forall>p \<in> set ps. 0 < (1::real)" by simp
  have c: "\<forall>p \<in> set ps. lo_c ps \<le> cval p \<and> cval p \<le> hi_c ps"
    by (auto intro: cval_bounds [THEN conjunct1] cval_bounds [THEN conjunct2])
  from weighted_mean_bounds(1,2) [OF assms(1) w c]
  have b: "lo_c ps \<le> sum_list (map cval ps) / real (length ps)"
          "sum_list (map cval ps) / real (length ps) \<le> hi_c ps"
    by (simp_all add: sum_list_triv)
  show ?thesis
    unfolding composites_finite [OF assms(2)] foldl_jadd_Fin
    using b assms(1) by simp
qed

lemma foldl_Math_max_Fin:
  "foldl Math_max (Fin a) (map ToNumber (map Fin cs)) = Fin (Max (insert a (set cs)))"
proof (induction cs arbitrary: a)
  case Nil
  show ?case by simp
next
  case (Cons c cs)
  have "Max (insert (max a c) (set cs)) = max a (Max (insert c (set cs)))"
    by (cases "set cs = {}") (simp_all add: max.assoc)
  then show ?case using Cons [of "max a c"] by simp
qed

lemma foldl_Math_min_Fin:
  "foldl Math_min (Fin a) (map ToNumber (map Fin cs)) = Fin (Min (insert a (set cs)))"
proof (induction cs arbitrary: a)
  case Nil
  show ?case by simp
next
  case (Cons c cs)
  have "Min (insert (min a c) (set cs)) = min a (Min (insert c (set cs)))"
    by (cases "set cs = {}") (simp_all add: min.assoc)
  then show ?case using Cons [of "min a c"] by simp
qed

lemma max_min_focus:
  assumes "ps \<noteq> []" "\<forall>p \<in> set ps. is_fin (composite p)"
  shows "foldl Math_max NInf (map ToNumber (map composite ps)) = Fin (hi_c ps)"
    and "foldl Math_min PInf (map ToNumber (map composite ps)) = Fin (lo_c ps)"
proof -
  obtain p ps' where ps: "ps = p # ps'" using assms(1) by (cases ps) auto
  have "insert (cval p) (set (map cval ps')) = set (map cval ps)" by (simp add: ps)
  then show "foldl Math_max NInf (map ToNumber (map composite ps)) = Fin (hi_c ps)"
    "foldl Math_min PInf (map ToNumber (map composite ps)) = Fin (lo_c ps)"
    unfolding composites_finite [OF assms(2)] hi_c_def lo_c_def
    using foldl_Math_max_Fin [of "cval p" "map cval ps'"] foldl_Math_min_Fin [of "cval p" "map cval ps'"]
    by (simp_all add: ps)
qed

text \<open>
  On a grid of at least two columns and two rows, with at least one patch and finite
  composite scores, every strategy but peak-focus lies between the least and the greatest
  composite score, which are \<open>minFocus\<close> and \<open>maxFocus\<close>.
\<close>

lemma aggregate_between:
  fixes cal :: "calibration_stats option" and bm :: "jsval list list"
  assumes g: "2 \<le> nx" "2 \<le> ny" and ne: "ps \<noteq> []"
    and fin: "\<forall>p \<in> set ps. is_fin (composite p)"
  defines "r \<equiv> aggregate cal ps nx ny bm"
  shows "minFocus r = Fin (lo_c ps)" and "maxFocus r = Fin (hi_c ps)"
    and "\<forall>s \<in> {avgFocus r, medianFocus r, top25Percentile r, top10Percentile r,
                centerWeighted r, subjectFocusAggressive r, subjectFocus r,
                subjectFocusConservative r, subjectFocusRelaxed r, subjectFocusStrict r,
                subjectFocusVeryStrict r}.
           \<exists>v. s = Fin v \<and> lo_c ps \<le> v \<and> v \<le> hi_c ps"
proof -
  show "minFocus r = Fin (lo_c ps)" "maxFocus r = Fin (hi_c ps)"
    by (simp_all add: r_def aggregate_def Let_def max_min_focus [OF ne fin] del: map_map)
  have sf: "\<exists>v. calculateSubjectFocusVariant ps nx ny tp sg = Fin v \<and> lo_c ps \<le> v \<and> v \<le> hi_c ps"
    if "sg \<noteq> 0" for sg tp
    using calculateSubjectFocusVariant_spec [OF g that ne fin] by blast
  have avg: "\<exists>v. avgFocus r = Fin v \<and> lo_c ps \<le> v \<and> v \<le> hi_c ps"
    using average_between [OF ne fin] by (simp add: r_def aggregate_def Let_def)
  have pc: "\<exists>v. medianFocus r = Fin v \<and> lo_c ps \<le> v \<and> v \<le> hi_c ps"
    "\<exists>v. top25Percentile r = Fin v \<and> lo_c ps \<le> v \<and> v \<le> hi_c ps"
    "\<exists>v. top10Percentile r = Fin v \<and> lo_c ps \<le> v \<and> v \<le> hi_c ps"
    using percentile_between [OF ne fin, of 50] percentile_between [OF ne fin, of 75]
      percentile_between [OF ne fin, of 90]
    by (simp_all add: r_def aggregate_def Let_def)
  have cw: "\<exists>v. centerWeighted r = Fin v \<and> lo_c ps \<le> v \<and> v \<le> hi_c ps"
    using calculateCenterWeighted_between [OF g ne fin] by (simp add: r_def aggregate_def Let_def)
  have sfs: "\<exists>v. subjectFocusAggressive r = Fin v \<and> lo_c ps \<le> v \<and> v \<le> hi_c ps"
    "\<exists>v. subjectFocus r = Fin v \<and> lo_c ps \<le> v \<and> v \<le> hi_c ps"
    "\<exists>v. subjectFocusConservative r = Fin v \<and> lo_c ps \<le> v \<and> v \<le> hi_c ps"
    "\<exists>v. subjectFocusRelaxed r = Fin v \<and> lo_c ps \<le> v \<and> v \<le> hi_c ps"
    "\<exists>v. subjectFocusStrict r = Fin v \<and> lo_c ps \<le> v \<and> v \<le> hi_c ps"
    "\<exists>v. subjectFocusVeryStrict r = Fin v \<and> lo_c ps \<le> v \<and> v \<le> hi_c ps"
    using sf [of "1.5" "0.08"] sf [of "1.0" "0.12"] sf [of "0.7" "0.18"] sf [of "0.5" "0.28"]
      sf [of "0.4" "0.38"] sf [of "0.35" "0.40"]
    by (simp_all add: r_def aggregate_def Let_def calculateSubjectFocusAggressive_def
          calculateSubjectFocus_def calculateSubjectFocusConservative_def
          calculateSubjectFocusRelaxed_def calculateSubjectFocusStrict_def
          calculateSubjectFocusVeryStrict_def)
  show "\<forall>s \<in> {avgFocus r, medianFocus r, top25Percentile r, top10Percentile r,
                centerWeighted r, subjectFocusAggressive r, subjectFocus r,
                subjectFocusConservative r, subjectFocusRelaxed r, subjectFocusStrict r,
                subjectFocusVeryStrict r}.
           \<exists>v. s = Fin v \<and> lo_c ps \<le> v \<and> v \<le> hi_c ps"
    using avg pc cw sfs by blast
qed

lemma positionWeight_1: "positionWeight (Suc 0) ny sg 0 = NaN"
  by (simp add: positionWeight_def Let_def jsub_def jmod_def)

lemma one_patch_aggregate:
  assumes "composite p = Fin c"
  shows "minFocus (aggregate None [p] 1 1 bm) = Fin c"
    and "maxFocus (aggregate None [p] 1 1 bm) = Fin c"
    and "centerWeighted (aggregate None [p] 1 1 bm) = NaN"
    and "subjectFocusAggressive (aggregate None [p] 1 1 bm) = NaN"
    and "subjectFocus (aggregate None [p] 1 1 bm) = NaN"
    and "subjectFocusConservative (aggregate None [p] 1 1 bm) = NaN"
    and "subjectFocusRelaxed (aggregate None [p] 1 1 bm) = NaN"
    and "subjectFocusStrict (aggregate None [p] 1 1 bm) = NaN"
    and "subjectFocusVeryStrict (aggregate None [p] 1 1 bm) = NaN"
proof -
  have cw: "calculateCenterWeighted [p] (Suc 0) (Suc 0) = NaN"
    by (simp add: calculateCenterWeighted_def positionWeight_1 assms)
  have t: "take (nat (topN (Suc 0) tp)) [a] = [a]" for tp and a :: scored_patch
    using topN_ge(1) [of "Suc 0" tp] by (intro take_all) simp
  have sf: "calculateSubjectFocusVariant [p] (Suc 0) (Suc 0) tp sg = NaN" for tp sg
    by (simp add: calculateSubjectFocusVariant_def topPatches_def scoredPatches_def
          sort_by_def positionWeight_1 t assms)
  show "minFocus (aggregate None [p] 1 1 bm) = Fin c"
    and "maxFocus (aggregate None [p] 1 1 bm) = Fin c"
    and "centerWeighted (aggregate None [p] 1 1 bm) = NaN"
    and "subjectFocusAggressive (aggregate None [p] 1 1 bm) = NaN"
    and "subjectFocus (aggregate None [p] 1 1 bm) = NaN"
    and "subjectFocusConservative (aggregate None [p] 1 1 bm) = NaN"
    and "subjectFocusRelaxed (aggregate None [p] 1 1 bm) = NaN"
    and "subjectFocusStrict (aggregate None [p] 1 1 bm) = NaN"
    and "subjectFocusVeryStrict (aggregate None [p] 1 1 bm) = NaN"
    by (simp_all add: aggregate_def Let_def cw sf assms
          calculateSubjectFocusAggressive_def
          calculateSubjectFocus_def calculateSubjectFocusConservative_def
          calculateSubjectFocusRelaxed_def calculateSubjectFocusStrict_def
          calculateSubjectFocusVeryStrict_def)
qed

lemma flat_env_one_patch:
  "PatchBasedDetector_calculateBlurScore None 1 (sharp_metadata flat_env)
     (sharp_extract flat_env) (sharp_raw flat_env) () =
     Inr (aggregate None [flat_patch] 1 1 [[Fin 0]])"
proof -
  have d: "divideIntoPatches (sharp_metadata flat_env) (sharp_extract flat_env) () 1 1 =
      Inr [\<lparr>patch_x = 0, patch_y = 0, patch_left = 0, patch_top = 0, patch_width = 3,
            patch_height = 3, patch_buffer = ()\<rparr>]"
    by (simp add: divideIntoPatches_def flat_env_def Let_def)
  have c: "CompositeDetector_calculateBlurScore None (sharp_raw flat_env) () = Inr flat_gray_score"
    by (rule flat_gray_composite_gen) (simp add: flat_env_def)
  have bm: "blurMapOf [flat_patch] 1 1 = Inr [[Fin 0]]"
    by (simp add: blurMapOf_def Let_def flat_patch_def)
  show ?thesis
    unfolding PatchBasedDetector_calculateBlurScore_def Let_def d
    using bm by (simp add: c flat_gray_score_def flat_patch_def)
qed

text \<open>
  Claim C10, at an input where the code leaves the range. On a grid of one patch the
  centre of the grid is at 0 on both axes, the normalized distance is \<open>0 / 0\<close>, and the
  position weight is \<open>NaN\<close>: center-weighted and all six subject-focus variants return
  \<open>NaN\<close>, while the least and the greatest composite score are equal and finite. So it is
  for the flat 3 by 3 image analysed with grid size 1 (composite 0), and for a single patch
  of composite score 50.
\<close>

theorem one_patch_grid_NaN:
  "PatchBasedDetector_calculateBlurScore None 1 (sharp_metadata flat_env)
     (sharp_extract flat_env) (sharp_raw flat_env) () =
     Inr (aggregate None [flat_patch] 1 1 [[Fin 0]]) \<and>
   minFocus (aggregate None [flat_patch] 1 1 [[Fin 0]]) = Fin 0 \<and>
   maxFocus (aggregate None [flat_patch] 1 1 [[Fin 0]]) = Fin 0 \<and>
   centerWeighted (aggregate None [flat_patch] 1 1 [[Fin 0]]) = NaN \<and>
   subjectFocus (aggregate None [flat_patch] 1 1 [[Fin 0]]) = NaN \<and>
   minFocus (aggregate None [mk_patch 50 1000] 1 1 [[Fin 50]]) = Fin 50 \<and>
   maxFocus (aggregate None [mk_patch 50 1000] 1 1 [[Fin 50]]) = Fin 50 \<and>
   centerWeighted (aggregate None [mk_patch 50 1000] 1 1 [[Fin 50]]) = NaN \<and>
   subjectFocusAggressive (aggregate None [mk_patch 50 1000] 1 1 [[Fin 50]]) = NaN \<and>
   subjectFocus (aggregate None [mk_patch 50 1000] 1 1 [[Fin 50]]) = NaN \<and>
   subjectFocusConservative (aggregate None [mk_patch 50 1000] 1 1 [[Fin 50]]) = NaN \<and>
   subjectFocusRelaxed (aggregate None [mk_patch 50 1000] 1 1 [[Fin 50]]) = NaN \<and>
   subjectFocusStrict (aggregate None [mk_patch 50 1000] 1 1 [[Fin 50]]) = NaN \<and>
   subjectFocusVeryStrict (aggregate None [mk_patch 50 1000] 1 1 [[Fin 50]]) = NaN"
proof -
  have f: "composite flat_patch = Fin 0" by (simp add: flat_patch_def)
  have m: "composite (mk_patch 50 1000) = Fin 50" by (simp add: mk_patch_simps)
  show ?thesis
    using flat_env_one_patch one_patch_aggregate [OF f, of "[[Fin 0]]"]
      one_patch_aggregate [OF m, of "[[Fin 50]]"]
    by simp
qed

section \<open>Calibration statistics\<close>

lemma length_insort_by: "length (insort_by cmp a bs) = Suc (length bs)"
  by (induction bs) auto

lemma mset_insort_by: "mset (insort_by cmp a bs) = add_mset a (mset bs)"
  by (induction bs) auto

lemma mset_sort_by: "mset (sort_by cmp xs) = mset xs"
  by (induction xs) (auto simp: sort_by_def mset_insort_by)

lemma mset_sort_numbers: "mset (sort_numbers cmp xs) = mset xs"
  by (simp add: sort_numbers_def mset_sort_by)

lemma length_sort_numbers: "length (sort_numbers cmp xs) = length xs"
  using mset_sort_numbers [of cmp xs] by (metis size_mset)

lemma sort_numbers_finite:
  assumes "\<forall>v \<in> set xs. is_fin v"
  shows "sort_numbers (\<lambda>a b. jsub a b) xs = map Fin (sort (map fin_val xs))"
proof -
  have "xs = map Fin (map fin_val xs)"
    using assms by (intro all_fin_map) (simp add: list_all_iff)
  then show ?thesis using sort_numbers_sub [of "map fin_val xs"] by simp
qed

text \<open>
  Claim C6. \<open>computeStats\<close> fails if and only if no result is left after the filter that
  drops the results with an error or without scores, and then with the message
  \<open>No valid results to compute statistics from\<close> (the source throws a plain \<open>Error\<close>: this
  is the specification's \<open>CalibrationError\<close>). When it succeeds in patch mode, the four
  score arrays hold exactly the scores of all patches of all valid images (as multisets;
  sorted ascending when the scores are finite), \<open>totalSamples\<close> is the number of these
  patches, \<open>sampleSize\<close> is the number of valid images, and the statistics of each
  algorithm are computed from its array.
\<close>

theorem computeStats_fails_iff_no_valid_result:
  "((\<exists>message. computeStats results pm = Inl message) \<longleftrightarrow> validResults results = []) \<and>
   (validResults results = [] \<longrightarrow>
      computeStats results pm = Inl ''No valid results to compute statistics from'') \<and>
   (computeStats results True = Inr stats \<longrightarrow>
      sampleSize stats = length (validResults results) \<and>
      totalSamples stats = length (flattened results) \<and>
      patchMode stats = True \<and>
      laplacian stats = algoStats (laplacian (scoreArrays (validResults results) True)) \<and>
      gradient stats = algoStats (gradient (scoreArrays (validResults results) True)) \<and>
      tenengrad stats = algoStats (tenengrad (scoreArrays (validResults results) True)) \<and>
      variance stats = algoStats (variance (scoreArrays (validResults results) True))) \<and>
   mset (laplacian (scoreArrays (validResults results) True)) = mset (map laplacian (flattened results)) \<and>
   mset (gradient (scoreArrays (validResults results) True)) = mset (map gradient (flattened results)) \<and>
   mset (tenengrad (scoreArrays (validResults results) True)) = mset (map tenengrad (flattened results)) \<and>
   mset (variance (scoreArrays (validResults results) True)) = mset (map variance (flattened results)) \<and>
   ((\<forall>p \<in> set (flattened results). is_fin (laplacian p) \<and> is_fin (gradient p) \<and>
        is_fin (tenengrad p) \<and> is_fin (variance p)) \<longrightarrow>
      scoreArrays (validResults results) True =
        \<lparr>laplacian = map Fin (sort (map (\<lambda>p. fin_val (laplacian p)) (flattened results))),
         gradient = map Fin (sort (map (\<lambda>p. fin_val (gradient p)) (flattened results))),
         tenengrad = map Fin (sort (map (\<lambda>p. fin_val (tenengrad p)) (flattened results))),
         variance = map Fin (sort (map (\<lambda>p. fin_val (variance p)) (flattened results)))\<rparr>)"
proof -
  have 1: "(\<exists>message. computeStats results pm = Inl message) \<longleftrightarrow> validResults results = []"
    by (auto simp: computeStats_def Let_def)
  have 2: "computeStats results pm = Inl ''No valid results to compute statistics from''"
    if "validResults results = []"
    using that by (simp add: computeStats_def Let_def)
  have 3: "sampleSize stats = length (validResults results) \<and>
      totalSamples stats = length (flattened results) \<and>
      patchMode stats = True \<and>
      laplacian stats = algoStats (laplacian (scoreArrays (validResults results) True)) \<and>
      gradient stats = algoStats (gradient (scoreArrays (validResults results) True)) \<and>
      tenengrad stats = algoStats (tenengrad (scoreArrays (validResults results) True)) \<and>
      variance stats = algoStats (variance (scoreArrays (validResults results) True))"
    if "computeStats results True = Inr stats"
  proof -
    have "length (laplacian (scoreArrays (validResults results) True)) = length (flattened results)"
      by (simp add: scoreArrays_def Let_def length_sort_numbers flattened_def)
    then show ?thesis
      using that by (auto simp: computeStats_def Let_def split: if_splits)
  qed
  have 4: "mset (laplacian (scoreArrays (validResults results) True)) = mset (map laplacian (flattened results))"
    "mset (gradient (scoreArrays (validResults results) True)) = mset (map gradient (flattened results))"
    "mset (tenengrad (scoreArrays (validResults results) True)) = mset (map tenengrad (flattened results))"
    "mset (variance (scoreArrays (validResults results) True)) = mset (map variance (flattened results))"
    by (simp_all add: scoreArrays_def Let_def mset_sort_numbers flattened_def)
  have 5: "scoreArrays (validResults results) True =
        \<lparr>laplacian = map Fin (sort (map (\<lambda>p. fin_val (laplacian p)) (flattened results))),
         gradient = map Fin (sort (map (\<lambda>p. fin_val (gradient p)) (flattened results))),
         tenengrad = map Fin (sort (map (\<lambda>p. fin_val (tenengrad p)) (flattened results))),
         variance = map Fin (sort (map (\<lambda>p. fin_val (variance p)) (flattened results)))\<rparr>"
    if "\<forall>p \<in> set (flattened results). is_fin (laplacian p) \<and> is_fin (gradient p) \<and>
        is_fin (tenengrad p) \<and> is_fin (variance p)"
  proof -
    have "sort_numbers (\<lambda>a b. jsub a b) (map f (flattened results))
        = map Fin (sort (map (\<lambda>p. fin_val (f p)) (flattened results)))"
      if "\<forall>p \<in> set (flattened results). is_fin (f p)" for f :: "patch_score \<Rightarrow> jsval"
      using sort_numbers_finite [of "map f (flattened results)"] that by (simp add: comp_def)
    then show ?thesis
      using that by (simp add: scoreArrays_def Let_def flattened_def [symmetric])
  qed
  show ?thesis using 1 2 3 4 5 by blast
qed

lemma corpus_valid:
  "validResults corpus = [patch_analysis ''a.nef'' [mk_patch 10 100, mk_patch 20 300],
                          patch_analysis ''c.nef'' [mk_patch 30 200]]"
  "validResults [failed_analysis ''b.nef''] = []"
  by (simp_all add: validResults_def corpus_def patch_analysis_def failed_analysis_def)

lemma corpus_flattened:
  "flattened corpus = [mk_patch 10 100, mk_patch 20 300, mk_patch 30 200]"
  by (simp add: flattened_def corpus_valid patchScoresOf_def patch_analysis_def patchReport_def
        aggregate_def Let_def)

text \<open>
  The theorem on a corpus of one failed image (the computation fails) and on the example
  corpus (two valid images, three patches).
\<close>

theorem computeStats_fails_iff_no_valid_result_witness:
  "computeStats [failed_analysis ''b.nef''] True =
     Inl ''No valid results to compute statistics from'' \<and>
   (\<exists>stats. computeStats corpus True = Inr stats \<and> sampleSize stats = 2 \<and>
      totalSamples stats = 3 \<and> patchMode stats) \<and>
   tenengrad (scoreArrays (validResults corpus) True) = [Fin 100, Fin 200, Fin 300]"
proof -
  from computeStats_fails_iff_no_valid_result [of "[failed_analysis ''b.nef'']" True]
    corpus_valid(2)
  have a: "computeStats [failed_analysis ''b.nef''] True =
     Inl ''No valid results to compute statistics from''"
    by blast
  have "\<not> (\<exists>message. computeStats corpus True = Inl message)"
    using computeStats_fails_iff_no_valid_result [of corpus True] corpus_valid(1) by simp
  then obtain stats where s: "computeStats corpus True = Inr stats"
    by (cases "computeStats corpus True") auto
  note T = computeStats_fails_iff_no_valid_result [of corpus True stats]
  from T s have b: "sampleSize stats = 2" "totalSamples stats = 3" "patchMode stats"
    by (simp_all add: corpus_valid(1) corpus_flattened)
  have fin: "\<forall>p \<in> set (flattened corpus). is_fin (laplacian p) \<and> is_fin (gradient p) \<and>
        is_fin (tenengrad p) \<and> is_fin (variance p)"
    by (simp add: corpus_flattened mk_patch_def)
  from T fin have c: "tenengrad (scoreArrays (validResults corpus) True) =
      map Fin (sort (map (\<lambda>p. fin_val (tenengrad p)) (flattened corpus)))"
    by simp
  have "tenengrad (scoreArrays (validResults corpus) True) = [Fin 100, Fin 200, Fin 300]"
    unfolding c by (simp add: corpus_flattened mk_patch_simps)
  with a s b show ?thesis by blast
qed

section \<open>Unsupported algorithm and strategy names\<close>

lemma round2_NaN: "round2 NaN = NaN"
  by (simp add: round2_def)

lemma detector_of_unsupported:
  assumes "alg \<notin> supported_algorithms" "alg \<noteq> []" "opt_algorithm opts = Some alg"
  shows "this_algorithm (BlurDetector_new opts) = alg"
    and "detector_of (BlurDetector_new opts) = CompositeDet (opt_calibrationStats opts)"
  using assms by (simp_all add: BlurDetector_new_def detector_of_def Let_def supported_algorithms_def)

lemma detector_of_patch_based:
  assumes "strategy \<noteq> []" "opt_algorithm opts = Some ''patch-based''"
    "opt_strategy opts = Some strategy"
  shows "this_strategy (BlurDetector_new opts) = strategy"
    and "detector_of (BlurDetector_new opts) =
           PatchBasedDet (opt_calibrationStats opts) (this_patchSize (BlurDetector_new opts))"
  using assms
  by (auto simp: BlurDetector_new_def detector_of_def Let_def split: option.splits)

lemma upt_2: "[0 ..< 2::nat] = [0, 1]"
  by (simp add: upt_rec)

lemma flat_env_composite:
  "CompositeDetector_calculateBlurScore None (sharp_raw flat_env) () = Inr flat_gray_score"
  by (rule flat_gray_composite_gen) (simp add: flat_env_def)

lemma flat_env_four_patches:
  "PatchBasedDetector_calculateBlurScore None 2 (sharp_metadata flat_env)
     (sharp_extract flat_env) (sharp_raw flat_env) () =
     Inr (aggregate None flat_patches 2 2 [[Fin 0, Fin 0], [Fin 0, Fin 0]])"
proof -
  have d: "divideIntoPatches (sharp_metadata flat_env) (sharp_extract flat_env) () 2 2 =
      Inr [\<lparr>patch_x = 0, patch_y = 0, patch_left = 0, patch_top = 0, patch_width = 1,
            patch_height = 1, patch_buffer = ()\<rparr>,
           \<lparr>patch_x = 1, patch_y = 0, patch_left = 1, patch_top = 0, patch_width = 1,
            patch_height = 1, patch_buffer = ()\<rparr>,
           \<lparr>patch_x = 0, patch_y = 1, patch_left = 0, patch_top = 1, patch_width = 1,
            patch_height = 1, patch_buffer = ()\<rparr>,
           \<lparr>patch_x = 1, patch_y = 1, patch_left = 1, patch_top = 1, patch_width = 1,
            patch_height = 1, patch_buffer = ()\<rparr>]"
    by (simp add: divideIntoPatches_def flat_env_def Let_def upt_2)
  have bm: "blurMapOf flat_patches 2 2 = Inr [[Fin 0, Fin 0], [Fin 0, Fin 0]]"
    by (simp add: blurMapOf_def Let_def flat_patches_def flat_patch_def upt_2)
  show ?thesis
    unfolding PatchBasedDetector_calculateBlurScore_def Let_def d
    using bm by (simp add: flat_env_composite flat_gray_score_def flat_patches_def flat_patch_def)
qed

text \<open>
  Claim C7, amended. No name is rejected: the code has no configuration error and checks
  neither name. With an algorithm name that is none of the six, construction succeeds and
  builds the composite detector (the default branch of the constructor's switch), and the
  analysis of a file that this detector scores returns a result without error, whose
  verdict is the composite detector's. With a strategy name that is none of the twelve,
  construction of a patch-based detector succeeds, and the analysis of a file that the
  detector scores returns a result without error, with the verdict of \<open>isBlurry\<close> and the
  patch scores.
\<close>

theorem unsupported_names_fall_back:
  "(alg \<notin> supported_algorithms \<and> alg \<noteq> [] \<and> opt_algorithm opts = Some alg \<longrightarrow>
      this_algorithm (BlurDetector_new opts) = alg \<and>
      detector_of (BlurDetector_new opts) = CompositeDet (opt_calibrationStats opts) \<and>
      (extract_preview env filePath = Inr buffer \<and>
       CompositeDetector_calculateBlurScore (opt_calibrationStats opts) (sharp_raw env) buffer
         = Inr rawScore \<longrightarrow>
         error (BlurDetector_analyze env (BlurDetector_new opts) filePath) = None \<and>
         algorithm (BlurDetector_analyze env (BlurDetector_new opts) filePath) = Some alg \<and>
         isBlurry (BlurDetector_analyze env (BlurDetector_new opts) filePath) =
           Some (CompositeDetector_isBlurry rawScore (this_threshold (BlurDetector_new opts))))) \<and>
   (strategy \<notin> supported_strategies \<and> strategy \<noteq> [] \<and>
    opt_algorithm popts = Some ''patch-based'' \<and> opt_strategy popts = Some strategy \<longrightarrow>
      this_strategy (BlurDetector_new popts) = strategy \<and>
      detector_of (BlurDetector_new popts) =
        PatchBasedDet (opt_calibrationStats popts) (this_patchSize (BlurDetector_new popts)) \<and>
      (extract_preview env filePath = Inr buffer \<and>
       PatchBasedDetector_calculateBlurScore (opt_calibrationStats popts)
         (this_patchSize (BlurDetector_new popts))
         (sharp_metadata env) (sharp_extract env) (sharp_raw env) buffer = Inr patchScore \<longrightarrow>
         error (BlurDetector_analyze env (BlurDetector_new popts) filePath) = None \<and>
         algorithm (BlurDetector_analyze env (BlurDetector_new popts) filePath) =
           Some ''patch-based'' \<and>
         isBlurry (BlurDetector_analyze env (BlurDetector_new popts) filePath) =
           Some (PatchBasedDetector_isBlurry patchScore
                   (this_threshold (BlurDetector_new popts)) strategy) \<and>
         scores (BlurDetector_analyze env (BlurDetector_new popts) filePath) =
           Some (PatchScores (patchReport patchScore))))"
proof -
  have a: "error (BlurDetector_analyze env (BlurDetector_new opts) filePath) = None \<and>
         algorithm (BlurDetector_analyze env (BlurDetector_new opts) filePath) = Some alg \<and>
         isBlurry (BlurDetector_analyze env (BlurDetector_new opts) filePath) =
           Some (CompositeDetector_isBlurry rawScore (this_threshold (BlurDetector_new opts)))"
    if "alg \<notin> supported_algorithms" "alg \<noteq> []" "opt_algorithm opts = Some alg"
      "extract_preview env filePath = Inr buffer"
      "CompositeDetector_calculateBlurScore (opt_calibrationStats opts) (sharp_raw env) buffer
         = Inr rawScore"
    using that(4,5) detector_of_unsupported [OF that(1-3)]
    by (simp add: BlurDetector_analyze_def scored_def)
  have s: "error (BlurDetector_analyze env (BlurDetector_new popts) filePath) = None \<and>
         algorithm (BlurDetector_analyze env (BlurDetector_new popts) filePath) =
           Some ''patch-based'' \<and>
         isBlurry (BlurDetector_analyze env (BlurDetector_new popts) filePath) =
           Some (PatchBasedDetector_isBlurry patchScore
                   (this_threshold (BlurDetector_new popts)) strategy) \<and>
         scores (BlurDetector_analyze env (BlurDetector_new popts) filePath) =
           Some (PatchScores (patchReport patchScore))"
    if "strategy \<noteq> []" "opt_algorithm popts = Some ''patch-based''"
      "opt_strategy popts = Some strategy"
      "extract_preview env filePath = Inr buffer"
      "PatchBasedDetector_calculateBlurScore (opt_calibrationStats popts)
         (this_patchSize (BlurDetector_new popts))
         (sharp_metadata env) (sharp_extract env) (sharp_raw env) buffer = Inr patchScore"
  proof -
    have "this_algorithm (BlurDetector_new popts) = ''patch-based''"
      using that(2) by (simp add: BlurDetector_new_def Let_def)
    then show ?thesis
      using that(4,5) detector_of_patch_based [OF that(1-3)]
      by (simp add: BlurDetector_analyze_def scored_def)
  qed
  show ?thesis
    using a s detector_of_unsupported [of alg opts] detector_of_patch_based [of strategy popts]
    by blast
qed

text \<open>
  The theorem for the algorithm name \<open>fft\<close> and for the strategy name \<open>sharpest\<close> on a 2 by 2
  grid, on a platform whose files decode to the flat image: both analyses return a result
  without error, and the verdict is that the file is blurry.
\<close>

theorem unsupported_names_fall_back_witness:
  "this_algorithm (BlurDetector_new fft_options) = ''fft'' \<and>
   detector_of (BlurDetector_new fft_options) = CompositeDet None \<and>
   error (BlurDetector_analyze flat_env (BlurDetector_new fft_options) ''a.nef'') = None \<and>
   isBlurry (BlurDetector_analyze flat_env (BlurDetector_new fft_options) ''a.nef'') = Some True \<and>
   this_strategy (BlurDetector_new sharpest_options) = ''sharpest'' \<and>
   detector_of (BlurDetector_new sharpest_options) = PatchBasedDet None 2 \<and>
   error (BlurDetector_analyze flat_env (BlurDetector_new sharpest_options) ''a.nef'') = None \<and>
   isBlurry (BlurDetector_analyze flat_env (BlurDetector_new sharpest_options) ''a.nef'') =
     Some (PatchBasedDetector_isBlurry
             (aggregate None flat_patches 2 2 [[Fin 0, Fin 0], [Fin 0, Fin 0]]) (Fin 30)
             ''sharpest'') \<and>
   isBlurry (BlurDetector_analyze flat_env (BlurDetector_new sharpest_options) ''a.nef'') =
     Some True \<and>
   scores (BlurDetector_analyze flat_env (BlurDetector_new sharpest_options) ''a.nef'') =
     Some (PatchScores
             (patchReport (aggregate None flat_patches 2 2 [[Fin 0, Fin 0], [Fin 0, Fin 0]])))"
proof -
  have h: "''fft'' \<notin> supported_algorithms" "''fft'' \<noteq> []"
    "opt_algorithm fft_options = Some ''fft''" "opt_calibrationStats fft_options = None"
    "extract_preview flat_env ''a.nef'' = Inr ()"
    "''sharpest'' \<notin> supported_strategies" "''sharpest'' \<noteq> []"
    "opt_algorithm sharpest_options = Some ''patch-based''"
    "opt_strategy sharpest_options = Some ''sharpest''"
    "opt_calibrationStats sharpest_options = None"
    by (simp_all add: supported_algorithms_def supported_strategies_def fft_options_def
          sharpest_options_def flat_env_def)
  have th: "this_threshold (BlurDetector_new fft_options) = Fin 30"
    "this_threshold (BlurDetector_new sharpest_options) = Fin 30"
    "this_patchSize (BlurDetector_new sharpest_options) = 2"
    by (simp_all add: BlurDetector_new_def fft_options_def sharpest_options_def Let_def given_def)
  have v: "CompositeDetector_isBlurry flat_gray_score (Fin 30) = True"
    by (simp add: CompositeDetector_isBlurry_def flat_gray_score_def)
  have fin: "flat_patches \<noteq> []" "\<forall>p \<in> set flat_patches. is_fin (composite p)"
    by (simp_all add: flat_patches_def flat_patch_def)
  have "hi_c flat_patches = 0" by (simp add: hi_c_def flat_patches_def flat_patch_def cval_def)
  then have "maxFocus (aggregate None flat_patches 2 2 [[Fin 0, Fin 0], [Fin 0, Fin 0]]) = Fin 0"
    using max_min_focus(1) [OF fin] by (simp add: aggregate_def Let_def del: map_map)
  then have w: "PatchBasedDetector_isBlurry
      (aggregate None flat_patches 2 2 [[Fin 0, Fin 0], [Fin 0, Fin 0]]) (Fin 30) ''sharpest''
      = True"
    by (simp add: PatchBasedDetector_isBlurry_def)
  note T = unsupported_names_fall_back
             [of "''fft''" fft_options flat_env "''a.nef''" "()" flat_gray_score "''sharpest''"
                 sharpest_options
                 "aggregate None flat_patches 2 2 [[Fin 0, Fin 0], [Fin 0, Fin 0]]"]
  from T h flat_env_composite flat_env_four_patches show ?thesis
    by (simp add: th v w)
qed

text \<open>
  Claim C7 as stated fails: with the algorithm \<open>fft\<close> the analysis of a file returns a
  verdict and no error, and with the strategy \<open>sharpest\<close> the blurry decision returns a
  verdict.
\<close>

theorem unsupported_names_counterexample:
  "BlurDetector_analyze flat_env (BlurDetector_new fft_options) ''a.nef'' =
     \<lparr>file_path = ''a.nef'', fileName = ''a.nef'', blurScore = Some NaN, isBlurry = Some True,
      threshold = Some (Fin 30), algorithm = Some ''fft'', scores = None, error = None\<rparr> \<and>
   PatchBasedDetector_isBlurry (aggregate None grid64 8 8 []) (Fin 60) ''sharpest'' = True"
proof -
  have d: "BlurDetector_new fft_options =
      \<lparr>this_threshold = Fin 30, this_algorithm = ''fft'', this_calibrationStats = None,
       this_strategy = ''average'', this_patchSize = 8\<rparr>"
    by (simp add: BlurDetector_new_def fft_options_def Let_def given_def)
  have a: "BlurDetector_analyze flat_env (BlurDetector_new fft_options) ''a.nef'' =
     \<lparr>file_path = ''a.nef'', fileName = ''a.nef'', blurScore = Some NaN, isBlurry = Some True,
      threshold = Some (Fin 30), algorithm = Some ''fft'', scores = None, error = None\<rparr>"
  proof -
    have det: "detector_of \<lparr>this_threshold = Fin 30, this_algorithm = ''fft'',
        this_calibrationStats = None, this_strategy = ''average'', this_patchSize = 8\<rparr>
        = CompositeDet None"
      by (simp add: detector_of_def)
    have ex: "extract_preview flat_env ''a.nef'' = Inr ()"
      "path_basename flat_env ''a.nef'' = ''a.nef''"
      by (simp_all add: flat_env_def)
    show ?thesis
      unfolding d
      by (simp add: BlurDetector_analyze_def det ex flat_env_composite round2_NaN
            scored_def CompositeDetector_isBlurry_def flat_gray_score_def)
  qed
  have fin: "grid64 \<noteq> []" "\<forall>p \<in> set grid64. is_fin (composite p)"
    by (simp_all add: grid64_def mk_patch_simps)
  have "hi_c grid64 = 50" by (simp add: hi_c_def grid64_def mk_patch_simps)
  then have m: "maxFocus (aggregate None grid64 8 8 []) = Fin 50"
    using max_min_focus(1) [OF fin] by (simp add: aggregate_def Let_def del: map_map)
  have b: "PatchBasedDetector_isBlurry (aggregate None grid64 8 8 []) (Fin 60) ''sharpest'' = True"
    by (simp add: PatchBasedDetector_isBlurry_def m)
  show ?thesis using a b by simp
qed

section \<open>Failures stay inside the analysis of one file\<close>










end
